theory Spec2Isabelle
  imports Complex_Main
begin

section \<open>JavaScript values, errors and the runtime\<close>

text \<open>
  The program is JavaScript that passes JSON data between a language model, a research
  service and a spreadsheet. A value is what \<^verbatim>\<open>JSON.parse\<close> can produce, plus
  \<^verbatim>\<open>undefined\<close> (the result of reading an absent property) and an opaque function
  value (what a module-level function name is bound to). An array carries its elements and
  the named properties the code may assign to it later; an object is the list of its own
  properties, read with \<open>map_of\<close>. Numbers are modelled as exact reals, with NaN apart.
  A string is the list of its code units, each of them below 256 (the characters of
  Latin-1): this is what \<open>char\<close> holds, and the texts the code itself writes lie in
  this range.
\<close>

datatype jsval =
    JUndef
  | JNull
  | JBool bool
  | JNum real
  | JNaN
  | JStr string
  | JArr "jsval list" "(string \<times> jsval) list"
  | JObj "(string \<times> jsval) list"
  | JFun string

datatype js_error =
    TypeError string
  | ReferenceError string
  | SyntaxError string
  | Error string

fun error_message :: "js_error \<Rightarrow> string" where
  "error_message (TypeError m) = m"
| "error_message (ReferenceError m) = m"
| "error_message (SyntaxError m) = m"
| "error_message (Error m) = m"

text \<open>
  What the code takes from the JavaScript runtime and does not define itself:
  \<^verbatim>\<open>JSON.parse\<close> (which throws a SyntaxError on text that is not JSON),
  \<^verbatim>\<open>JSON.stringify\<close>, the conversions of a value to a string and to a number
  (\<open>None\<close> is NaN), and the clock behind \<^verbatim>\<open>new Date().toISOString()\<close>.
\<close>

record runtime =
  json_parse :: "jsval \<Rightarrow> js_error + jsval"
  json_stringify :: "jsval \<Rightarrow> string"
  to_string :: "jsval \<Rightarrow> string"
  to_number :: "jsval \<Rightarrow> real option"
  now_iso :: string

definition bind_result :: "'e + 'a \<Rightarrow> ('a \<Rightarrow> 'e + 'b) \<Rightarrow> 'e + 'b" where
  "bind_result m f = (case m of Inl e \<Rightarrow> Inl e | Inr x \<Rightarrow> f x)"

definition try_catch :: "'e + 'a \<Rightarrow> ('e \<Rightarrow> 'e + 'a) \<Rightarrow> 'e + 'a" where
  "try_catch body handler = (case body of Inl e \<Rightarrow> handler e | Inr x \<Rightarrow> Inr x)"

fun truthy :: "jsval \<Rightarrow> bool" where
  "truthy JUndef = False"
| "truthy JNull = False"
| "truthy (JBool b) = b"
| "truthy (JNum r) = (r \<noteq> 0)"
| "truthy JNaN = False"
| "truthy (JStr s) = (s \<noteq> [])"
| "truthy (JArr xs ps) = True"
| "truthy (JObj kvs) = True"
| "truthy (JFun f) = True"

definition is_array :: "jsval \<Rightarrow> bool" where
  "is_array v = (case v of JArr xs ps \<Rightarrow> True | _ \<Rightarrow> False)"

definition is_object :: "jsval \<Rightarrow> bool" where
  "is_object v = (case v of JObj kvs \<Rightarrow> True | _ \<Rightarrow> False)"

definition js_or :: "jsval \<Rightarrow> jsval \<Rightarrow> jsval" where
  "js_or a b = (if truthy a then a else b)"

definition own :: "(string \<times> jsval) list \<Rightarrow> string \<Rightarrow> jsval" where
  "own kvs k = (case map_of kvs k of None \<Rightarrow> JUndef | Some v \<Rightarrow> v)"

text \<open>
  \<^verbatim>\<open>v.k\<close> for the property names the code reads. Reading a property of
  \<^verbatim>\<open>undefined\<close> or \<^verbatim>\<open>null\<close> throws; a string and an array have a
  \<^verbatim>\<open>length\<close>.
\<close>

fun get_prop :: "jsval \<Rightarrow> string \<Rightarrow> js_error + jsval" where
  "get_prop JUndef k = Inl (TypeError (''Cannot read properties of undefined (reading '' @ k @ '')''))"
| "get_prop JNull k = Inl (TypeError (''Cannot read properties of null (reading '' @ k @ '')''))"
| "get_prop (JObj kvs) k = Inr (own kvs k)"
| "get_prop (JArr xs ps) k = Inr (if k = ''length'' then JNum (real (length xs)) else own ps k)"
| "get_prop (JStr s) k = Inr (if k = ''length'' then JNum (real (length s)) else JUndef)"
| "get_prop (JBool b) k = Inr JUndef"
| "get_prop (JNum r) k = Inr JUndef"
| "get_prop JNaN k = Inr JUndef"
| "get_prop (JFun f) k = Inr JUndef"

text \<open>\<^verbatim>\<open>v?.k\<close>: \<^verbatim>\<open>undefined\<close> when \<open>v\<close> is undefined or null.\<close>

definition get_opt :: "jsval \<Rightarrow> string \<Rightarrow> jsval" where
  "get_opt v k = (case get_prop v k of Inl e \<Rightarrow> JUndef | Inr x \<Rightarrow> x)"

text \<open>\<^verbatim>\<open>v[i]\<close> for a numeric index.\<close>

fun get_index :: "jsval \<Rightarrow> nat \<Rightarrow> js_error + jsval" where
  "get_index JUndef i = Inl (TypeError ''Cannot read properties of undefined'')"
| "get_index JNull i = Inl (TypeError ''Cannot read properties of null'')"
| "get_index (JArr xs ps) i = Inr (if i < length xs then xs ! i else JUndef)"
| "get_index (JStr s) i = Inr (if i < length s then JStr [s ! i] else JUndef)"
| "get_index v i = Inr JUndef"

text \<open>
  An identifier is resolved in the bindings visible where it stands; one that is bound
  nowhere throws a ReferenceError.
\<close>

definition lookup_identifier :: "(string \<times> jsval) list \<Rightarrow> string \<Rightarrow> js_error + jsval" where
  "lookup_identifier scope x =
     (case map_of scope x of
        None \<Rightarrow> Inl (ReferenceError (x @ '' is not defined''))
      | Some v \<Rightarrow> Inr v)"

text \<open>
  Numeric conversion: a number is itself, undefined is NaN, null is 0, a boolean is 0 or
  1; a string, an array, an object or a function is converted by the runtime.
\<close>

definition num_of :: "runtime \<Rightarrow> jsval \<Rightarrow> real option" where
  "num_of rt v =
     (case v of
        JNum r \<Rightarrow> Some r
      | JNaN \<Rightarrow> None
      | JUndef \<Rightarrow> None
      | JNull \<Rightarrow> Some 0
      | JBool b \<Rightarrow> Some (if b then 1 else 0)
      | _ \<Rightarrow> to_number rt v)"

text \<open>
  \<^verbatim>\<open>v > n\<close> and \<^verbatim>\<open>v < n\<close> for a number \<open>n\<close>: false when \<open>v\<close>
  converts to NaN.
\<close>

definition js_gt :: "runtime \<Rightarrow> jsval \<Rightarrow> real \<Rightarrow> bool" where
  "js_gt rt v n = (case num_of rt v of None \<Rightarrow> False | Some r \<Rightarrow> r > n)"

definition js_lt :: "runtime \<Rightarrow> jsval \<Rightarrow> real \<Rightarrow> bool" where
  "js_lt rt v n = (case num_of rt v of None \<Rightarrow> False | Some r \<Rightarrow> r < n)"

text \<open>
  Writing a property: on an object it replaces or appends, on an array it sets a named
  property; on undefined, null and the primitive values it throws (the modules are ES
  modules, hence strict code).
\<close>

fun set_prop :: "string \<Rightarrow> jsval \<Rightarrow> (string \<times> jsval) list \<Rightarrow> (string \<times> jsval) list" where
  "set_prop k v [] = [(k, v)]"
| "set_prop k v ((k', v') # kvs) =
     (if k = k' then (k, v) # kvs else (k', v') # set_prop k v kvs)"

fun assign_prop :: "jsval \<Rightarrow> string \<Rightarrow> jsval \<Rightarrow> js_error + jsval" where
  "assign_prop (JObj kvs) k v = Inr (JObj (set_prop k v kvs))"
| "assign_prop (JArr xs ps) k v = Inr (JArr xs (set_prop k v ps))"
| "assign_prop (JFun f) k v = Inr (JFun f)"
| "assign_prop JUndef k v = Inl (TypeError (''Cannot set properties of undefined (setting '' @ k @ '')''))"
| "assign_prop JNull k v = Inl (TypeError (''Cannot set properties of null (setting '' @ k @ '')''))"
| "assign_prop w k v = Inl (TypeError (''Cannot create property '' @ k))"

fun digit_char :: "nat \<Rightarrow> char" where
  "digit_char n = char_of (48 + n mod 10)"

text \<open>The decimal digits of a natural number, as an array index or a count prints.\<close>

fun show_nat :: "nat \<Rightarrow> string" where
  "show_nat n = (if n < 10 then [digit_char n] else show_nat (n div 10) @ [digit_char n])"

declare show_nat.simps [simp del]

text \<open>
  The own enumerable properties an object spread \<^verbatim>\<open>{...v}\<close> copies, in order: the
  properties of an object, the indexed elements and named properties of an array, the
  indexed characters of a string, and nothing for any other value.
\<close>

definition entries :: "(string \<times> jsval) list \<Rightarrow> (string \<times> jsval) list" where
  "entries kvs = map (\<lambda>k. (k, own kvs k)) (remdups (map fst kvs))"

fun spread_props :: "jsval \<Rightarrow> (string \<times> jsval) list" where
  "spread_props (JObj kvs) = entries kvs"
| "spread_props (JArr xs ps) = map (\<lambda>i. (show_nat i, xs ! i)) [0 ..< length xs] @ entries ps"
| "spread_props (JStr s) = map (\<lambda>i. (show_nat i, JStr [s ! i])) [0 ..< length s]"
| "spread_props v = []"

definition spread_into :: "(string \<times> jsval) list \<Rightarrow> jsval \<Rightarrow> (string \<times> jsval) list" where
  "spread_into target v = fold (\<lambda>(k, x) acc. set_prop k x acc) (spread_props v) target"

section \<open>Response parsing\<close>

text \<open>
  \<^verbatim>\<open>text.match(/\{[\s\S]*\}/)\<close> and \<^verbatim>\<open>text.match(/\[[\s\S]*\]/)\<close>: the
  match starts at the first opening character and, the star being greedy, ends at the
  last closing character after it. \<open>None\<close> is the \<^verbatim>\<open>null\<close> of no match,
  \<open>Some m\<close> a match whose element 0 is \<open>m\<close>.
\<close>

definition regex_span :: "char \<Rightarrow> char \<Rightarrow> string \<Rightarrow> string option" where
  "regex_span l r s =
     (let t = dropWhile (\<lambda>c. c \<noteq> l) s in
      if t = [] then None
      else let body = rev (dropWhile (\<lambda>c. c \<noteq> r) (rev (tl t))) in
        if body = [] then None else Some (l # body))"

text \<open>
  White space as \<^verbatim>\<open>trim\<close>, \<^verbatim>\<open>parseInt\<close> and \<^verbatim>\<open>\s\<close> understand it: the
  white space and line terminator characters of the language. Among the code units below
  256 these are U+0009 to U+000D, U+0020 and the no-break space U+00A0.
\<close>

definition is_space :: "char \<Rightarrow> bool" where
  "is_space c = (c \<in> set [CHR 0x09, CHR 0x0A, CHR 0x0B, CHR 0x0C, CHR 0x0D, CHR 0x20, CHR 0xA0])"

definition js_trim :: "string \<Rightarrow> string" where
  "js_trim s = rev (dropWhile is_space (rev (dropWhile is_space s)))"

text \<open>
  The receiver of a string method: calling \<^verbatim>\<open>match\<close> or \<^verbatim>\<open>trim\<close> on a
  value that is not a string throws a TypeError.
\<close>

definition string_receiver :: "string \<Rightarrow> jsval \<Rightarrow> js_error + string" where
  "string_receiver method v =
     (case v of
        JStr s \<Rightarrow> Inr s
      | JUndef \<Rightarrow> Inl (TypeError (''Cannot read properties of undefined (reading '' @ method @ '')''))
      | JNull \<Rightarrow> Inl (TypeError (''Cannot read properties of null (reading '' @ method @ '')''))
      | _ \<Rightarrow> Inl (TypeError (method @ '' is not a function'')))"

text \<open>\<^verbatim>\<open>Math.min(Math.max(c, 0), 1)\<close>\<close>

definition clamp01 :: "runtime \<Rightarrow> jsval \<Rightarrow> jsval" where
  "clamp01 rt c = (case num_of rt c of None \<Rightarrow> JNaN | Some r \<Rightarrow> JNum (min (max r 0) 1))"

subsection \<open>lib/personaEnrichmentAgent.js: parseEnrichmentResponse\<close>

definition enrichment_fallback :: jsval where
  "enrichment_fallback =
     JObj [(''enrichedFields'',
              JObj [(''social_media_profiles'',
                       JObj [(''facebook'', JObj [(''active'', JBool True), (''frequency'', JStr ''weekly'')])]),
                    (''communication_style'',
                       JObj [(''preferred_channels'', JArr [JStr ''email''] []),
                             (''formality_level'', JStr ''professional'')])]),
           (''confidence'', JNum 0.3),
           (''fieldsEnriched'', JArr [JStr ''basic_fallback''] []),
           (''insights'', JArr [JStr ''Enrichment failed, using basic fallback data''] [])]"

definition parseEnrichmentResponse_social_body :: "runtime \<Rightarrow> jsval \<Rightarrow> js_error + jsval" where
  "parseEnrichmentResponse_social_body rt responseText =
     bind_result (string_receiver ''match'' responseText) (\<lambda>text.
       case regex_span CHR ''{'' CHR ''}'' text of
         None \<Rightarrow> Inl (Error ''No JSON found in AI response'')
       | Some m \<Rightarrow>
           bind_result (json_parse rt (JStr m)) (\<lambda>parsedData.
           bind_result (get_prop parsedData ''enrichedFields'') (\<lambda>enrichedFields.
             if \<not> truthy enrichedFields then Inl (Error ''Invalid enrichment response structure'')
             else
           bind_result (get_prop parsedData ''confidence'') (\<lambda>confidence.
             if \<not> truthy confidence then Inl (Error ''Invalid enrichment response structure'')
             else
               Inr (JObj [(''enrichedFields'', enrichedFields),
                          (''confidence'', clamp01 rt confidence),
                          (''fieldsEnriched'', js_or (get_opt parsedData ''fieldsEnriched'') (JArr [] [])),
                          (''insights'', js_or (get_opt parsedData ''insights'') (JArr [] []))])))))"

definition parseEnrichmentResponse_social :: "runtime \<Rightarrow> jsval \<Rightarrow> js_error + jsval" where
  "parseEnrichmentResponse_social rt responseText =
     try_catch (parseEnrichmentResponse_social_body rt responseText)
       (\<lambda>error. Inr enrichment_fallback)"

subsection \<open>lib/personaAgent.js: parsePersonaResponse\<close>

definition parsePersonaResponse_body :: "runtime \<Rightarrow> jsval \<Rightarrow> js_error + jsval" where
  "parsePersonaResponse_body rt responseText =
     bind_result (string_receiver ''trim'' responseText) (\<lambda>text.
       let cleanText = js_trim text in
       case regex_span CHR ''['' CHR '']'' cleanText of
         None \<Rightarrow> Inl (Error ''No JSON array found in Claude response'')
       | Some m \<Rightarrow>
           bind_result (json_parse rt (JStr m)) (\<lambda>personas.
             if \<not> is_array personas then Inl (Error ''Response is not an array of personas'')
             else Inr personas))"

definition parsePersonaResponse :: "runtime \<Rightarrow> jsval \<Rightarrow> js_error + jsval" where
  "parsePersonaResponse rt responseText =
     try_catch (parsePersonaResponse_body rt responseText)
       (\<lambda>error. Inl (Error (''Persona parsing failed: '' @ error_message error)))"

text \<open>
  The ways a model reply fails to parse, in the specification's words: no JSON is found in
  the text, the JSON found does not decode, or the decoded value lacks the required keys
  (\<open>enrichedFields\<close> and \<open>confidence\<close> for an enrichment, an array for the personas).
\<close>

definition enrichment_parse_fails :: "runtime \<Rightarrow> string \<Rightarrow> bool" where
  "enrichment_parse_fails rt text =
     (case regex_span CHR ''{'' CHR ''}'' text of
        None \<Rightarrow> True
      | Some m \<Rightarrow>
          (case json_parse rt (JStr m) of
             Inl e \<Rightarrow> True
           | Inr d \<Rightarrow> \<not> truthy (get_opt d ''enrichedFields'') \<or> \<not> truthy (get_opt d ''confidence'')))"

definition persona_parse_fails :: "runtime \<Rightarrow> string \<Rightarrow> bool" where
  "persona_parse_fails rt text =
     (case regex_span CHR ''['' CHR '']'' (js_trim text) of
        None \<Rightarrow> True
      | Some m \<Rightarrow> (case json_parse rt (JStr m) of Inl e \<Rightarrow> True | Inr d \<Rightarrow> \<not> is_array d))"

section \<open>lib/personaEnrichmentAgent.js: stage A\<close>

text \<open>
  \<^verbatim>\<open>buildEnrichmentPrompt(persona, contextData)\<close>. The text it builds goes to the
  model service only, whose reply is a parameter of the model; what the pipeline sees of
  the function is whether it throws: it destructures \<open>contextData\<close> and reads
  \<^verbatim>\<open>persona.name\<close> and further properties of the persona.
\<close>

definition buildEnrichmentPrompt :: "jsval \<Rightarrow> jsval \<Rightarrow> js_error + unit" where
  "buildEnrichmentPrompt p contextData =
     bind_result (get_prop contextData ''matter'') (\<lambda>matter.
     bind_result (get_prop p ''name'') (\<lambda>name. Inr ()))"

text \<open>
  \<^verbatim>\<open>enrichSinglePersona(persona, contextData)\<close>. \<open>reply\<close> is the outcome of
  awaiting the model call and reading \<^verbatim>\<open>response.content[0].text\<close>: the text, or
  the error thrown on the way. The result spreads the persona, then the enriched fields,
  then sets \<open>enrichment\<close>.
\<close>

definition enrichSinglePersona :: "runtime \<Rightarrow> js_error + jsval \<Rightarrow> jsval \<Rightarrow> jsval \<Rightarrow> js_error + jsval" where
  "enrichSinglePersona rt reply p contextData =
     bind_result (buildEnrichmentPrompt p contextData) (\<lambda>enrichmentPrompt.
       try_catch
         (bind_result reply (\<lambda>text.
          bind_result (parseEnrichmentResponse_social rt text) (\<lambda>enrichmentData.
            Inr (JObj
              (set_prop ''enrichment''
                 (JObj [(''status'', JStr ''enriched''),
                        (''sources'', JArr [JStr ''ai_research'', JStr ''social_analysis'',
                                            JStr ''professional_lookup''] []),
                        (''confidence_score'', get_opt enrichmentData ''confidence''),
                        (''enriched_fields'', get_opt enrichmentData ''fieldsEnriched''),
                        (''enriched_at'', JStr (now_iso rt)),
                        (''research_insights'', get_opt enrichmentData ''insights'')])
                 (spread_into (spread_into [] p) (get_opt enrichmentData ''enrichedFields'')))))))
         (\<lambda>error. Inl (Error (''AI enrichment failed: '' @ error_message error))))"

text \<open>
  The body of the loop of \<^verbatim>\<open>enrichPersonas\<close> for one persona. The
  \<^verbatim>\<open>try\<close> logs \<^verbatim>\<open>persona.name\<close> and enriches; the \<^verbatim>\<open>catch\<close>
  logs \<^verbatim>\<open>persona.name\<close> again (which throws out of the loop for a persona that
  is undefined or null) and yields the persona with a failed \<open>enrichment\<close>.
\<close>

definition enrich_step :: "runtime \<Rightarrow> js_error + jsval \<Rightarrow> jsval \<Rightarrow> jsval \<Rightarrow> js_error + jsval" where
  "enrich_step rt reply contextData p =
     try_catch
       (bind_result (get_prop p ''name'') (\<lambda>name.
          enrichSinglePersona rt reply p contextData))
       (\<lambda>error.
          bind_result (get_prop p ''name'') (\<lambda>name.
            Inr (JObj
              (set_prop ''enrichment''
                 (JObj [(''status'', JStr ''failed''),
                        (''error'', JStr (error_message error)),
                        (''enriched_at'', JStr (now_iso rt))])
                 (spread_into [] p)))))"

text \<open>The loop from position \<open>i\<close> on: each result is pushed in turn.\<close>

fun enrich_each :: "runtime \<Rightarrow> (nat \<Rightarrow> js_error + jsval) \<Rightarrow> jsval \<Rightarrow> jsval list \<Rightarrow> nat \<Rightarrow> js_error + jsval list" where
  "enrich_each rt replies contextData [] i = Inr []"
| "enrich_each rt replies contextData (p # ps) i =
     bind_result (enrich_step rt (replies i) contextData p) (\<lambda>enriched.
     bind_result (enrich_each rt replies contextData ps (i + 1)) (\<lambda>rest.
       Inr (enriched # rest)))"

text \<open>
  \<^verbatim>\<open>enrichPersonas(personas, contextData = {})\<close>; \<open>replies i\<close> is the outcome of
  the model call made for the persona at position \<open>i\<close>.
\<close>

definition enrichPersonas_social :: "runtime \<Rightarrow> (nat \<Rightarrow> js_error + jsval) \<Rightarrow> jsval list \<Rightarrow> jsval \<Rightarrow> js_error + jsval list" where
  "enrichPersonas_social rt replies personas contextData =
     enrich_each rt replies (if contextData = JUndef then JObj [] else contextData) personas 0"

text \<open>The status of the \<open>enrichment\<close> block of a persona.\<close>

definition enrichment_status :: "jsval \<Rightarrow> jsval" where
  "enrichment_status p = get_opt (get_opt p ''enrichment'') ''status''"

text \<open>The property names of a value, as a spread would copy them.\<close>

definition keys_of :: "jsval \<Rightarrow> string list" where
  "keys_of v = map fst (spread_props v)"

text \<open>
  The enriched fields the parser hands to the merge for a given outcome of the model call
  (undefined when the call failed).
\<close>

definition enriched_fields_of :: "runtime \<Rightarrow> js_error + jsval \<Rightarrow> jsval" where
  "enriched_fields_of rt reply =
     (case reply of
        Inl e \<Rightarrow> JUndef
      | Inr text \<Rightarrow>
          (case parseEnrichmentResponse_social rt text of
             Inl e \<Rightarrow> JUndef
           | Inr d \<Rightarrow> get_opt d ''enrichedFields''))"

text \<open>
  What one pass of the loop of stage A guarantees of the persona \<open>q\<close> it emits for
  the input persona \<open>p\<close>, given the outcome of the model call and the context.
\<close>

definition step_post :: "runtime \<Rightarrow> js_error + jsval \<Rightarrow> jsval \<Rightarrow> jsval \<Rightarrow> jsval \<Rightarrow> bool" where
  "step_post rt reply ctx p q \<longleftrightarrow>
     is_object q
     \<and> (enrichment_status q = JStr ''enriched'' \<or> enrichment_status q = JStr ''failed'')
     \<and> (enrichment_status q = JStr ''enriched''
          \<longleftrightarrow> ctx \<noteq> JUndef \<and> ctx \<noteq> JNull \<and> (\<exists>body. reply = Inr body))
     \<and> (\<forall>k. k \<noteq> ''enrichment'' \<longrightarrow> k \<notin> set (keys_of (enriched_fields_of rt reply))
            \<longrightarrow> get_opt q k = get_opt p k)
     \<and> (enrichment_status q = JStr ''enriched''
          \<longrightarrow> ''name'' \<in> set (keys_of (enriched_fields_of rt reply))
          \<longrightarrow> get_opt q ''name'' = get_opt (enriched_fields_of rt reply) ''name'')
     \<and> (enrichment_status q = JStr ''failed'' \<longrightarrow>
           (\<forall>k. k \<noteq> ''enrichment'' \<longrightarrow> get_opt q k = get_opt p k)
           \<and> set (keys_of q) = insert ''enrichment'' (set (keys_of p)))"

section \<open>lib/validationAgent.js\<close>

text \<open>The module's top-level bindings: its import and its function declarations.\<close>

definition validationAgent_module :: "(string \<times> jsval) list" where
  "validationAgent_module =
     [(''OpenAI'', JFun ''OpenAI''),
      (''validatePersonas'', JFun ''validatePersonas''),
      (''validateSinglePersona'', JFun ''validateSinglePersona''),
      (''buildValidationPrompt'', JFun ''buildValidationPrompt''),
      (''formatSourcesForValidation'', JFun ''formatSourcesForValidation''),
      (''parseValidationResponse'', JFun ''parseValidationResponse'')]"

record validation_result =
  approved :: jsval
  confidence :: jsval
  verified_traits :: jsval
  questionable_traits :: jsval
  errors :: jsval

definition validation_fallback :: validation_result where
  "validation_fallback =
     \<lparr>approved = JBool True, confidence = JNum 60, verified_traits = JArr [] [],
      questionable_traits = JArr [] [], errors = JArr [JStr ''Validation parsing failed''] []\<rparr>"

text \<open>
  \<^verbatim>\<open>parseValidationResponse(responseText)\<close>. The body of the \<^verbatim>\<open>try\<close> reads
  \<^verbatim>\<open>jsonMatch\<close>, which is resolved among the parameter and the module's bindings.
\<close>

definition parseValidationResponse_body :: "runtime \<Rightarrow> jsval \<Rightarrow> js_error + validation_result" where
  "parseValidationResponse_body rt responseText =
     bind_result (lookup_identifier ((''responseText'', responseText) # validationAgent_module) ''jsonMatch'')
       (\<lambda>jsonMatch.
          if \<not> truthy jsonMatch then Inl (Error ''No JSON found in validation response'')
          else
            bind_result (get_index jsonMatch 0) (\<lambda>m0.
            bind_result (json_parse rt m0) (\<lambda>validation.
            bind_result (get_prop validation ''approved'') (\<lambda>a.
            bind_result (get_prop validation ''confidence'') (\<lambda>c.
            bind_result (get_prop validation ''verified_traits'') (\<lambda>vt.
            bind_result (get_prop validation ''questionable_traits'') (\<lambda>qt.
            bind_result (get_prop validation ''missing_citations'') (\<lambda>mc.
              Inr \<lparr>approved = js_or a (JBool False), confidence = js_or c (JNum 0),
                   verified_traits = js_or vt (JArr [] []),
                   questionable_traits = js_or qt (JArr [] []),
                   errors = js_or mc (JArr [] [])\<rparr>))))))))"

definition parseValidationResponse :: "runtime \<Rightarrow> jsval \<Rightarrow> js_error + validation_result" where
  "parseValidationResponse rt responseText =
     try_catch (parseValidationResponse_body rt responseText) (\<lambda>error. Inr validation_fallback)"

text \<open>
  The record \<^verbatim>\<open>validateSinglePersona\<close> returns. The \<^verbatim>\<open>catch\<close> branch
  sets only \<open>persona\<close>, \<open>validation_passed\<close> and \<open>errors\<close>; the other properties
  are then undefined.
\<close>

record persona_validation =
  persona :: jsval
  validation_passed :: jsval
  pv_confidence :: jsval
  pv_verified_traits :: jsval
  pv_questionable_traits :: jsval
  pv_errors :: jsval

text \<open>
  \<^verbatim>\<open>validateSinglePersona(persona, uploadedData, researchData, openai)\<close>. The
  argument \<open>reply\<close> is the outcome of building the prompt, awaiting the chat completion
  and reading \<^verbatim>\<open>response.choices[0].message.content\<close>: the content, or the error
  thrown on the way.
\<close>

definition validateSinglePersona_openai :: "runtime \<Rightarrow> js_error + jsval \<Rightarrow> jsval \<Rightarrow> js_error + persona_validation" where
  "validateSinglePersona_openai rt reply p =
     try_catch
       (bind_result reply (\<lambda>content.
        bind_result (parseValidationResponse rt content) (\<lambda>validationResult.
          Inr \<lparr>persona = p, validation_passed = approved validationResult,
               pv_confidence = confidence validationResult,
               pv_verified_traits = verified_traits validationResult,
               pv_questionable_traits = questionable_traits validationResult,
               pv_errors = js_or (errors validationResult) (JArr [] [])\<rparr>)))
       (\<lambda>error.
          bind_result (get_prop p ''name'') (\<lambda>name.
            Inr \<lparr>persona = p, validation_passed = JBool True, pv_confidence = JUndef,
                 pv_verified_traits = JUndef, pv_questionable_traits = JUndef,
                 pv_errors = JArr [JStr (error_message error)] []\<rparr>))"

text \<open>
  The inner loop of \<^verbatim>\<open>validatePersonas\<close>: each persona of a batch is validated
  in turn and its result pushed. \<open>replies k\<close> is the outcome of the model call made
  for the persona at position \<open>k\<close>.
\<close>

fun validate_batch :: "runtime \<Rightarrow> (nat \<Rightarrow> js_error + jsval) \<Rightarrow> jsval list \<Rightarrow> nat list \<Rightarrow> js_error + persona_validation list" where
  "validate_batch rt replies personas [] = Inr []"
| "validate_batch rt replies personas (k # ks) =
     bind_result (validateSinglePersona_openai rt (replies k) (personas ! k)) (\<lambda>v.
     bind_result (validate_batch rt replies personas ks) (\<lambda>rest. Inr (v # rest)))"

text \<open>
  The outer loop: \<open>i\<close> advances by three and the batch is the slice \<open>[i, i + 3)\<close>.
\<close>

function validate_batches :: "runtime \<Rightarrow> (nat \<Rightarrow> js_error + jsval) \<Rightarrow> jsval list \<Rightarrow> nat \<Rightarrow> js_error + persona_validation list" where
  "validate_batches rt replies personas i =
     (if i < length personas then
        bind_result (validate_batch rt replies personas [i ..< min (i + 3) (length personas)]) (\<lambda>batch.
        bind_result (validate_batches rt replies personas (i + 3)) (\<lambda>rest.
          Inr (batch @ rest)))
      else Inr [])"
  by pat_completeness auto
termination
  by (relation "measure (\<lambda>(rt, replies, personas, i). length personas - i)") auto

declare validate_batches.simps [simp del]

record validation_report =
  validated :: "jsval list"
  validation_details :: "persona_validation list"
  report_errors :: "jsval list"
  confidence_score :: "real option"

text \<open>\<^verbatim>\<open>errors.map(e => e.errors).flat()\<close>: an array is spliced in, anything else is kept.\<close>

fun flat1 :: "jsval list \<Rightarrow> jsval list" where
  "flat1 [] = []"
| "flat1 (JArr xs ps # vs) = xs @ flat1 vs"
| "flat1 (v # vs) = v # flat1 vs"

text \<open>
  \<^verbatim>\<open>validatePersonas(personas, uploadedData, researchData)\<close>; \<open>has_key\<close> says
  whether \<^verbatim>\<open>OPENAI_API_KEY\<close> is set. The score of an empty batch is 0/0, NaN.
\<close>

definition validatePersonas_openai :: "runtime \<Rightarrow> bool \<Rightarrow> (nat \<Rightarrow> js_error + jsval) \<Rightarrow> jsval list \<Rightarrow> validation_report" where
  "validatePersonas_openai rt has_key replies personas =
     (if \<not> has_key then
        \<lparr>validated = personas, validation_details = [],
         report_errors = [JStr ''Validation skipped - no OpenAI key''],
         confidence_score = Some 75\<rparr>
      else
        case validate_batches rt replies personas 0 of
          Inr validationResults \<Rightarrow>
            (let passedValidation = filter (\<lambda>v. truthy (validation_passed v)) validationResults;
                 failed = filter (\<lambda>v. \<not> truthy (validation_passed v)) validationResults
             in \<lparr>validated = map persona passedValidation,
                 validation_details = validationResults,
                 report_errors = flat1 (map pv_errors failed),
                 confidence_score =
                   (if personas = [] then None
                    else Some (real (length passedValidation) / real (length personas) * 100))\<rparr>)
        | Inl error \<Rightarrow>
            \<lparr>validated = personas, validation_details = [],
             report_errors = [JStr (error_message error)],
             confidence_score = Some 50\<rparr>)"

section \<open>lib/sheetsService.js: the export\<close>

text \<open>The module's top-level bindings: its import and its function declarations.\<close>

definition sheetsService_module :: "(string \<times> jsval) list" where
  "sheetsService_module =
     [(''google'', JFun ''google''),
      (''storePersonas'', JFun ''storePersonas''),
      (''getPersonaByName'', JFun ''getPersonaByName''),
      (''getAllPersonas'', JFun ''getAllPersonas''),
      (''initializeGoogleSheetsService'', JFun ''initializeGoogleSheetsService''),
      (''fetchPersonasFromExternalSheet'', JFun ''fetchPersonasFromExternalSheet''),
      (''extractSheetInfo'', JFun ''extractSheetInfo''),
      (''validatePersonas'', JFun ''validatePersonas''),
      (''validateSinglePersona'', JFun ''validateSinglePersona''),
      (''parsePersonaFromRow'', JFun ''parsePersonaFromRow''),
      (''exportEnrichedPersonas'', JFun ''exportEnrichedPersonas''),
      (''createNewSpreadsheet'', JFun ''createNewSpreadsheet''),
      (''updateJuliusSheetWithEnrichment'', JFun ''updateJuliusSheetWithEnrichment''),
      (''safeJsonParse'', JFun ''safeJsonParse'')]"

text \<open>
  The spreadsheet service as the export uses it: creating a spreadsheet gives its id, and
  writing rows to a range of a spreadsheet gives the updated range; either call may throw.
\<close>

record sheets_client =
  spreadsheets_create :: "string \<Rightarrow> js_error + jsval"
  values_update :: "jsval \<Rightarrow> string \<Rightarrow> jsval list list \<Rightarrow> js_error + jsval"

text \<open>String conversion of a value inside a template literal or a concatenation.\<close>

definition str_of :: "runtime \<Rightarrow> jsval \<Rightarrow> string" where
  "str_of rt v = (case v of JStr s \<Rightarrow> s | _ \<Rightarrow> to_string rt v)"

fun join_strings :: "string \<Rightarrow> string list \<Rightarrow> string" where
  "join_strings sep [] = []"
| "join_strings sep [x] = x"
| "join_strings sep (x # y # ys) = x @ sep @ join_strings sep (y # ys)"

text \<open>
  \<^verbatim>\<open>xs.join(sep)\<close> on an array: undefined and null elements give the empty string.
\<close>

definition join_elements :: "runtime \<Rightarrow> string \<Rightarrow> jsval list \<Rightarrow> string" where
  "join_elements rt sep xs =
     join_strings sep (map (\<lambda>v. case v of JUndef \<Rightarrow> [] | JNull \<Rightarrow> [] | _ \<Rightarrow> str_of rt v) xs)"

text \<open>\<^verbatim>\<open>v.join(sep)\<close> where \<open>v\<close> is not known to be an array.\<close>

definition join_method :: "runtime \<Rightarrow> string \<Rightarrow> jsval \<Rightarrow> js_error + jsval" where
  "join_method rt sep v =
     (case v of
        JArr xs ps \<Rightarrow> Inr (JStr (join_elements rt sep xs))
      | _ \<Rightarrow> Inl (TypeError ''join is not a function''))"

text \<open>\<^verbatim>\<open>Array.isArray(v) ? v.join('; ') : other\<close>\<close>

definition joined_or :: "runtime \<Rightarrow> jsval \<Rightarrow> jsval \<Rightarrow> jsval" where
  "joined_or rt v other =
     (case v of JArr xs ps \<Rightarrow> JStr (join_elements rt ''; '' xs) | _ \<Rightarrow> other)"

definition export_headers :: "string list" where
  "export_headers =
     [''Name'', ''Age'', ''Gender'', ''Location'', ''Occupation'', ''Education'', ''Income'',
      ''Original Bio'', ''Interests'', ''Values'', ''Communication Style'',
      ''Social Media - Facebook'', ''Social Media - LinkedIn'', ''Social Media - Other'',
      ''Professional Background'', ''Community Involvement'',
      ''Legal Motivations'', ''Legal Barriers'', ''Legal Experience'',
      ''Preferred Legal Communication'', ''Decision Timeline'', ''Trust Factors'',
      ''Document Insights'', ''Enrichment Sources'', ''Confidence Score'',
      ''Original Source'', ''Enriched Date'', ''Campaign Matter'']"

text \<open>
  The row the export builds for one persona, cell by cell in the order of the header.
  Reading \<^verbatim>\<open>persona.name\<close> throws when the persona is undefined or null; after
  that every read of the persona is safe. The two \<^verbatim>\<open>join\<close> calls made without an
  array test and the read of \<^verbatim>\<open>campaignData.matter\<close> can throw as well.
\<close>

definition export_row :: "runtime \<Rightarrow> jsval \<Rightarrow> jsval \<Rightarrow> js_error + jsval list" where
  "export_row rt campaignData p =
     bind_result (get_prop p ''name'') (\<lambda>name.
       let e = JStr [];
           smp = get_opt p ''social_media_profiles'';
           facebook = get_opt smp ''facebook'';
           linkedin = get_opt smp ''linkedin'';
           other_platforms = get_opt smp ''other_platforms'';
           enrichment = get_opt p ''enrichment''
       in
       bind_result (if truthy other_platforms then join_method rt '', '' other_platforms else Inr e)
         (\<lambda>other.
       bind_result (if truthy (get_opt enrichment ''sources'')
                    then join_method rt '', '' (get_opt enrichment ''sources'') else Inr e)
         (\<lambda>sources.
       bind_result (get_prop campaignData ''matter'') (\<lambda>matter.
         Inr [js_or name e,
              js_or (get_opt p ''age'') e,
              js_or (get_opt p ''gender'') e,
              js_or (get_opt p ''location'') e,
              js_or (get_opt p ''occupation'') e,
              js_or (get_opt p ''education'') e,
              js_or (get_opt p ''income'') e,
              js_or (get_opt p ''bio'') e,
              joined_or rt (get_opt p ''interests'') (js_or (get_opt p ''interests'') e),
              joined_or rt (get_opt p ''values'') (js_or (get_opt p ''values'') e),
              js_or (get_opt p ''communication_style'') e,
              (if truthy facebook
               then JStr (''Active: '' @ str_of rt (get_opt facebook ''active'') @
                          '', Frequency: '' @ str_of rt (get_opt facebook ''frequency''))
               else e),
              (if truthy linkedin
               then JStr (''Active: '' @ str_of rt (get_opt linkedin ''active'') @
                          '', Usage: '' @ str_of rt (get_opt linkedin ''usage''))
               else e),
              other,
              js_or (get_opt (get_opt p ''professional_details'') ''industry_experience'') e,
              joined_or rt (get_opt p ''community_involvement'') e,
              joined_or rt (get_opt p ''legal_motivations'') e,
              joined_or rt (get_opt p ''legal_barriers'') e,
              js_or (get_opt (get_opt p ''legal_profile'') ''likely_legal_experience'') e,
              js_or (get_opt p ''preferred_legal_communication'') e,
              js_or (get_opt p ''decision_timeline'') e,
              joined_or rt (get_opt p ''trust_factors_legal'') e,
              joined_or rt (get_opt p ''document_insights'') e,
              sources,
              js_or (get_opt enrichment ''confidence_score'') e,
              js_or (get_opt p ''source'') (JStr ''julius_sheet''),
              js_or (js_or (get_opt enrichment ''enriched_at'')
                           (get_opt (get_opt p ''enrichment_metadata'') ''enriched_at'')) e,
              js_or matter e]))))"

text \<open>The \<^verbatim>\<open>forEach\<close> that pushes one row per persona; the first throw ends it.\<close>

fun export_rows :: "runtime \<Rightarrow> jsval \<Rightarrow> jsval list \<Rightarrow> js_error + jsval list list" where
  "export_rows rt campaignData [] = Inr []"
| "export_rows rt campaignData (p # ps) =
     bind_result (export_row rt campaignData p) (\<lambda>row.
     bind_result (export_rows rt campaignData ps) (\<lambda>rows. Inr (row # rows)))"

record export_result =
  success :: bool
  spreadsheet_id :: jsval
  sheet_url :: string
  rows_exported :: nat
  updated_range :: jsval

text \<open>
  \<^verbatim>\<open>exportEnrichedPersonas(enrichedPersonas, campaignData, options)\<close>. The log line
  reads \<^verbatim>\<open>enrichedPersonas.length\<close>; the next statement awaits
  \<^verbatim>\<open>initializeSheets()\<close>: the identifier is resolved among the parameters and the
  module's bindings, and \<open>call\<close> is what calling the bound value and awaiting it would
  give. An absent \<open>options\<close> defaults to the empty object. The \<^verbatim>\<open>catch\<close>
  rethrows every error as \<^verbatim>\<open>Export failed: ...\<close>.
\<close>

definition exportEnrichedPersonas_body ::
  "runtime \<Rightarrow> (jsval \<Rightarrow> js_error + sheets_client) \<Rightarrow> jsval \<Rightarrow> jsval \<Rightarrow> jsval
     \<Rightarrow> js_error + export_result" where
  "exportEnrichedPersonas_body rt call enrichedPersonas campaignData options0 =
     (let options = (if options0 = JUndef then JObj [] else options0);
          scope = [(''enrichedPersonas'', enrichedPersonas),
                   (''campaignData'', campaignData), (''options'', options)] @ sheetsService_module
      in
      bind_result (get_prop enrichedPersonas ''length'') (\<lambda>n.
      bind_result (lookup_identifier scope ''initializeSheets'') (\<lambda>initializeSheets.
      bind_result (call initializeSheets) (\<lambda>sheets.
      bind_result (get_prop options ''targetSpreadsheetId'') (\<lambda>target.
      bind_result
        (if truthy target then Inr target
         else bind_result (get_prop campaignData ''matter'') (\<lambda>matter.
                spreadsheets_create sheets
                  (''Enriched Personas - '' @ str_of rt matter @ '' - '' @
                   takeWhile (\<lambda>c. c \<noteq> CHR ''T'') (now_iso rt))))
        (\<lambda>spreadsheetId.
      bind_result
        (case enrichedPersonas of
           JArr xs ps \<Rightarrow> export_rows rt campaignData xs
         | _ \<Rightarrow> Inl (TypeError ''enrichedPersonas.forEach is not a function'')) (\<lambda>body_rows.
        let rows = map JStr export_headers # body_rows in
      bind_result (values_update sheets spreadsheetId
                     (''Sheet1!A1:AB'' @ show_nat (length rows)) rows) (\<lambda>updatedRange.
        Inr \<lparr>success = True, spreadsheet_id = spreadsheetId,
             sheet_url = ''https://docs.google.com/spreadsheets/d/'' @ str_of rt spreadsheetId,
             rows_exported = length rows - 1,
             updated_range = updatedRange\<rparr>))))))))"

definition exportEnrichedPersonas ::
  "runtime \<Rightarrow> (jsval \<Rightarrow> js_error + sheets_client) \<Rightarrow> jsval \<Rightarrow> jsval \<Rightarrow> jsval
     \<Rightarrow> js_error + export_result" where
  "exportEnrichedPersonas rt call enrichedPersonas campaignData options =
     try_catch (exportEnrichedPersonas_body rt call enrichedPersonas campaignData options)
       (\<lambda>error. Inl (Error (''Export failed: '' @ error_message error)))"

section \<open>lib/personaAgent.js: the Generator\<close>

text \<open>
  The source context: the five categories in the order the object literal declares them,
  each an array of items, and the count of all items.
\<close>

record source_context =
  categories :: "(string \<times> jsval list) list"
  total_sources :: nat

definition context_item :: "runtime \<Rightarrow> jsval \<Rightarrow> string \<Rightarrow> string \<Rightarrow> jsval" where
  "context_item rt v src ty =
     JObj [(''content'', JStr (json_stringify rt v)),
           (''metadata'', JObj [(''source'', JStr src), (''type'', JStr ty)])]"

text \<open>
  The items one input contributes: \<^verbatim>\<open>if (data && data.key) push(...)\<close>, where
  \<open>summarised\<close> says whether \<^verbatim>\<open>data.key.summary || data.key\<close> is stringified
  (uploaded data) or \<^verbatim>\<open>data.key\<close> itself (research data).
\<close>

definition items_from :: "runtime \<Rightarrow> jsval \<Rightarrow> string \<Rightarrow> bool \<Rightarrow> string \<Rightarrow> string \<Rightarrow> jsval list" where
  "items_from rt d k summarised src ty =
     (if truthy d \<and> truthy (get_opt d k)
      then [context_item rt
              (if summarised then js_or (get_opt (get_opt d k) ''summary'') (get_opt d k)
               else get_opt d k) src ty]
      else [])"

definition buildSourceContext :: "runtime \<Rightarrow> jsval \<Rightarrow> jsval \<Rightarrow> source_context" where
  "buildSourceContext rt uploadedData researchData =
     (let cats =
        [(''demographic_data'',
            items_from rt uploadedData ''mri_data'' True ''mri_file'' ''demographic'' @
            items_from rt uploadedData ''targetsmart_data'' True ''targetsmart_file'' ''demographic'' @
            items_from rt researchData ''demographics'' False ''perplexity_research'' ''demographic''),
         (''case_data'', []),
         (''social_insights'',
            items_from rt researchData ''social_insights'' False ''perplexity_research'' ''social''),
         (''consumer_behavior'',
            items_from rt researchData ''consumer_behavior'' False ''perplexity_research'' ''behavior''),
         (''client_data'',
            items_from rt uploadedData ''client_data'' True ''client_file'' ''client'')]
      in \<lparr>categories = cats, total_sources = sum_list (map (\<lambda>c. length (snd c)) cats)\<rparr>)"

definition category :: "source_context \<Rightarrow> string \<Rightarrow> jsval list" where
  "category sc k = (case map_of (categories sc) k of None \<Rightarrow> [] | Some xs \<Rightarrow> xs)"

record sufficiency =
  sufficient :: bool
  missing :: "string list"
  available :: "string list"
  sufficiency_confidence :: real

definition validateDataSufficiency :: "source_context \<Rightarrow> sufficiency" where
  "validateDataSufficiency sc =
     (let cats = [''demographic_data'', ''social_insights'', ''consumer_behavior''];
          avail = filter (\<lambda>c. category sc c \<noteq> []) cats
      in \<lparr>sufficient = (length avail \<ge> 1),
          missing = filter (\<lambda>c. category sc c = []) cats,
          available = avail,
          sufficiency_confidence = real (length avail) / 3 * 100\<rparr>)"

definition sufficiency_obj :: "sufficiency \<Rightarrow> jsval" where
  "sufficiency_obj v =
     JObj [(''sufficient'', JBool (sufficient v)),
           (''missing'', JArr (map JStr (missing v)) []),
           (''available'', JArr (map JStr (available v)) []),
           (''confidence'', JNum (sufficiency_confidence v))]"

text \<open>
  \<^verbatim>\<open>addSourceCitations\<close> for one persona: the citation block is computed from
  \<^verbatim>\<open>persona.data_sources\<close> and assigned to \<^verbatim>\<open>persona.source_citations\<close>.
\<close>

definition cite :: "source_context \<Rightarrow> jsval \<Rightarrow> js_error + jsval" where
  "cite sc p =
     bind_result (get_prop p ''data_sources'') (\<lambda>data_sources.
       assign_prop p ''source_citations''
         (JObj [(''primary_sources'', js_or data_sources (JArr [] [])),
                (''data_categories'',
                   JArr (map (\<lambda>c. JStr (fst c)) (filter (\<lambda>c. snd c \<noteq> []) (categories sc))) []),
                (''confidence_factors'',
                   JObj [(''source_diversity'',
                            (if truthy data_sources then get_opt data_sources ''length'' else JNum 0)),
                         (''data_points'', JNum (real (total_sources sc))),
                         (''citation_coverage'',
                            JStr (if truthy data_sources then ''cited'' else ''limited''))])]))"

fun addSourceCitations :: "source_context \<Rightarrow> jsval list \<Rightarrow> js_error + jsval list" where
  "addSourceCitations sc [] = Inr []"
| "addSourceCitations sc (p # ps) =
     bind_result (cite sc p) (\<lambda>cited.
     bind_result (addSourceCitations sc ps) (\<lambda>rest. Inr (cited # rest)))"

definition requiredFields :: "string list" where
  "requiredFields = [''name'', ''age'', ''bio'', ''motivations'', ''barriers'', ''communication_style'']"

text \<open>
  \<^verbatim>\<open>!persona[field] || (Array.isArray(persona[field]) && persona[field].length === 0)\<close>
\<close>

definition field_missing :: "jsval \<Rightarrow> bool" where
  "field_missing v = (\<not> truthy v \<or> (case v of JArr xs ps \<Rightarrow> length xs = 0 | _ \<Rightarrow> False))"

text \<open>
  The \<^verbatim>\<open>forEach\<close> over the required fields, updating \<open>complete\<close>
  (here \<open>all_present\<close>) and \<open>missing_fields\<close> of the validation record.
\<close>

fun check_required :: "jsval \<Rightarrow> string list \<Rightarrow> bool \<times> string list \<Rightarrow> js_error + bool \<times> string list" where
  "check_required p [] st = Inr st"
| "check_required p (f # fs) (all_present, missing_fields) =
     bind_result (get_prop p f) (\<lambda>v.
       if field_missing v then check_required p fs (False, missing_fields @ [f])
       else check_required p fs (all_present, missing_fields))"

text \<open>
  The validation of one persona: the record \<open>validation\<close> with its quality score, and
  whether the persona is kept.
\<close>

definition validate_generated :: "runtime \<Rightarrow> jsval \<Rightarrow> js_error + jsval \<times> bool" where
  "validate_generated rt p =
     bind_result (check_required p requiredFields (True, [])) (\<lambda>(all_present, missing_fields).
     bind_result (get_prop p ''source_citations'') (\<lambda>source_citations.
     bind_result
       (if truthy source_citations
        then bind_result (get_prop source_citations ''primary_sources'') (\<lambda>primary_sources.
             bind_result (get_prop primary_sources ''length'') (\<lambda>n. Inr (js_gt rt n 0)))
        else Inr False) (\<lambda>cited.
     bind_result (get_prop p ''confidence_score'') (\<lambda>confidence_score.
     bind_result (get_prop p ''bio'') (\<lambda>bio.
       let s0 = (0::nat);
           s1 = (if cited then s0 + 30 else s0);
           s2 = (if truthy confidence_score \<and> js_gt rt confidence_score 70 then s1 + 25 else s1);
           s3 = (if all_present then s2 + 25 else s2);
           qualityScore = (if truthy bio \<and> js_gt rt (get_opt bio ''length'') 100 then s3 + 20 else s3)
       in Inr (JObj [(''complete'', JBool all_present),
                     (''missing_fields'', JArr (map JStr missing_fields) []),
                     (''quality_score'', JNum (real qualityScore))],
               all_present \<and> qualityScore \<ge> 50))))))"

text \<open>
  \<^verbatim>\<open>validatePersonas(personas)\<close> of the Generator: a persona that is kept gets the
  record assigned to \<^verbatim>\<open>persona.validation\<close> and is pushed; any other is skipped
  with a warning on the console.
\<close>

fun validatePersonas_generator :: "runtime \<Rightarrow> jsval list \<Rightarrow> js_error + jsval list" where
  "validatePersonas_generator rt [] = Inr []"
| "validatePersonas_generator rt (p # ps) =
     bind_result (validate_generated rt p) (\<lambda>(validation, keep).
       if keep then
         bind_result (assign_prop p ''validation'' validation) (\<lambda>p'.
         bind_result (validatePersonas_generator rt ps) (\<lambda>rest. Inr (p' # rest)))
       else validatePersonas_generator rt ps)"

text \<open>\<^verbatim>\<open>[...new Set(xs)]\<close>: the first occurrence of each element, in order.\<close>

definition unique :: "'a list \<Rightarrow> 'a list" where
  "unique xs = rev (remdups (rev xs))"

definition extractSourceSummary :: "source_context \<Rightarrow> jsval" where
  "extractSourceSummary sc =
     (let cats = filter (\<lambda>c. snd c \<noteq> []) (categories sc);
          summary_categories =
            map (\<lambda>c. (fst c,
                   JObj [(''document_count'', JNum (real (length (snd c)))),
                         (''sources'',
                            JArr (unique (map (\<lambda>item. get_opt (get_opt item ''metadata'') ''source'')
                                            (snd c))) [])])) cats
      in JObj [(''total_documents'', JNum (real (total_sources sc))),
               (''categories'', JObj summary_categories),
               (''quality_indicators'',
                  JArr ((if total_sources sc \<ge> 3 then [JStr ''Sufficient data volume''] else []) @
                        (if length summary_categories \<ge> 2 then [JStr ''Diverse data sources''] else []))
                       [])])"

text \<open>
  \<^verbatim>\<open>generatePersonas(campaignData, uploadedData, researchData, personaCount)\<close>.
  \<open>has_key\<close> says whether \<^verbatim>\<open>ANTHROPIC_API_KEY\<close> is set, and \<open>reply\<close> is the
  outcome of awaiting the model call and reading \<^verbatim>\<open>response.content[0].text\<close>. The
  prompt goes to the model service only; building it reads \<^verbatim>\<open>campaignData.matter\<close>
  first, in the log line. The \<^verbatim>\<open>catch\<close> rethrows the error as it is.
\<close>

definition generatePersonas :: "runtime \<Rightarrow> bool \<Rightarrow> js_error + jsval \<Rightarrow> jsval \<Rightarrow> jsval \<Rightarrow> jsval \<Rightarrow> js_error + jsval" where
  "generatePersonas rt has_key reply campaignData uploadedData researchData =
     (if \<not> has_key then Inl (Error ''Anthropic API key not configured'')
      else
        try_catch
          (bind_result (get_prop campaignData ''matter'') (\<lambda>matter.
             let sourceContext = buildSourceContext rt uploadedData researchData;
                 validation = validateDataSufficiency sourceContext
             in
             if \<not> sufficient validation
             then Inl (Error (''Insufficient data for persona generation: '' @
                              join_strings '', '' (missing validation)))
             else
               bind_result reply (\<lambda>body.
               bind_result (parsePersonaResponse rt body) (\<lambda>personas.
               bind_result (case personas of JArr xs ps \<Rightarrow> addSourceCitations sourceContext xs
                            | _ \<Rightarrow> Inl (TypeError ''personas.map is not a function''))
                 (\<lambda>citedPersonas.
               bind_result (validatePersonas_generator rt citedPersonas) (\<lambda>validatedPersonas.
                 Inr (JObj [(''personas'', JArr validatedPersonas []),
                            (''sources_used'', extractSourceSummary sourceContext),
                            (''validation'', sufficiency_obj validation),
                            (''generation_timestamp'', JStr (now_iso rt))])))))))
          (\<lambda>error. Inl error))"

text \<open>
  The batch validation as the amended claim words it. A required field is present when its
  value is none of undefined, null, false, 0, NaN, the empty string and an array without
  elements. The quality score adds 30 when source citations are present, 25 when the
  confidence score is set and exceeds 70, 25 when every required field is present, and 20
  when the bio is set and longer than 100 characters.
\<close>

definition present_value :: "jsval \<Rightarrow> bool" where
  "present_value v =
     (case v of
        JUndef \<Rightarrow> False
      | JNull \<Rightarrow> False
      | JBool b \<Rightarrow> b
      | JNum r \<Rightarrow> r \<noteq> 0
      | JNaN \<Rightarrow> False
      | JStr s \<Rightarrow> s \<noteq> []
      | JArr xs ps \<Rightarrow> xs \<noteq> []
      | JObj kvs \<Rightarrow> True
      | JFun f \<Rightarrow> True)"

definition has_required_fields :: "jsval \<Rightarrow> bool" where
  "has_required_fields p \<longleftrightarrow>
     present_value (get_opt p ''name'') \<and> present_value (get_opt p ''age'')
     \<and> present_value (get_opt p ''bio'') \<and> present_value (get_opt p ''motivations'')
     \<and> present_value (get_opt p ''barriers'') \<and> present_value (get_opt p ''communication_style'')"

definition citations_present :: "runtime \<Rightarrow> jsval \<Rightarrow> bool" where
  "citations_present rt p =
     js_gt rt (get_opt (get_opt (get_opt p ''source_citations'') ''primary_sources'') ''length'') 0"

definition quality_score :: "runtime \<Rightarrow> jsval \<Rightarrow> nat" where
  "quality_score rt p =
     (if citations_present rt p then 30 else 0)
     + (if truthy (get_opt p ''confidence_score'') \<and> js_gt rt (get_opt p ''confidence_score'') 70
        then 25 else 0)
     + (if has_required_fields p then 25 else 0)
     + (if truthy (get_opt p ''bio'') \<and> js_gt rt (get_opt (get_opt p ''bio'') ''length'') 100
        then 20 else 0)"

text \<open>A kept persona as it is returned: with its validation record attached.\<close>

definition with_validation :: "runtime \<Rightarrow> jsval \<Rightarrow> jsval" where
  "with_validation rt p =
     (case assign_prop p ''validation''
             (JObj [(''complete'', JBool True), (''missing_fields'', JArr [] []),
                    (''quality_score'', JNum (real (quality_score rt p)))]) of
        Inr p' \<Rightarrow> p'
      | Inl e \<Rightarrow> p)"

text \<open>
  A persona as \<^verbatim>\<open>addSourceCitations\<close> hands it to the validation: it is not
  undefined or null, and the \<open>primary_sources\<close> of its citation block are not
  undefined or null.
\<close>

definition cited_persona :: "jsval \<Rightarrow> bool" where
  "cited_persona p \<longleftrightarrow>
     p \<noteq> JUndef \<and> p \<noteq> JNull
     \<and> (truthy (get_opt p ''source_citations'') \<longrightarrow>
           get_opt (get_opt p ''source_citations'') ''primary_sources'' \<noteq> JUndef
         \<and> get_opt (get_opt p ''source_citations'') ''primary_sources'' \<noteq> JNull)"

section \<open>lib/sheetsService.js: the import validator\<close>

record single_check =
  isValid :: bool
  check_warnings :: "string list"
  check_errors :: "string list"

text \<open>\<^verbatim>\<open>v && !Array.isArray(v)\<close>\<close>

definition not_a_list :: "jsval \<Rightarrow> bool" where
  "not_a_list v = (truthy v \<and> \<not> is_array v)"

text \<open>
  \<^verbatim>\<open>validateSinglePersona(persona, rowNumber)\<close> of the import. The name is read
  first; a truthy name that is not a string has no \<^verbatim>\<open>trim\<close> and throws. The
  warnings are pushed in the order of the checks.
\<close>

definition validateSinglePersona_import :: "runtime \<Rightarrow> jsval \<Rightarrow> nat \<Rightarrow> js_error + single_check" where
  "validateSinglePersona_import rt p rowNumber =
     bind_result (get_prop p ''name'') (\<lambda>name.
     bind_result
       (if \<not> truthy name then Inr True
        else bind_result (string_receiver ''trim'' name) (\<lambda>s. Inr (js_trim s = []))) (\<lambda>nameless.
       let age = get_opt p ''age'';
           interests = get_opt p ''interests''
       in
       Inr \<lparr>isValid = \<not> nameless,
            check_warnings =
              (if age \<noteq> JUndef
               then (if num_of rt age = None \<or> js_lt rt age 0 \<or> js_gt rt age 120
                     then [''Age '' @ str_of rt age @ '' seems unusual''] else [])
               else [''Age not provided'']) @
              (if \<not> truthy (get_opt p ''location'') then [''Location not provided''] else []) @
              (if \<not> truthy (get_opt p ''occupation'') then [''Occupation not provided''] else []) @
              (if \<not> truthy (get_opt p ''bio'') \<and> \<not> truthy (get_opt p ''description'')
               then [''No biography or description provided''] else []) @
              (if \<not> truthy interests \<or> (case interests of JArr xs ps \<Rightarrow> length xs = 0 | _ \<Rightarrow> False)
               then [''No interests provided''] else []) @
              (if not_a_list interests then [''Interests should be a list''] else []) @
              (if not_a_list (get_opt p ''motivations'') then [''Motivations should be a list''] else []) @
              (if not_a_list (get_opt p ''barriers'') then [''Barriers should be a list''] else []),
            check_errors = (if nameless then [''Name is required''] else [])\<rparr>))"

record import_validation =
  valid :: "jsval list"
  warnings :: "jsval list"
  import_errors :: "jsval list"
  total_imported :: nat
  valid_personas :: nat
  personas_with_warnings :: nat
  invalid_personas :: nat

definition report_entry :: "jsval \<Rightarrow> nat \<Rightarrow> string \<Rightarrow> string list \<Rightarrow> jsval" where
  "report_entry persona_name row kind messages =
     JObj [(''persona_name'', persona_name), (''row'', JNum (real row)),
           (kind, JArr (map JStr messages) [])]"

text \<open>
  One pass of the loop of \<^verbatim>\<open>validatePersonas\<close> for the persona at position
  \<open>i\<close>, updating the validation record.
\<close>

definition import_step :: "runtime \<Rightarrow> jsval \<Rightarrow> nat \<Rightarrow> import_validation \<Rightarrow> js_error + import_validation" where
  "import_step rt p i v =
     bind_result (validateSinglePersona_import rt p (i + 1)) (\<lambda>personaValidation.
       if isValid personaValidation then
         (let v1 = v\<lparr>valid := valid v @ [p], valid_personas := valid_personas v + 1\<rparr> in
          if length (check_warnings personaValidation) > 0 then
            Inr (v1\<lparr>warnings := warnings v1 @
                       [report_entry (get_opt p ''name'') (i + 1) ''warnings''
                          (check_warnings personaValidation)],
                     personas_with_warnings := personas_with_warnings v1 + 1\<rparr>)
          else Inr v1)
       else
         Inr (v\<lparr>import_errors := import_errors v @
                    [report_entry (js_or (get_opt p ''name'') (JStr (''Row '' @ show_nat (i + 1))))
                       (i + 1) ''errors'' (check_errors personaValidation)],
                  invalid_personas := invalid_personas v + 1\<rparr>))"

fun import_loop :: "runtime \<Rightarrow> jsval list \<Rightarrow> nat \<Rightarrow> import_validation \<Rightarrow> js_error + import_validation" where
  "import_loop rt [] i v = Inr v"
| "import_loop rt (p # ps) i v =
     bind_result (import_step rt p i v) (\<lambda>v'. import_loop rt ps (i + 1) v')"

definition validatePersonas_import :: "runtime \<Rightarrow> jsval list \<Rightarrow> js_error + import_validation" where
  "validatePersonas_import rt personas =
     import_loop rt personas 0
       \<lparr>valid = [], warnings = [], import_errors = [], total_imported = length personas,
        valid_personas = 0, personas_with_warnings = 0, invalid_personas = 0\<rparr>"

text \<open>
  The import validation in the specification's words. A name is missing or empty when it
  is not set (undefined, null or another value that stands for nothing: false, 0, NaN), or
  is a string that is empty or holds nothing but white space, the characters U+0009 to
  U+000D, U+0020 and U+00A0. An age is outside the range when it is a number below 0 or
  above 120. An imported persona is an object (or another value that is not undefined or
  null) whose name, when set, is a string.
\<close>

definition blank :: "string \<Rightarrow> bool" where
  "blank s = list_all (\<lambda>c. (of_char c :: nat) \<in> {9, 10, 11, 12, 13, 32, 160}) s"

definition name_missing_or_empty :: "jsval \<Rightarrow> bool" where
  "name_missing_or_empty p =
     (case get_opt p ''name'' of
        JUndef \<Rightarrow> True
      | JNull \<Rightarrow> True
      | JBool b \<Rightarrow> \<not> b
      | JNum r \<Rightarrow> r = 0
      | JNaN \<Rightarrow> True
      | JStr s \<Rightarrow> blank s
      | JArr xs ps \<Rightarrow> False
      | JObj kvs \<Rightarrow> False
      | JFun f \<Rightarrow> False)"

definition age_out_of_range :: "jsval \<Rightarrow> bool" where
  "age_out_of_range p = (case get_opt p ''age'' of JNum r \<Rightarrow> r < 0 \<or> r > 120 | _ \<Rightarrow> False)"

definition imported_persona :: "jsval \<Rightarrow> bool" where
  "imported_persona p \<longleftrightarrow>
     p \<noteq> JUndef \<and> p \<noteq> JNull
     \<and> (case get_opt p ''name'' of JStr s \<Rightarrow> True | v \<Rightarrow> \<not> truthy v)"

text \<open>The messages of an entry of the warnings or errors list.\<close>

definition entry_messages :: "jsval \<Rightarrow> string \<Rightarrow> jsval list" where
  "entry_messages w kind = (case get_opt w kind of JArr xs ps \<Rightarrow> xs | _ \<Rightarrow> [])"

text \<open>
  A warning entry \<open>w\<close> that reports the unusual age of the persona \<open>p\<close> of row
  \<open>row\<close>.
\<close>

definition age_warning_for :: "runtime \<Rightarrow> jsval \<Rightarrow> nat \<Rightarrow> jsval \<Rightarrow> bool" where
  "age_warning_for rt p row w \<longleftrightarrow>
     get_opt w ''row'' = JNum (real row)
     \<and> get_opt w ''persona_name'' = get_opt p ''name''
     \<and> JStr (''Age '' @ str_of rt (get_opt p ''age'') @ '' seems unusual'')
         \<in> set (entry_messages w ''warnings'')"

text \<open>
  The effect of the import loop over the personas \<open>ps\<close>, starting at position \<open>i\<close>,
  on the validation record.
\<close>

definition step_effect :: "runtime \<Rightarrow> jsval list \<Rightarrow> nat \<Rightarrow> import_validation \<Rightarrow> import_validation \<Rightarrow> bool" where
  "step_effect rt ps i v v' \<longleftrightarrow>
     valid v' = valid v @ filter (\<lambda>p. \<not> name_missing_or_empty p) ps
     \<and> valid_personas v' = valid_personas v + length (filter (\<lambda>p. \<not> name_missing_or_empty p) ps)
     \<and> invalid_personas v' = invalid_personas v + length (filter name_missing_or_empty ps)
     \<and> total_imported v' = total_imported v
     \<and> (\<exists>ws. warnings v' = warnings v @ ws
           \<and> personas_with_warnings v' = personas_with_warnings v + length ws
           \<and> (\<forall>j < length ps. \<not> name_missing_or_empty (ps ! j) \<and> age_out_of_range (ps ! j) \<longrightarrow>
                 (\<exists>w \<in> set ws. age_warning_for rt (ps ! j) (i + j + 1) w)))
     \<and> (\<exists>es. import_errors v' = import_errors v @ es
           \<and> length es = length (filter name_missing_or_empty ps))"

section \<open>lib/researchAgent.js\<close>

text \<open>
  How the HTTP request of one topic query ends: with a response (its \<open>data\<close>), with an
  error that carries the server's response (status and data), with an error that carries
  only the request (a timeout or a network failure, nothing came back), or with an error
  raised before the request was sent (its message).
\<close>

datatype axios_outcome =
    Responded jsval
  | ErrorResponse jsval jsval
  | NoReply
  | RequestSetupFailed string

text \<open>What the \<^verbatim>\<open>catch\<close> of \<^verbatim>\<open>makePerplexityRequest\<close> inspects of an error.\<close>

datatype request_failure =
    WithResponse jsval jsval
  | WithRequest
  | Plain js_error

definition plain :: "js_error + 'a \<Rightarrow> request_failure + 'a" where
  "plain m = (case m of Inl e \<Rightarrow> Inl (Plain e) | Inr x \<Rightarrow> Inr x)"

text \<open>\<^verbatim>\<open>response.data.choices[0]?.message?.content\<close>\<close>

definition reply_content :: "jsval \<Rightarrow> js_error + jsval" where
  "reply_content data =
     bind_result (get_prop data ''choices'') (\<lambda>choices.
     bind_result (get_index choices 0) (\<lambda>choice.
       Inr (get_opt (get_opt choice ''message'') ''content'')))"

text \<open>
  The inner \<^verbatim>\<open>try\<close>: decode the content and tag the decoded value; on any error
  return the tagged error object.
\<close>

definition tag_reply :: "runtime \<Rightarrow> jsval \<Rightarrow> string \<Rightarrow> jsval" where
  "tag_reply rt content requestType =
     (case bind_result (json_parse rt content) (\<lambda>parsedData.
           bind_result (assign_prop parsedData ''_raw_response'' content) (\<lambda>p1.
             assign_prop p1 ''_request_type'' (JStr requestType))) of
        Inr parsedData \<Rightarrow> parsedData
      | Inl parseError \<Rightarrow>
          JObj [(''_raw_response'', content),
                (''_request_type'', JStr requestType),
                (''_parse_error'', JStr (error_message parseError)),
                (''error'', JStr ''Could not parse structured response'')])"

definition makePerplexityRequest_body :: "runtime \<Rightarrow> axios_outcome \<Rightarrow> string \<Rightarrow> request_failure + jsval" where
  "makePerplexityRequest_body rt outcome requestType =
     (case outcome of
        ErrorResponse status data \<Rightarrow> Inl (WithResponse status data)
      | NoReply \<Rightarrow> Inl WithRequest
      | RequestSetupFailed m \<Rightarrow> Inl (Plain (Error m))
      | Responded data \<Rightarrow>
          bind_result (plain (reply_content data)) (\<lambda>content.
            if \<not> truthy content then Inl (Plain (Error ''Empty response from Perplexity API''))
            else Inr (tag_reply rt content requestType)))"

definition makePerplexityRequest :: "runtime \<Rightarrow> axios_outcome \<Rightarrow> string \<Rightarrow> js_error + jsval" where
  "makePerplexityRequest rt outcome requestType =
     (case makePerplexityRequest_body rt outcome requestType of
        Inr v \<Rightarrow> Inr v
      | Inl (WithResponse status data) \<Rightarrow>
          Inl (Error (''Perplexity API error: '' @ str_of rt status @ '' - '' @
                      str_of rt (js_or (get_opt data ''error'') (JStr ''Unknown error''))))
      | Inl WithRequest \<Rightarrow> Inl (Error ''Perplexity API request timeout or network error'')
      | Inl (Plain e) \<Rightarrow> Inl (Error (''Research request failed: '' @ error_message e)))"

text \<open>
  \<^verbatim>\<open>Promise.all\<close>: the results in order when every promise is fulfilled, and the
  rejection otherwise (of the first promise in order, when several are rejected).
\<close>

fun promise_all :: "('e + 'a) list \<Rightarrow> 'e + 'a list" where
  "promise_all [] = Inr []"
| "promise_all (x # xs) =
     bind_result x (\<lambda>v. bind_result (promise_all xs) (\<lambda>vs. Inr (v # vs)))"

definition research_topics :: "string list" where
  "research_topics = [''demographics'', ''social_insights'', ''legal_trends'', ''consumer_behavior'']"

text \<open>
  \<^verbatim>\<open>conductResearch(caseType, keywords, targetDescription)\<close>. \<open>has_key\<close> says
  whether \<^verbatim>\<open>PERPLEXITY_API_KEY\<close> is set; \<open>outcomes i\<close> is how the request of
  topic \<open>i\<close> ends. The prompts go to the research service only.
\<close>

definition conductResearch :: "runtime \<Rightarrow> bool \<Rightarrow> (nat \<Rightarrow> axios_outcome) \<Rightarrow> jsval \<Rightarrow> jsval \<Rightarrow> jsval \<Rightarrow> jsval" where
  "conductResearch rt has_key outcomes caseType keywords targetDescription =
     (if \<not> has_key then JObj [(''error'', JStr ''Research API not configured'')]
      else
        case promise_all (map (\<lambda>i. makePerplexityRequest rt (outcomes i) (research_topics ! i)) [0 ..< 4]) of
          Inr research \<Rightarrow>
            JObj [(''demographics'', research ! 0),
                  (''social_insights'', research ! 1),
                  (''legal_trends'', research ! 2),
                  (''consumer_behavior'', research ! 3),
                  (''research_timestamp'', JStr (now_iso rt)),
                  (''case_type'', caseType),
                  (''keywords'', keywords)]
        | Inl error \<Rightarrow>
            JObj [(''error'', JStr (error_message error)), (''partial_data'', JNull)])"

text \<open>A reply whose content is set but does not decode: "unparsable content".\<close>

definition unparsable :: "runtime \<Rightarrow> axios_outcome \<Rightarrow> bool" where
  "unparsable rt outcome =
     (case outcome of
        Responded data \<Rightarrow>
          (case reply_content data of
             Inr content \<Rightarrow> truthy content \<and> isl (json_parse rt content)
           | Inl e \<Rightarrow> False)
      | _ \<Rightarrow> False)"

text \<open>The tagged error object of a query: it has an \<open>error\<close> and names its topic.\<close>

definition tagged_error :: "jsval \<Rightarrow> string \<Rightarrow> bool" where
  "tagged_error v topic \<longleftrightarrow>
     is_object v \<and> get_opt v ''error'' = JStr ''Could not parse structured response''
     \<and> get_opt v ''_request_type'' = JStr topic"

text \<open>
  A query that fails: the request ends with an error, or the response has no content.
\<close>

definition request_failed :: "axios_outcome \<Rightarrow> bool" where
  "request_failed outcome =
     (case outcome of
        Responded data \<Rightarrow>
          (case reply_content data of Inl e \<Rightarrow> True | Inr content \<Rightarrow> \<not> truthy content)
      | _ \<Rightarrow> True)"

section \<open>lib/sheetsService.js: the import of rows\<close>

text \<open>
  \<^verbatim>\<open>parseInt(s)\<close>: leading white space is skipped, a sign is read, then a
  hexadecimal number after \<^verbatim>\<open>0x\<close> or else the leading decimal digits; \<open>None\<close>
  is NaN (no digit found).
\<close>

definition digit_value :: "char \<Rightarrow> nat option" where
  "digit_value c =
     (let n = (of_char c :: nat) in
      if 48 \<le> n \<and> n \<le> 57 then Some (n - 48)
      else if 97 \<le> n \<and> n \<le> 102 then Some (n - 87)
      else if 65 \<le> n \<and> n \<le> 70 then Some (n - 55)
      else None)"

definition is_digit :: "nat \<Rightarrow> char \<Rightarrow> bool" where
  "is_digit base c = (case digit_value c of None \<Rightarrow> False | Some d \<Rightarrow> d < base)"

definition digits_value :: "nat \<Rightarrow> string \<Rightarrow> nat" where
  "digits_value base ds =
     foldl (\<lambda>acc c. acc * base + (case digit_value c of None \<Rightarrow> 0 | Some d \<Rightarrow> d)) 0 ds"

definition parse_unsigned :: "string \<Rightarrow> nat option" where
  "parse_unsigned s =
     (if take 2 s = ''0x'' \<or> take 2 s = ''0X''
      then (let ds = takeWhile (is_digit 16) (drop 2 s) in
            if ds = [] then None else Some (digits_value 16 ds))
      else (let ds = takeWhile (is_digit 10) s in
            if ds = [] then None else Some (digits_value 10 ds)))"

definition parse_int :: "string \<Rightarrow> int option" where
  "parse_int s =
     (let t = dropWhile is_space s in
      case t of
        [] \<Rightarrow> None
      | c # cs \<Rightarrow>
          if c = CHR ''-'' then map_option (\<lambda>n. - int n) (parse_unsigned cs)
          else if c = CHR ''+'' then map_option int (parse_unsigned cs)
          else map_option int (parse_unsigned t))"

text \<open>\<^verbatim>\<open>s.split(/[,;]/)\<close>\<close>

fun split_list :: "string \<Rightarrow> string list" where
  "split_list [] = [[]]"
| "split_list (c # cs) =
     (if c = CHR '','' \<or> c = CHR '';'' then [] # split_list cs
      else (case split_list cs of [] \<Rightarrow> [[c]] | x # xs \<Rightarrow> (c # x) # xs))"

text \<open>\<^verbatim>\<open>s.replace(/\s+/g, '_')\<close>: every run of white space becomes one underscore.\<close>

function underscore_spaces :: "string \<Rightarrow> string" where
  "underscore_spaces [] = []"
| "underscore_spaces (c # cs) =
     (if is_space c then CHR ''_'' # underscore_spaces (dropWhile is_space cs)
      else c # underscore_spaces cs)"
  by pat_completeness auto
termination
  by (relation "measure length") (auto simp: less_Suc_eq_le length_dropWhile_le)

text \<open>
  \<^verbatim>\<open>s.toLowerCase()\<close>, code unit by code unit: the capital letters below 256 are
  A to Z (U+0041 to U+005A) and U+00C0 to U+00DE without the multiplication sign U+00D7;
  each has its small letter 32 places further on.
\<close>

definition lower_char :: "char \<Rightarrow> char" where
  "lower_char c =
     (let n = (of_char c :: nat) in
      if (65 \<le> n \<and> n \<le> 90) \<or> (192 \<le> n \<and> n \<le> 222 \<and> n \<noteq> 215) then char_of (n + 32) else c)"

definition columnMapping :: "(string \<times> string) list" where
  "columnMapping =
     [(''name'', ''name''), (''first name'', ''name''), (''full name'', ''name''),
      (''age'', ''age''), (''gender'', ''gender''),
      (''location'', ''location''), (''city'', ''location''), (''state'', ''location''),
      (''income'', ''income''), (''household income'', ''income''),
      (''education'', ''education''),
      (''occupation'', ''occupation''), (''job'', ''occupation''),
      (''interests'', ''interests''), (''hobbies'', ''interests''),
      (''values'', ''values''),
      (''communication style'', ''communication_style''),
      (''communication_style'', ''communication_style''),
      (''bio'', ''bio''), (''biography'', ''bio''), (''description'', ''bio''),
      (''motivations'', ''motivations''),
      (''barriers'', ''barriers''), (''concerns'', ''barriers''),
      (''personality'', ''personality''), (''traits'', ''personality'')]"

text \<open>
  \<^verbatim>\<open>columnMapping[header]\<close> as a property key. The table is an object literal, so
  the two lower-case names it inherits, \<^verbatim>\<open>constructor\<close> and
  \<^verbatim>\<open>__proto__\<close>, are found as well: their values are truthy and become the keys
  their string conversions spell.
\<close>

definition mapped_property :: "string \<Rightarrow> string option" where
  "mapped_property header =
     (if header = ''constructor'' then Some ''function Object() { [native code] }''
      else if header = ''__proto__'' then Some ''[object Object]''
      else map_of columnMapping header)"

text \<open>One column of the loop of \<^verbatim>\<open>parsePersonaFromRow\<close>: header and cell.\<close>

definition parse_column :: "string \<times> string \<Rightarrow> (string \<times> jsval) list \<Rightarrow> (string \<times> jsval) list" where
  "parse_column col p =
     (let header = fst col; cell = snd col in
      if cell = [] \<or> js_trim cell = [] then p
      else
        case mapped_property header of
          Some mappedProperty \<Rightarrow>
            if mappedProperty = ''age'' then
              set_prop mappedProperty
                (case parse_int cell of
                   None \<Rightarrow> JNum 0
                 | Some n \<Rightarrow> JNum (real_of_int n)) p
            else if mappedProperty = ''interests'' \<or> mappedProperty = ''motivations''
                    \<or> mappedProperty = ''barriers'' then
              set_prop mappedProperty
                (JArr (map JStr (filter (\<lambda>item. item \<noteq> []) (map js_trim (split_list cell)))) []) p
            else set_prop mappedProperty (JStr (js_trim cell)) p
        | None \<Rightarrow> set_prop (underscore_spaces header) (JStr (js_trim cell)) p)"

text \<open>
  \<^verbatim>\<open>parsePersonaFromRow(row, headers)\<close>: the columns up to the shorter of the two
  lengths; \<open>None\<close> is the \<^verbatim>\<open>null\<close> returned for a row without a name.
\<close>

definition parsePersonaFromRow :: "runtime \<Rightarrow> string list \<Rightarrow> string list \<Rightarrow> jsval option" where
  "parsePersonaFromRow rt row headers =
     (let p = fold parse_column (zip headers row) [] in
      if \<not> truthy (own p ''name'') then None
      else Some (JObj (set_prop ''imported_at'' (JStr (now_iso rt))
                        (set_prop ''source'' (JStr ''julius_sheet'') p))))"

text \<open>
  \<^verbatim>\<open>fetchPersonasFromExternalSheet(sheetUrl)\<close>. \<open>fetched\<close> is the outcome of
  reading the sheet (the spreadsheet id taken from the URL, the service set up, the range
  \<^verbatim>\<open>A:Z\<close> read): the rows of cell texts, or the error thrown on the way; no rows
  at all stands for an undefined \<^verbatim>\<open>values\<close> too. Headers are lower-cased and
  trimmed; a row parsed to \<^verbatim>\<open>null\<close> is dropped.
\<close>

definition fetchPersonasFromExternalSheet :: "runtime \<Rightarrow> js_error + string list list \<Rightarrow> js_error + jsval list" where
  "fetchPersonasFromExternalSheet rt fetched =
     try_catch
       (bind_result fetched (\<lambda>rows.
          if length rows \<le> 1
          then Inl (Error ''No persona data found in the sheet or only headers present'')
          else
            let headers = map (\<lambda>h. js_trim (map lower_char h)) (hd rows) in
            Inr (concat (map (\<lambda>row. case parsePersonaFromRow rt row headers of
                                       None \<Rightarrow> [] | Some p \<Rightarrow> [p]) (tl rows)))))
       (\<lambda>error. Inl (Error (''Failed to access Julius personas sheet: '' @ error_message error)))"

section \<open>api/generate-personas-v2.js: the request dispatcher\<close>

text \<open>
  The collaborators of the endpoint that lie outside the functions modelled above, and the
  outcomes of the calls those functions make: the URL parser (host name and path name, or
  \<open>None\<close> when \<^verbatim>\<open>new URL\<close> throws), the rows read from the external sheet, the
  document analysis, the stage B enrichment of lib/personaAgent.js (its result object, or
  the error it throws), the credentials, and the replies of the model and research
  services.
\<close>

record services =
  url_parse :: "string \<Rightarrow> (string \<times> string) option"
  sheet_rows :: "jsval \<Rightarrow> js_error + string list list"
  process_files :: "jsval list \<Rightarrow> js_error + jsval"
  analyze_files :: "jsval list \<Rightarrow> js_error + jsval"
  perplexity_key :: bool
  research_outcomes :: "nat \<Rightarrow> axios_outcome"
  anthropic_key :: bool
  generator_reply :: "js_error + jsval"
  social_replies :: "nat \<Rightarrow> js_error + jsval"
  legal_enrichment :: "jsval list \<Rightarrow> js_error + jsval"
  sheets_call :: "jsval \<Rightarrow> js_error + sheets_client"

text \<open>
  A request: its method and the outcome of \<^verbatim>\<open>parseForm\<close>, the fields of the body.
  A response: the status and the JSON body, of which the model keeps the properties that
  tell the responses apart (session id, timestamps and troubleshooting hints are left
  out). The trace lists the collaborating functions in the order they were called.
\<close>

record request =
  http_method :: string
  form :: "js_error + jsval"

record response =
  status :: nat
  payload :: jsval

type_synonym trace = "string list"

text \<open>\<^verbatim>\<open>s.includes(t)\<close>\<close>

definition includes_text :: "string \<Rightarrow> string \<Rightarrow> bool" where
  "includes_text s t = list_ex (\<lambda>i. take (length t) (drop i s) = t) [0 ..< Suc (length s)]"

text \<open>
  \<^verbatim>\<open>/^https:\/\/docs\.google\.com\/spreadsheets\/d\/[a-zA-Z0-9-_]+/.test(s)\<close>
\<close>

definition id_char :: "char \<Rightarrow> bool" where
  "id_char c =
     (let n = (of_char c :: nat) in
      (97 \<le> n \<and> n \<le> 122) \<or> (65 \<le> n \<and> n \<le> 90) \<or> (48 \<le> n \<and> n \<le> 57)
      \<or> c = CHR ''-'' \<or> c = CHR ''_'')"

definition sheetsUrlPattern :: "string \<Rightarrow> bool" where
  "sheetsUrlPattern s =
     (let prefix = ''https://docs.google.com/spreadsheets/d/'' in
      take (length prefix) s = prefix
      \<and> (case drop (length prefix) s of [] \<Rightarrow> False | c # cs \<Rightarrow> id_char c))"

text \<open>
  The validation of the sheet URL: the pattern, then the host name and the path name of
  the parsed URL. The result is the error response, if any.
\<close>

definition validate_sheet_url :: "runtime \<Rightarrow> services \<Rightarrow> jsval \<Rightarrow> response option" where
  "validate_sheet_url rt env url =
     (if \<not> sheetsUrlPattern (str_of rt url)
      then Some \<lparr>status = 400,
                 payload = JObj [(''error'', JStr ''Invalid Google Sheets URL'')]\<rparr>
      else
        case url_parse env (str_of rt url) of
          None \<Rightarrow>
            Some \<lparr>status = 400, payload = JObj [(''error'', JStr ''Invalid Google Sheets URL Format'')]\<rparr>
        | Some (hostname, pathname) \<Rightarrow>
            if hostname \<noteq> ''docs.google.com'' \<or> \<not> includes_text pathname ''/spreadsheets/d/''
            then Some \<lparr>status = 400,
                       payload = JObj [(''error'', JStr ''Invalid Google Sheets URL Format'')]\<rparr>
            else None)"

text \<open>
  The bindings visible in the body of \<^verbatim>\<open>handler\<close>: the module's, the parameters
  and the local declarations. The values of the fields are what the request gave.
\<close>

definition handler_scope :: "jsval \<Rightarrow> (string \<times> jsval) list" where
  "handler_scope flds =
     [(''matter'', get_opt flds ''matter''),
      (''keywords'', get_opt flds ''keywords''),
      (''target_description'', get_opt flds ''target_description''),
      (''persona_count'', get_opt flds ''persona_count''),
      (''julius_personas_sheet_url'', get_opt flds ''julius_personas_sheet_url''),
      (''complaint_file_url'', get_opt flds ''complaint_file_url''),
      (''research_file_url'', get_opt flds ''research_file_url''),
      (''Readable'', JFun ''Readable''), (''config'', JObj []),
      (''parseForm'', JFun ''parseForm''), (''handler'', JFun ''handler''),
      (''handlePersonaEnrichment'', JFun ''handlePersonaEnrichment'')]"

definition campaign_of :: "jsval \<Rightarrow> jsval" where
  "campaign_of flds =
     JObj [(''matter'', get_opt flds ''matter''),
           (''keywords'', get_opt flds ''keywords''),
           (''target_description'', get_opt flds ''target_description'')]"

definition file_urls :: "jsval \<Rightarrow> jsval list" where
  "file_urls flds =
     filter truthy [get_opt flds ''complaint_file_url'', get_opt flds ''research_file_url'']"

text \<open>
  Step 1 of the generation workflow. With files to process, the \<^verbatim>\<open>try\<close> block
  first tests \<^verbatim>\<open>mri_file_url\<close>; its \<^verbatim>\<open>catch\<close> logs the error and goes on
  with no uploaded data.
\<close>

definition uploaded_for_generation :: "services \<Rightarrow> jsval \<Rightarrow> jsval" where
  "uploaded_for_generation env flds =
     (if length (file_urls flds) > 0 then
        (case bind_result (lookup_identifier (handler_scope flds) ''mri_file_url'')
                (\<lambda>mri_file_url. process_files env (file_urls flds)) of
           Inr uploadedData \<Rightarrow> uploadedData
         | Inl error \<Rightarrow> JArr [] [])
      else JArr [] [])"

text \<open>
  Steps 2 and 3 of the generation workflow. A step makes its call: it takes the trace of
  the calls made so far and gives back that trace with the name of the function it calls
  appended, together with what the call returned. The research is given the three campaign
  fields; the Generator is given the campaign, the uploaded data and the research data it
  is handed.
\<close>

definition research_step :: "runtime \<Rightarrow> services \<Rightarrow> jsval \<Rightarrow> trace \<Rightarrow> trace \<times> jsval" where
  "research_step rt env flds t =
     (t @ [''conductResearch''],
      conductResearch rt (perplexity_key env) (research_outcomes env)
        (get_opt flds ''matter'') (get_opt flds ''keywords'') (get_opt flds ''target_description''))"

definition generation_step ::
  "runtime \<Rightarrow> services \<Rightarrow> jsval \<Rightarrow> jsval \<Rightarrow> jsval \<Rightarrow> trace \<Rightarrow> trace \<times> (js_error + jsval)" where
  "generation_step rt env flds uploadedData researchData t =
     (t @ [''generatePersonas''],
      generatePersonas rt (anthropic_key env) (generator_reply env) (campaign_of flds)
        uploadedData researchData)"

text \<open>
  The response to the outcome of the Generator: an error reaches the outer
  \<^verbatim>\<open>catch\<close>; a result without a truthy \<open>success\<close> is answered with status 422.
\<close>

definition generation_response :: "js_error + jsval \<Rightarrow> response" where
  "generation_response outcome =
     (case outcome of
        Inl error \<Rightarrow>
          \<lparr>status = 500,
           payload = JObj [(''error'', JStr ''PROCESSING_FAILED''),
                           (''message'', JStr (error_message error))]\<rparr>
      | Inr personaResult \<Rightarrow>
          if \<not> truthy (get_opt personaResult ''success'')
          then \<lparr>status = 422, payload = personaResult\<rparr>
          else
            (case get_opt personaResult ''personas'' of
               JArr personas ps \<Rightarrow>
                 \<lparr>status = 200,
                  payload = JObj [(''success'', JBool True), (''personas'', JArr personas ps)]\<rparr>
             | _ \<Rightarrow>
                 \<lparr>status = 500, payload = JObj [(''error'', JStr ''PROCESSING_FAILED'')]\<rparr>))"

text \<open>
  The generation workflow: the uploaded files (step 1), the research (step 2), then the
  Generator (step 3), which is handed what the research returned.
\<close>

definition generation_workflow :: "runtime \<Rightarrow> services \<Rightarrow> jsval \<Rightarrow> trace \<times> response" where
  "generation_workflow rt env flds =
     (let uploadedData = uploaded_for_generation env flds;
          (t2, researchData) = research_step rt env flds [];
          (t3, outcome) = generation_step rt env flds uploadedData researchData t2
      in (t3, generation_response outcome))"

definition enrichment_failed :: "js_error \<Rightarrow> response" where
  "enrichment_failed error =
     \<lparr>status = 500,
      payload = JObj [(''error'', JStr ''ENRICHMENT_FAILED''),
                      (''message'', JStr (error_message error))]\<rparr>"

text \<open>
  \<^verbatim>\<open>handlePersonaEnrichment\<close>: import, validation, background documents, research,
  stage A, stage B, export. The import has a \<^verbatim>\<open>catch\<close> of its own; every other
  error reaches the outer \<^verbatim>\<open>catch\<close>. The function is given here in three parts,
  last part first: step 7, the export and the final response;
\<close>

definition enrichment_export :: "runtime \<Rightarrow> services \<Rightarrow> jsval \<Rightarrow> trace \<Rightarrow> jsval \<Rightarrow> trace \<times> response" where
  "enrichment_export rt env flds t5 finalEnrichedPersonas =
     (let t6 = t5 @ [''exportEnrichedPersonas''] in
      case exportEnrichedPersonas rt (sheets_call env) finalEnrichedPersonas
             (campaign_of flds) (JObj []) of
        Inl error \<Rightarrow> (t6, enrichment_failed error)
      | Inr exportResult \<Rightarrow>
          (t6, \<lparr>status = 200,
                payload =
                  JObj [(''success'', JBool True),
                        (''mode'', JStr ''enrichment''),
                        (''personas'', finalEnrichedPersonas),
                        (''exportResults'',
                           JObj [(''exported_sheet_url'', JStr (sheet_url exportResult)),
                                 (''exported_sheet_id'', spreadsheet_id exportResult),
                                 (''rows_exported'', JNum (real (rows_exported exportResult)))])]\<rparr>))"

text \<open>steps 4 to 6, the research and the two enrichment stages;\<close>

definition enrichment_stages ::
  "runtime \<Rightarrow> services \<Rightarrow> jsval \<Rightarrow> trace \<Rightarrow> import_validation \<Rightarrow> jsval \<Rightarrow> trace \<times> response" where
  "enrichment_stages rt env flds t2 validation uploadedData =
     (let t3 = t2 @ [''conductResearch''];
          researchData = conductResearch rt (perplexity_key env) (research_outcomes env)
                           (get_opt flds ''matter'') (get_opt flds ''keywords'')
                           (get_opt flds ''target_description'');
          enrichmentContext =
            JObj [(''matter'', get_opt flds ''matter''),
                  (''keywords'', get_opt flds ''keywords''),
                  (''target_description'', get_opt flds ''target_description''),
                  (''documents'', uploadedData),
                  (''research'', researchData)];
          t4 = t3 @ [''PersonaEnrichmentAgent.enrichPersonas'']
      in
      case enrichPersonas_social rt (social_replies env) (valid validation) enrichmentContext of
        Inl error \<Rightarrow> (t4, enrichment_failed error)
      | Inr socialEnrichedPersonas \<Rightarrow>
          (let t5 = t4 @ [''enrichPersonas''] in
           case bind_result (legal_enrichment env socialEnrichedPersonas)
                  (\<lambda>legalEnrichmentResult. get_prop legalEnrichmentResult ''personas'') of
             Inl error \<Rightarrow> (t5, enrichment_failed error)
           | Inr finalEnrichedPersonas \<Rightarrow> enrichment_export rt env flds t5 finalEnrichedPersonas))"

text \<open>and steps 1 to 3, the import, the validation and the background documents.\<close>

definition handlePersonaEnrichment :: "runtime \<Rightarrow> services \<Rightarrow> jsval \<Rightarrow> trace \<times> response" where
  "handlePersonaEnrichment rt env flds =
     (let t1 = [''handlePersonaEnrichment'', ''fetchPersonasFromExternalSheet''] in
      case fetchPersonasFromExternalSheet rt
             (sheet_rows env (get_opt flds ''julius_personas_sheet_url'')) of
        Inl error \<Rightarrow>
          (t1, \<lparr>status = 400,
                payload = JObj [(''error'', JStr ''SHEET_ACCESS_FAILED''),
                   (''message'',
                      JStr (let m = error_message error in
                            if includes_text m ''permission'' \<or> includes_text m ''access''
                               \<or> includes_text m ''403''
                            then ''Permission denied accessing Julius sheet''
                            else if includes_text m ''not found'' \<or> includes_text m ''404''
                            then ''Julius sheet not found''
                            else if includes_text m ''No persona data found''
                            then ''Empty personas sheet''
                            else ''Failed to access Julius personas sheet''))]\<rparr>)
      | Inr importedPersonas \<Rightarrow>
          (if length importedPersonas = 0
           then (t1, \<lparr>status = 400, payload = JObj [(''error'', JStr ''EMPTY_PERSONAS_SHEET'')]\<rparr>)
           else
             (let t2 = t1 @ [''validatePersonas''] in
              case validatePersonas_import rt importedPersonas of
                Inl error \<Rightarrow> (t2, enrichment_failed error)
              | Inr validation \<Rightarrow>
                  (if valid_personas validation = 0
                   then (t2, \<lparr>status = 400,
                              payload = JObj [(''error'', JStr ''NO_VALID_PERSONAS'')]\<rparr>)
                   else
                     (case (if length (file_urls flds) > 0 then analyze_files env (file_urls flds)
                            else Inr (JArr [] [])) of
                        Inl error \<Rightarrow> (t2, enrichment_failed error)
                      | Inr uploadedData \<Rightarrow>
                          enrichment_stages rt env flds t2 validation uploadedData)))))"

text \<open>
  The log line for a background document: \<^verbatim>\<open>url ? url.substring(0, 50) : ...\<close>
  throws for a truthy value that is not a string.
\<close>

definition log_file_url :: "jsval \<Rightarrow> js_error + unit" where
  "log_file_url url =
     (if truthy url then bind_result (string_receiver ''substring'' url) (\<lambda>s. Inr ()) else Inr ())"

text \<open>
  \<^verbatim>\<open>handler(req, res)\<close>: the method, the form and the log lines; then
  (\<open>dispatch\<close>) the required fields, the sheet URL, and the workflow that the presence
  of the sheet URL selects.
\<close>

text \<open>
  \<^verbatim>\<open>Object.keys(fields)\<close> in the log line after the form is parsed: it throws
  for undefined and null.
\<close>

definition object_keys :: "jsval \<Rightarrow> js_error + jsval" where
  "object_keys v =
     (if v = JUndef \<or> v = JNull
      then Inl (TypeError ''Cannot convert undefined or null to object'')
      else Inr v)"

definition dispatch :: "runtime \<Rightarrow> services \<Rightarrow> jsval \<Rightarrow> trace \<times> response" where
  "dispatch rt env flds =
     (if \<not> truthy (get_opt flds ''matter'') \<or> \<not> truthy (get_opt flds ''keywords'')
         \<or> \<not> truthy (get_opt flds ''target_description'')
      then ([], \<lparr>status = 400, payload = JObj [(''error'', JStr ''Missing required fields'')]\<rparr>)
      else
        (let julius_personas_sheet_url = get_opt flds ''julius_personas_sheet_url'' in
         case (if truthy julius_personas_sheet_url
               then validate_sheet_url rt env julius_personas_sheet_url else None) of
           Some rejected \<Rightarrow> ([], rejected)
         | None \<Rightarrow>
             (if truthy julius_personas_sheet_url
              then handlePersonaEnrichment rt env flds
              else generation_workflow rt env flds)))"

definition handler :: "runtime \<Rightarrow> services \<Rightarrow> request \<Rightarrow> trace \<times> response" where
  "handler rt env req =
     (if http_method req = ''OPTIONS'' then ([], \<lparr>status = 200, payload = JUndef\<rparr>)
      else if http_method req \<noteq> ''POST''
      then ([], \<lparr>status = 405, payload = JObj [(''error'', JStr ''Method not allowed'')]\<rparr>)
      else
        (case bind_result (form req) object_keys of
           Inl parseError \<Rightarrow>
             ([], \<lparr>status = 400,
                   payload = JObj [(''error'', JStr ''Failed to parse form data''),
                                   (''details'', JStr (error_message parseError))]\<rparr>)
         | Inr flds \<Rightarrow>
             (case bind_result (log_file_url (get_opt flds ''complaint_file_url''))
                     (\<lambda>u. log_file_url (get_opt flds ''research_file_url'')) of
                Inl error \<Rightarrow>
                  ([], \<lparr>status = 500,
                        payload = JObj [(''error'', JStr ''PROCESSING_FAILED''),
                                        (''message'', JStr (error_message error))]\<rparr>)
              | Inr u \<Rightarrow> dispatch rt env flds)))"

text \<open>
  A request as the form sends it: the method is POST, the body parses to an object that
  carries the three required fields, and the file URLs, when given, are strings.
\<close>

definition well_formed :: "request \<Rightarrow> jsval \<Rightarrow> bool" where
  "well_formed req flds \<longleftrightarrow>
     http_method req = ''POST'' \<and> form req = Inr flds \<and> is_object flds
     \<and> truthy (get_opt flds ''matter'') \<and> truthy (get_opt flds ''keywords'')
     \<and> truthy (get_opt flds ''target_description'')
     \<and> log_file_url (get_opt flds ''complaint_file_url'') = Inr ()
     \<and> log_file_url (get_opt flds ''research_file_url'') = Inr ()"

text \<open>
  The calls of the enrichment workflow, in the order of its steps, and the response of
  its outer \<^verbatim>\<open>catch\<close>.
\<close>

definition enrichment_calls :: trace where
  "enrichment_calls =
     [''handlePersonaEnrichment'', ''fetchPersonasFromExternalSheet'', ''validatePersonas'',
      ''conductResearch'', ''PersonaEnrichmentAgent.enrichPersonas'', ''enrichPersonas'',
      ''exportEnrichedPersonas'']"

definition failed_enrichment :: "response \<Rightarrow> bool" where
  "failed_enrichment r \<longleftrightarrow>
     status r = 500 \<and> get_opt (payload r) ''error'' = JStr ''ENRICHMENT_FAILED''"

section \<open>Sample runs\<close>

text \<open>
  A runtime for the sample runs below. \<open>parse\<close> is the decoder; the conversions treat
  the values that occur in the samples as JavaScript does (the numbers printed there are
  natural numbers, the values stringified are strings and the empty object).
\<close>

definition sample_runtime :: "(jsval \<Rightarrow> js_error + jsval) \<Rightarrow> runtime" where
  "sample_runtime parse =
     \<lparr>json_parse = parse,
      json_stringify = (\<lambda>v. case v of JStr s \<Rightarrow> [CHR 0x22] @ s @ [CHR 0x22] | _ \<Rightarrow> ''{}''),
      to_string = (\<lambda>v. case v of JUndef \<Rightarrow> ''undefined'' | JNull \<Rightarrow> ''null''
                     | JBool b \<Rightarrow> (if b then ''true'' else ''false'') | JStr s \<Rightarrow> s
                     | JNum r \<Rightarrow> show_nat (nat \<lfloor>r\<rfloor>)
                     | _ \<Rightarrow> ''[object Object]''),
      to_number = (\<lambda>v. case v of JNum r \<Rightarrow> Some r | JNull \<Rightarrow> Some 0
                     | JBool b \<Rightarrow> Some (if b then 1 else 0) | _ \<Rightarrow> None),
      now_iso = ''2024-01-01T00:00:00.000Z''\<rparr>"

text \<open>A decoder that reads every reply as a validation result that disapproves.\<close>

definition disapproving_parse :: "jsval \<Rightarrow> js_error + jsval" where
  "disapproving_parse v =
     Inr (JObj [(''approved'', JBool False), (''confidence'', JNum 10),
                (''missing_citations'', JArr [JStr ''age''] [])])"

text \<open>A decoder that rejects every text.\<close>

definition failing_parse :: "jsval \<Rightarrow> js_error + jsval" where
  "failing_parse v = Inl (SyntaxError ''Unexpected token'')"

text \<open>
  A reply whose enriched fields carry a \<open>name\<close>, and a decoder that decodes this reply
  as \<^verbatim>\<open>JSON.parse\<close> does.
\<close>

definition renaming_reply :: string where
  \<open>renaming_reply = ''{"enrichedFields":{"name":"Bob"},"confidence":0.9}''\<close>

definition renaming_parse :: "jsval \<Rightarrow> js_error + jsval" where
  "renaming_parse v =
     (if v = JStr renaming_reply
      then Inr (JObj [(''enrichedFields'', JObj [(''name'', JStr ''Bob'')]), (''confidence'', JNum 0.9)])
      else Inl (SyntaxError ''Unexpected token''))"

text \<open>
  A reply that wraps an array of one persona in prose, the text of the array, and a
  decoder that decodes this text as \<^verbatim>\<open>JSON.parse\<close> does.
\<close>

definition persona_array_text :: string where
  \<open>persona_array_text = ''[{"name":"Ann"}]''\<close>

definition persona_array_reply :: string where
  "persona_array_reply = ''Here are the personas: '' @ persona_array_text @ '' Let me know.''"

definition persona_array_parse :: "jsval \<Rightarrow> js_error + jsval" where
  "persona_array_parse v =
     (if v = JStr persona_array_text then Inr (JArr [JObj [(''name'', JStr ''Ann'')]] [])
      else Inl (SyntaxError ''Unexpected token''))"

text \<open>The renaming reply for every persona.\<close>

definition renaming_replies :: "nat \<Rightarrow> js_error + jsval" where
  "renaming_replies i = Inr (JStr renaming_reply)"

text \<open>
  Three generated personas with their citation blocks: one complete with a confidence of
  80, one with an empty list of barriers, one complete with a confidence of 60 and no
  cited source.
\<close>

definition persona_kept :: jsval where
  "persona_kept =
     JObj [(''name'', JStr ''Ann''), (''age'', JNum 41), (''bio'', JStr ''Night-shift nurse''),
           (''motivations'', JArr [JStr ''accountability''] []),
           (''barriers'', JArr [JStr ''cost''] []),
           (''communication_style'', JStr ''direct''),
           (''confidence_score'', JNum 80),
           (''source_citations'', JObj [(''primary_sources'', JArr [] [])])]"

definition persona_incomplete :: jsval where
  "persona_incomplete =
     JObj [(''name'', JStr ''Bob''), (''age'', JNum 35), (''bio'', JStr ''Driver''),
           (''motivations'', JArr [JStr ''compensation''] []),
           (''barriers'', JArr [] []),
           (''communication_style'', JStr ''casual''),
           (''confidence_score'', JNum 90),
           (''source_citations'', JObj [(''primary_sources'', JArr [JStr ''survey''] [])])]"

definition persona_low_score :: jsval where
  "persona_low_score =
     JObj [(''name'', JStr ''Cy''), (''age'', JNum 52), (''bio'', JStr ''Teacher''),
           (''motivations'', JArr [JStr ''fairness''] []),
           (''barriers'', JArr [JStr ''time''] []),
           (''communication_style'', JStr ''formal''),
           (''confidence_score'', JNum 60),
           (''source_citations'', JObj [(''primary_sources'', JArr [] [])])]"

text \<open>A generated persona with every required field set, aged 0.\<close>

definition persona_age_zero :: jsval where
  "persona_age_zero =
     JObj [(''name'', JStr ''Dee''), (''age'', JNum 0), (''bio'', JStr ''Newborn claimant''),
           (''motivations'', JArr [JStr ''care''] []),
           (''barriers'', JArr [JStr ''cost''] []),
           (''communication_style'', JStr ''through a guardian''),
           (''confidence_score'', JNum 90),
           (''source_citations'', JObj [(''primary_sources'', JArr [JStr ''survey''] [])])]"

text \<open>
  Three personas and the outcomes of their model calls: a reply without JSON for the
  first, the renaming reply for the second, a failed call for the third.
\<close>

definition three_personas :: "jsval list" where
  "three_personas =
     [JObj [(''name'', JStr ''Ann''), (''age'', JNum 34)], JObj [(''name'', JStr ''Cy'')],
      JObj [(''name'', JStr ''Dee'')]]"

definition mixed_replies :: "nat \<Rightarrow> js_error + jsval" where
  "mixed_replies i =
     (if i = 0 then Inr (JStr ''I have no data'')
      else if i = 1 then Inr (JStr renaming_reply)
      else Inl (Error ''Request timed out''))"

text \<open>
  A decoder that decodes the text \<^verbatim>\<open>[]\<close> as the empty array, a campaign, research
  data with one populated category, and the result the Generator then returns.
\<close>

definition empty_array_parse :: "jsval \<Rightarrow> js_error + jsval" where
  "empty_array_parse v =
     (if v = JStr ''[]'' then Inr (JArr [] []) else Inl (SyntaxError ''Unexpected token''))"

definition sample_campaign :: jsval where
  "sample_campaign =
     JObj [(''matter'', JStr ''X''), (''keywords'', JStr ''y''), (''target_description'', JStr ''z'')]"

definition sample_research :: jsval where
  "sample_research = JObj [(''demographics'', JObj [])]"

definition generated_nothing :: jsval where
  "generated_nothing =
     JObj [(''personas'', JArr [] []),
           (''sources_used'',
              JObj [(''total_documents'', JNum 1),
                    (''categories'',
                       JObj [(''demographic_data'',
                                JObj [(''document_count'', JNum 1),
                                      (''sources'', JArr [JStr ''perplexity_research''] [])])]),
                    (''quality_indicators'', JArr [] [])]),
           (''validation'',
              JObj [(''sufficient'', JBool True),
                    (''missing'', JArr [JStr ''social_insights'', JStr ''consumer_behavior''] []),
                    (''available'', JArr [JStr ''demographic_data''] []),
                    (''confidence'', JNum (100 / 3))]),
           (''generation_timestamp'', JStr ''2024-01-01T00:00:00.000Z'')]"

text \<open>
  Four imported rows: a complete one aged 150, one with an empty name, one without a name,
  one whose name is a no-break space.
\<close>

definition import_a :: jsval where
  "import_a = JObj [(''name'', JStr ''Ann''), (''age'', JNum 150), (''location'', JStr ''Ohio''),
                    (''occupation'', JStr ''Nurse''), (''bio'', JStr ''Works nights''),
                    (''interests'', JArr [JStr ''chess''] [])]"

definition import_b :: jsval where
  "import_b = JObj [(''name'', JStr []), (''age'', JNum 30)]"

definition import_c :: jsval where
  "import_c = JObj [(''age'', JNum 44), (''location'', JStr ''Texas'')]"

definition import_d :: jsval where
  "import_d = JObj [(''name'', JStr [CHR 0xA0]), (''age'', JNum 51)]"

text \<open>
  A decoder that decodes the text \<^verbatim>\<open>{}\<close> as the empty object, a response with
  a given content, and two batches of four queries: one where the third request times
  out, one where the second reply is prose instead of JSON.
\<close>

definition empty_object_parse :: "jsval \<Rightarrow> js_error + jsval" where
  "empty_object_parse v =
     (if v = JStr ''{}'' then Inr (JObj []) else Inl (SyntaxError ''Unexpected token''))"

definition reply_with :: "string \<Rightarrow> axios_outcome" where
  "reply_with content =
     Responded (JObj [(''choices'', JArr [JObj [(''message'', JObj [(''content'', JStr content)])]] [])])"

definition one_timeout :: "nat \<Rightarrow> axios_outcome" where
  "one_timeout i = (if i = 2 then NoReply else reply_with ''{}'')"

definition one_unparsable :: "nat \<Rightarrow> axios_outcome" where
  "one_unparsable i = (if i = 1 then reply_with ''No data found.'' else reply_with ''{}'')"

text \<open>
  A persona for the export, and a spreadsheet service every request of which succeeds.
\<close>

definition round_trip_persona :: jsval where
  "round_trip_persona =
     JObj [(''name'', JStr ''Ann''), (''age'', JNum 34), (''communication_style'', JStr ''direct'')]"

definition working_sheets :: "jsval \<Rightarrow> js_error + sheets_client" where
  "working_sheets initialize =
     Inr \<lparr>spreadsheets_create = (\<lambda>title. Inr (JStr ''sheet-1'')),
          values_update = (\<lambda>spreadsheetId range rows. Inr (JStr range))\<rparr>"

text \<open>
  Collaborators for the runs of the endpoint: a sheet with one persona, no research
  credentials, replies without JSON; the request of the generation scenario, and requests
  that carry a sheet URL.
\<close>

definition sample_services :: services where
  "sample_services =
     \<lparr>url_parse = (\<lambda>s. if take 24 s = ''https://docs.google.com/''
                         then Some (''docs.google.com'', drop 23 s) else None),
      sheet_rows = (\<lambda>url. Inr [[''Name'', ''Age''], [''Ann'', ''34'']]),
      process_files = (\<lambda>files. Inr (JArr [] [])),
      analyze_files = (\<lambda>files. Inr (JArr [] [])),
      perplexity_key = False,
      research_outcomes = (\<lambda>i. NoReply),
      anthropic_key = True,
      generator_reply = Inr (JStr ''[]''),
      social_replies = (\<lambda>i. Inr (JStr ''I have no data'')),
      legal_enrichment = (\<lambda>personas. Inr (JObj [(''personas'', JArr personas [])])),
      sheets_call = (\<lambda>f. Inl (TypeError ''initializeSheets is not a function''))\<rparr>"

text \<open>
  The same collaborators with research credentials and a research service that answers
  every query with \<^verbatim>\<open>{}\<close>.
\<close>

definition researching_services :: services where
  "researching_services =
     sample_services\<lparr>perplexity_key := True, research_outcomes := (\<lambda>i. reply_with ''{}'')\<rparr>"

definition generation_request :: request where
  "generation_request =
     \<lparr>http_method = ''POST'',
      form = Inr (JObj [(''matter'', JStr ''X''), (''keywords'', JStr ''y''),
                        (''target_description'', JStr ''z''), (''persona_count'', JNum 3)])\<rparr>"

definition sheet_form :: "string \<Rightarrow> jsval" where
  "sheet_form url =
     JObj [(''matter'', JStr ''X''), (''keywords'', JStr ''y''),
           (''target_description'', JStr ''z''), (''julius_personas_sheet_url'', JStr url)]"

definition enrichment_request :: "string \<Rightarrow> request" where
  "enrichment_request url = \<lparr>http_method = ''POST'', form = Inr (sheet_form url)\<rparr>"

section \<open>Properties\<close>

lemma bind_result_Inl [simp]: "bind_result (Inl e) f = Inl e"
  by (simp add: bind_result_def)

lemma bind_result_Inr [simp]: "bind_result (Inr x) f = f x"
  by (simp add: bind_result_def)

lemma bind_result_eq_Inr:
  "bind_result m f = Inr y \<longleftrightarrow> (\<exists>x. m = Inr x \<and> f x = Inr y)"
  by (cases m) simp_all

lemma try_catch_Inl [simp]: "try_catch (Inl e) h = h e"
  by (simp add: try_catch_def)

lemma try_catch_Inr [simp]: "try_catch (Inr x) h = Inr x"
  by (simp add: try_catch_def)

lemma parseValidationResponse_body_throws:
  "parseValidationResponse_body rt responseText = Inl (ReferenceError ''jsonMatch is not defined'')"
  by (simp add: parseValidationResponse_body_def lookup_identifier_def validationAgent_module_def)


subsection \<open>The model-based validator\<close>

lemma parseValidationResponse_fallback:
  "parseValidationResponse rt responseText = Inr validation_fallback"
  by (simp add: parseValidationResponse_def parseValidationResponse_body_throws)

lemma validateSinglePersona_openai_passes:
  assumes "validateSinglePersona_openai rt reply p = Inr v"
  shows "persona v = p \<and> validation_passed v = JBool True"
proof (cases reply)
  case (Inl e)
  with assms show ?thesis
    by (auto simp: validateSinglePersona_openai_def bind_result_eq_Inr)
next
  case (Inr content)
  with assms show ?thesis
    by (auto simp: validateSinglePersona_openai_def parseValidationResponse_fallback
        validation_fallback_def)
qed

lemma validateSinglePersona_openai_total:
  assumes "p \<noteq> JUndef" "p \<noteq> JNull"
  shows "\<exists>v. validateSinglePersona_openai rt reply p = Inr v"
  using assms
  by (cases p; cases reply)
     (simp_all add: validateSinglePersona_openai_def parseValidationResponse_fallback)

lemma validate_batch_passes:
  assumes "validate_batch rt replies personas ks = Inr batch"
  shows "map persona batch = map ((!) personas) ks
     \<and> (\<forall>v \<in> set batch. validation_passed v = JBool True)"
  using assms
proof (induction ks arbitrary: batch)
  case Nil
  then show ?case by simp
next
  case (Cons k ks)
  from Cons.prems obtain v rest where
    v: "validateSinglePersona_openai rt (replies k) (personas ! k) = Inr v"
    and r: "validate_batch rt replies personas ks = Inr rest"
    and b: "batch = v # rest"
    by (auto simp: bind_result_eq_Inr)
  from Cons.IH[OF r] validateSinglePersona_openai_passes[OF v] b
  show ?case by simp
qed

lemma slice_nth:
  "map ((!) xs) [i ..< min (i + 3) (length xs)] = take 3 (drop i xs)"
proof (rule nth_equalityI)
  show "length (map ((!) xs) [i ..< min (i + 3) (length xs)]) = length (take 3 (drop i xs))"
    by (auto simp: min_def)
next
  fix k assume "k < length (map ((!) xs) [i ..< min (i + 3) (length xs)])"
  then have "k < 3" "i + k < length xs" by (simp_all add: min_def split: if_splits)
  then show "map ((!) xs) [i ..< min (i + 3) (length xs)] ! k = take 3 (drop i xs) ! k"
    by simp
qed

lemma validate_batches_passes:
  assumes "validate_batches rt replies personas i = Inr rs"
  shows "map persona rs = drop i personas \<and> (\<forall>v \<in> set rs. validation_passed v = JBool True)"
  using assms
proof (induction rt replies personas i arbitrary: rs rule: validate_batches.induct)
  case (1 rt replies personas i)
  show ?case
  proof (cases "i < length personas")
    case False
    with "1.prems" show ?thesis by (simp add: validate_batches.simps[of rt replies personas i])
  next
    case True
    from "1.prems" True obtain batch rest where
      b: "validate_batch rt replies personas [i ..< min (i + 3) (length personas)] = Inr batch"
      and r: "validate_batches rt replies personas (i + 3) = Inr rest"
      and rs: "rs = batch @ rest"
      by (auto simp: validate_batches.simps[of rt replies personas i] bind_result_eq_Inr)
    from validate_batch_passes[OF b] have
      pb: "map persona batch = take 3 (drop i personas)"
      and ab: "\<forall>v \<in> set batch. validation_passed v = JBool True" by (auto simp: slice_nth)
    from "1.IH"[OF True r] have
      pr: "map persona rest = drop (i + 3) personas"
      and ar: "\<forall>v \<in> set rest. validation_passed v = JBool True" by auto
    have "take 3 (drop i personas) @ drop (i + 3) personas = drop i personas"
      by (metis add.commute append_take_drop_id drop_drop)
    then show ?thesis using pb pr ab ar rs by auto
  qed
qed

lemma validatePersonas_openai_keeps_all:
  "validated (validatePersonas_openai rt has_key replies personas) = personas"
proof (cases "validate_batches rt replies personas 0")
  case (Inl e)
  then show ?thesis by (simp add: validatePersonas_openai_def)
next
  case (Inr rs)
  from validate_batches_passes[OF Inr] have
    "map persona rs = personas" "\<forall>v \<in> set rs. validation_passed v = JBool True" by auto
  then have "filter (\<lambda>v. truthy (validation_passed v)) rs = rs" by (auto intro: filter_True)
  with Inr \<open>map persona rs = personas\<close> show ?thesis
    by (simp add: validatePersonas_openai_def Let_def)
qed

text \<open>
  C7. Whatever the response text is, and whatever the JSON decoder would make of it,
  \<open>parseValidationResponse\<close> returns its fallback, whose \<open>approved\<close> is true and whose
  \<open>confidence\<close> is 60: the \<^verbatim>\<open>try\<close> block reads the unbound identifier
  \<^verbatim>\<open>jsonMatch\<close> first and throws into the local \<^verbatim>\<open>catch\<close>. Hence
  \<open>validateSinglePersona\<close> returns, for every persona (an object, or any value other
  than undefined and null) and every outcome of the model call, a result whose
  \<open>validation_passed\<close> is true, and \<open>validatePersonas\<close> returns every persona it was
  given as validated.
\<close>

theorem llm_validator_never_rejects:
  assumes "p \<noteq> JUndef" and "p \<noteq> JNull"
  shows "parseValidationResponse rt responseText = Inr validation_fallback
     \<and> approved validation_fallback = JBool True
     \<and> confidence validation_fallback = JNum 60
     \<and> (\<exists>v. validateSinglePersona_openai rt reply p = Inr v
            \<and> validation_passed v = JBool True \<and> persona v = p)
     \<and> validated (validatePersonas_openai rt has_key replies personas) = personas"
proof -
  from validateSinglePersona_openai_total[OF assms] obtain v where
    v: "validateSinglePersona_openai rt reply p = Inr v" by blast
  from validateSinglePersona_openai_passes[OF v] v
  have "\<exists>v. validateSinglePersona_openai rt reply p = Inr v
            \<and> validation_passed v = JBool True \<and> persona v = p" by blast
  then show ?thesis
    by (simp add: parseValidationResponse_fallback validatePersonas_openai_keeps_all
        validation_fallback_def)
qed

text \<open>
  A run of C7: the reply is decoded as a disapproval (\<open>approved\<close> false, confidence 10),
  and the persona is passed all the same.
\<close>

theorem llm_validator_never_rejects_witness:
  "parseValidationResponse (sample_runtime disapproving_parse) (JStr ''{ approved: false }'')
      = Inr validation_fallback
   \<and> (\<exists>v. validateSinglePersona_openai (sample_runtime disapproving_parse)
             (Inr (JStr ''{ approved: false }'')) (JObj [(''name'', JStr ''Ann'')]) = Inr v
          \<and> validation_passed v = JBool True)
   \<and> validated (validatePersonas_openai (sample_runtime disapproving_parse) True
        (\<lambda>k. Inr (JStr ''{ approved: false }''))
        [JObj [(''name'', JStr ''Ann'')], JObj [(''name'', JStr ''Bob'')]])
      = [JObj [(''name'', JStr ''Ann'')], JObj [(''name'', JStr ''Bob'')]]"
  using llm_validator_never_rejects
    [of "JObj [(''name'', JStr ''Ann'')]" "sample_runtime disapproving_parse"
        "JStr ''{ approved: false }''" "Inr (JStr ''{ approved: false }'')" True
        "\<lambda>k. Inr (JStr ''{ approved: false }'')"
        "[JObj [(''name'', JStr ''Ann'')], JObj [(''name'', JStr ''Bob'')]]"]
  by auto

subsection \<open>The export\<close>

lemma exportEnrichedPersonas_body_throws:
  "\<exists>e. exportEnrichedPersonas_body rt call enrichedPersonas campaignData options = Inl e
     \<and> (enrichedPersonas \<noteq> JUndef \<and> enrichedPersonas \<noteq> JNull \<longrightarrow>
           e = ReferenceError ''initializeSheets is not defined'')"
  by (cases enrichedPersonas)
     (simp_all add: exportEnrichedPersonas_body_def Let_def lookup_identifier_def
      sheetsService_module_def)

lemma exportEnrichedPersonas_throws:
  "\<exists>m. exportEnrichedPersonas rt call enrichedPersonas campaignData options
          = Inl (Error (''Export failed: '' @ m))
     \<and> (enrichedPersonas \<noteq> JUndef \<and> enrichedPersonas \<noteq> JNull \<longrightarrow>
           m = ''initializeSheets is not defined'')"
proof -
  from exportEnrichedPersonas_body_throws[of rt call enrichedPersonas campaignData options]
  obtain e where "exportEnrichedPersonas_body rt call enrichedPersonas campaignData options = Inl e"
    and "enrichedPersonas \<noteq> JUndef \<and> enrichedPersonas \<noteq> JNull \<longrightarrow>
           e = ReferenceError ''initializeSheets is not defined''" by blast
  then show ?thesis
    by (intro exI[of _ "error_message e"]) (auto simp: exportEnrichedPersonas_def)
qed


subsection \<open>Response parsing\<close>

lemma get_opt_of_get_prop: "get_prop v k = Inr x \<Longrightarrow> get_opt v k = x"
  by (simp add: get_opt_def)

lemma get_prop_Inl_get_opt: "get_prop v k = Inl e \<Longrightarrow> get_opt v k = JUndef"
  by (simp add: get_opt_def)

lemma parseEnrichmentResponse_social_total:
  "\<exists>r. parseEnrichmentResponse_social rt responseText = Inr r"
  by (cases "parseEnrichmentResponse_social_body rt responseText")
     (simp_all add: parseEnrichmentResponse_social_def)

lemma enrichment_parse_fails_body:
  assumes "enrichment_parse_fails rt text"
  shows "\<exists>e. parseEnrichmentResponse_social_body rt (JStr text) = Inl e"
proof (cases "regex_span CHR ''{'' CHR ''}'' text")
  case None
  then show ?thesis by (simp add: parseEnrichmentResponse_social_body_def string_receiver_def)
next
  case (Some m)
  show ?thesis
  proof (cases "json_parse rt (JStr m)")
    case (Inl e)
    with Some show ?thesis
      by (simp add: parseEnrichmentResponse_social_body_def string_receiver_def)
  next
    case (Inr d)
    with Some assms have bad: "\<not> truthy (get_opt d ''enrichedFields'') \<or> \<not> truthy (get_opt d ''confidence'')"
      by (simp add: enrichment_parse_fails_def)
    show ?thesis
    proof (cases "get_prop d ''enrichedFields''")
      case (Inl e)
      with Some Inr show ?thesis
        by (simp add: parseEnrichmentResponse_social_body_def string_receiver_def)
    next
      case ef: (Inr enrichedFields)
      show ?thesis
      proof (cases "get_prop d ''confidence''")
        case (Inl e)
        with Some Inr ef show ?thesis
          by (simp add: parseEnrichmentResponse_social_body_def string_receiver_def)
      next
        case c: (Inr confidence)
        from bad get_opt_of_get_prop[OF ef] get_opt_of_get_prop[OF c]
        have "\<not> truthy enrichedFields \<or> \<not> truthy confidence" by simp
        with Some Inr ef c show ?thesis
          by (auto simp: parseEnrichmentResponse_social_body_def string_receiver_def)
      qed
    qed
  qed
qed

lemma enrichment_parse_fails_fallback:
  assumes "enrichment_parse_fails rt text"
  shows "parseEnrichmentResponse_social rt (JStr text) = Inr enrichment_fallback"
  using enrichment_parse_fails_body[OF assms]
  by (auto simp: parseEnrichmentResponse_social_def)

lemma persona_parse_fails_body:
  assumes "persona_parse_fails rt text"
  shows "\<exists>e. parsePersonaResponse_body rt (JStr text) = Inl e"
proof (cases "regex_span CHR ''['' CHR '']'' (js_trim text)")
  case None
  then show ?thesis by (simp add: parsePersonaResponse_body_def string_receiver_def)
next
  case (Some m)
  with assms show ?thesis
    by (cases "json_parse rt (JStr m)")
       (simp_all add: parsePersonaResponse_body_def string_receiver_def persona_parse_fails_def)
qed

lemma persona_parse_fails_throws:
  assumes "persona_parse_fails rt text"
  shows "\<exists>m. parsePersonaResponse rt (JStr text) = Inl (Error (''Persona parsing failed: '' @ m))"
  using persona_parse_fails_body[OF assms]
  by (auto simp: parsePersonaResponse_def)

lemma persona_parse_succeeds:
  assumes "\<not> persona_parse_fails rt body"
  shows "\<exists>m d. regex_span CHR ''['' CHR '']'' (js_trim body) = Some m
           \<and> json_parse rt (JStr m) = Inr d \<and> is_array d
           \<and> parsePersonaResponse rt (JStr body) = Inr d"
proof -
  from assms obtain m d where m: "regex_span CHR ''['' CHR '']'' (js_trim body) = Some m"
    and d: "json_parse rt (JStr m) = Inr d" and a: "is_array d"
    by (auto simp: persona_parse_fails_def split: option.splits sum.splits)
  from m d a have "parsePersonaResponse rt (JStr body) = Inr d"
    by (simp add: parsePersonaResponse_def parsePersonaResponse_body_def string_receiver_def)
  with m d a show ?thesis by blast
qed

text \<open>
  C2, as amended. The enrichment parser never throws: for every reply it returns a
  structured result, and whenever the reply fails to parse (no JSON found, a decode error,
  or \<open>enrichedFields\<close> or \<open>confidence\<close> missing) the result is the fixed fallback
  object, whose confidence is 0.3. The persona-array parser of the Generator has no
  fallback: on a parse failure it throws an error whose message starts with
  \<^verbatim>\<open>Persona parsing failed: \<close>, and otherwise it returns the decoded array: the
  value the decoder gives for the text from the first opening bracket to the last closing
  bracket of the trimmed reply.
\<close>

theorem parse_failure_outcomes:
  "(\<exists>r. parseEnrichmentResponse_social rt responseText = Inr r)
   \<and> (enrichment_parse_fails rt body \<longrightarrow>
         parseEnrichmentResponse_social rt (JStr body) = Inr enrichment_fallback)
   \<and> get_opt enrichment_fallback ''confidence'' = JNum 0.3
   \<and> (persona_parse_fails rt body \<longrightarrow>
         (\<exists>m. parsePersonaResponse rt (JStr body) = Inl (Error (''Persona parsing failed: '' @ m))))
   \<and> (\<not> persona_parse_fails rt body \<longrightarrow>
         (\<exists>m d. regex_span CHR ''['' CHR '']'' (js_trim body) = Some m
            \<and> json_parse rt (JStr m) = Inr d \<and> is_array d
            \<and> parsePersonaResponse rt (JStr body) = Inr d))"
proof -
  have "get_opt enrichment_fallback ''confidence'' = JNum 0.3"
    by (simp add: enrichment_fallback_def get_opt_def own_def)
  then show ?thesis
    using parseEnrichmentResponse_social_total enrichment_parse_fails_fallback
      persona_parse_fails_throws persona_parse_succeeds
    by blast
qed

text \<open>
  Runs of C2: a reply whose braces hold no JSON, under a decoder that rejects it; and a
  reply that holds an array of one persona, under a decoder that decodes it.
\<close>

theorem parse_failure_outcomes_witness:
  "enrichment_parse_fails (sample_runtime failing_parse) ''Sorry, {not json}''
   \<and> persona_parse_fails (sample_runtime failing_parse) ''Sorry, {not json}''
   \<and> parseEnrichmentResponse_social (sample_runtime failing_parse) (JStr ''Sorry, {not json}'')
       = Inr enrichment_fallback
   \<and> (\<exists>m. parsePersonaResponse (sample_runtime failing_parse) (JStr ''Sorry, {not json}'')
         = Inl (Error (''Persona parsing failed: '' @ m)))
   \<and> \<not> persona_parse_fails (sample_runtime persona_array_parse) persona_array_reply
   \<and> parsePersonaResponse (sample_runtime persona_array_parse) (JStr persona_array_reply)
       = Inr (JArr [JObj [(''name'', JStr ''Ann'')]] [])"
proof -
  have e: "enrichment_parse_fails (sample_runtime failing_parse) ''Sorry, {not json}''"
    by (simp add: enrichment_parse_fails_def regex_span_def sample_runtime_def failing_parse_def)
  have p: "persona_parse_fails (sample_runtime failing_parse) ''Sorry, {not json}''"
    by (simp add: persona_parse_fails_def regex_span_def js_trim_def is_space_def)
  have s: "regex_span CHR ''['' CHR '']'' (js_trim persona_array_reply) = Some persona_array_text"
    by code_simp
  have d: "json_parse (sample_runtime persona_array_parse) (JStr persona_array_text)
             = Inr (JArr [JObj [(''name'', JStr ''Ann'')]] [])"
    by (simp add: sample_runtime_def persona_array_parse_def)
  from s d have n: "\<not> persona_parse_fails (sample_runtime persona_array_parse) persona_array_reply"
    by (simp add: persona_parse_fails_def is_array_def)
  from parse_failure_outcomes[of "sample_runtime failing_parse" JUndef "''Sorry, {not json}''"] e p
  have a: "parseEnrichmentResponse_social (sample_runtime failing_parse) (JStr ''Sorry, {not json}'')
       = Inr enrichment_fallback"
    "\<exists>m. parsePersonaResponse (sample_runtime failing_parse) (JStr ''Sorry, {not json}'')
         = Inl (Error (''Persona parsing failed: '' @ m))"
    by blast+
  from parse_failure_outcomes[of "sample_runtime persona_array_parse" JUndef persona_array_reply] n
  obtain m d' where "regex_span CHR ''['' CHR '']'' (js_trim persona_array_reply) = Some m"
    "json_parse (sample_runtime persona_array_parse) (JStr m) = Inr d'"
    "parsePersonaResponse (sample_runtime persona_array_parse) (JStr persona_array_reply) = Inr d'"
    by blast
  with s d have b: "parsePersonaResponse (sample_runtime persona_array_parse) (JStr persona_array_reply)
       = Inr (JArr [JObj [(''name'', JStr ''Ann'')]] [])" by simp
  from e p a n b show ?thesis by blast
qed

text \<open>
  C2 as stated fails for the persona-array parser: on a reply without an array it throws
  instead of returning a fallback object.
\<close>

theorem persona_parser_throws:
  "parsePersonaResponse (sample_runtime failing_parse) (JStr ''I cannot help with that'')
     = Inl (Error ''Persona parsing failed: No JSON array found in Claude response'')"
  by (simp add: parsePersonaResponse_def parsePersonaResponse_body_def string_receiver_def
      js_trim_def is_space_def regex_span_def)

subsection \<open>Stage A of the enrichment pipeline\<close>

lemma map_of_set_prop: "map_of (set_prop k v kvs) = (map_of kvs)(k \<mapsto> v)"
  by (induction kvs) (auto simp: fun_eq_iff)

lemma own_set_prop: "own (set_prop k v kvs) k' = (if k' = k then v else own kvs k')"
  by (simp add: own_def map_of_set_prop)

lemma map_of_fold_set_prop:
  "map_of (fold (\<lambda>(k, x) acc. set_prop k x acc) props target) = map_of target ++ map_of (rev props)"
proof (induction props arbitrary: target)
  case Nil
  then show ?case by simp
next
  case (Cons a props)
  obtain k x where a: "a = (k, x)" by (cases a)
  show ?case
    by (simp add: a Cons.IH map_of_set_prop fun_eq_iff map_add_def split: option.splits)
qed

lemma map_of_entries: "map_of (entries kvs) = map_of kvs"
proof
  fix k
  have "map_of (map (\<lambda>k. (k, own kvs k)) ks) k = (if k \<in> set ks then Some (own kvs k) else None)" for ks
    by (induction ks) auto
  then have "map_of (entries kvs) k = (if k \<in> fst ` set kvs then Some (own kvs k) else None)"
    by (simp add: entries_def)
  also have "\<dots> = map_of kvs k"
  proof (cases "map_of kvs k")
    case None
    then have "k \<notin> fst ` set kvs" by (simp add: map_of_eq_None_iff)
    with None show ?thesis by simp
  next
    case (Some v)
    then have "k \<in> fst ` set kvs" by (metis map_of_eq_None_iff option.distinct(1))
    with Some show ?thesis by (simp add: own_def)
  qed
  finally show "map_of (entries kvs) k = map_of kvs k" .
qed

lemma map_of_rev_distinct: "distinct (map fst xs) \<Longrightarrow> map_of (rev xs) = map_of xs"
proof (induction xs)
  case Nil
  then show ?case by simp
next
  case (Cons a xs)
  then have "map_of xs (fst a) = None" by (simp add: map_of_eq_None_iff)
  with Cons show ?case
    by (auto simp: fun_eq_iff map_add_def split: option.splits)
qed

lemma map_of_spread_object: "map_of (spread_into [] (JObj kvs)) = map_of kvs"
proof -
  have "distinct (map fst (entries kvs))" by (simp add: entries_def comp_def)
  then have "map_of (rev (entries kvs)) = map_of (entries kvs)" by (rule map_of_rev_distinct)
  then show ?thesis by (simp add: spread_into_def map_of_fold_set_prop map_of_entries)
qed

lemma own_spread_other:
  assumes "k \<notin> set (keys_of v)"
  shows "own (spread_into target v) k = own target k"
proof -
  from assms have "map_of (rev (spread_props v)) k = None"
    by (simp add: keys_of_def map_of_eq_None_iff)
  then show ?thesis
    by (simp add: own_def spread_into_def map_of_fold_set_prop map_add_def)
qed


lemma keys_set_prop: "fst ` set (set_prop k v kvs) = insert k (fst ` set kvs)"
proof -
  have "dom (map_of (set_prop k v kvs)) = insert k (dom (map_of kvs))"
    by (simp add: map_of_set_prop)
  then show ?thesis by (simp add: dom_map_of_conv_image_fst)
qed

lemma keys_spread_object: "fst ` set (spread_into [] (JObj kvs)) = fst ` set kvs"
proof -
  have "dom (map_of (spread_into [] (JObj kvs))) = dom (map_of kvs)"
    by (simp add: map_of_spread_object)
  then show ?thesis by (simp add: dom_map_of_conv_image_fst)
qed

lemma keys_of_object: "set (keys_of (JObj kvs)) = fst ` set kvs"
  by (auto simp: keys_of_def entries_def image_iff)

lemma get_opt_object [simp]: "get_opt (JObj kvs) k = own kvs k"
  by (simp add: get_opt_def)

lemma digit_char_not_n: "digit_char d \<noteq> CHR ''n''"
proof
  assume "digit_char d = CHR ''n''"
  then have "(of_char (digit_char d) :: nat) = of_char CHR ''n''" by simp
  then show False by simp
qed

lemma show_nat_no_n: "CHR ''n'' \<notin> set (show_nat i)"
proof (induction i rule: show_nat.induct)
  case (1 n)
  show ?case
  proof (cases "n < 10")
    case True
    then show ?thesis using digit_char_not_n[of n]
      by (subst show_nat.simps) (auto simp del: digit_char.simps)
  next
    case False
    with 1 have "CHR ''n'' \<notin> set (show_nat (n div 10))" by simp
    with False show ?thesis using digit_char_not_n[of n]
      by (subst show_nat.simps) (auto simp del: digit_char.simps)
  qed
qed

lemma show_nat_not_name: "show_nat i \<noteq> ''name''"
  using show_nat_no_n[of i] by auto

lemma map_of_index_name:
  "map_of (rev (map (\<lambda>i. (show_nat i, f i)) is)) ''name'' = None"
  by (simp add: map_of_eq_None_iff image_iff show_nat_not_name[symmetric] del: show_nat.simps)

lemma map_of_rev_entries: "map_of (rev (entries kvs)) = map_of kvs"
proof -
  have "distinct (map fst (entries kvs))" by (simp add: entries_def comp_def)
  then have "map_of (rev (entries kvs)) = map_of (entries kvs)" by (rule map_of_rev_distinct)
  then show ?thesis by (simp add: map_of_entries)
qed

lemma own_spread_name:
  assumes "''name'' \<in> set (keys_of v)"
  shows "own (spread_into target v) ''name'' = get_opt v ''name''"
proof (cases v)
  case (JObj kvs)
  with assms have "''name'' \<in> fst ` set kvs" by (simp add: keys_of_object)
  then obtain x where "map_of kvs ''name'' = Some x"
    by (metis map_of_eq_None_iff not_Some_eq)
  then show ?thesis
    by (simp add: JObj own_def spread_into_def map_of_fold_set_prop map_of_rev_entries map_add_def)
next
  case (JArr xs ps)
  have "''name'' \<notin> show_nat ` S" for S
    using show_nat_not_name by (metis imageE)
  with assms have "''name'' \<in> fst ` set ps"
    by (auto simp: JArr keys_of_def entries_def comp_def simp del: show_nat.simps)
  then obtain x where x: "map_of ps ''name'' = Some x"
    by (metis map_of_eq_None_iff not_Some_eq)
  have "map_of (rev (entries ps)) ''name'' = Some x" by (simp add: map_of_rev_entries x)
  then have "map_of (rev (spread_props v)) ''name'' = Some x"
    by (simp add: JArr map_add_def)
  then have "own (spread_into target v) ''name'' = x"
    by (simp add: own_def spread_into_def map_of_fold_set_prop map_add_def)
  moreover have "get_opt v ''name'' = x" by (simp add: JArr get_opt_def own_def x)
  ultimately show ?thesis by simp
next
  case (JStr s)
  have "''name'' \<notin> show_nat ` S" for S
    using show_nat_not_name by (metis imageE)
  with assms JStr show ?thesis
    by (simp add: keys_of_def comp_def del: show_nat.simps)
qed (use assms in \<open>simp_all add: keys_of_def\<close>)

lemma failed_persona_shape:
  fixes kvs e rt
  defines "q \<equiv> JObj (set_prop ''enrichment''
                 (JObj [(''status'', JStr ''failed''),
                        (''error'', JStr (error_message e)),
                        (''enriched_at'', JStr (now_iso rt))])
                 (spread_into [] (JObj kvs)))"
  shows "enrichment_status q = JStr ''failed''"
    and "k \<noteq> ''enrichment'' \<Longrightarrow> get_opt q k = get_opt (JObj kvs) k"
    and "set (keys_of q) = insert ''enrichment'' (set (keys_of (JObj kvs)))"
    and "is_object q"
  unfolding q_def
  by (simp_all add: enrichment_status_def own_set_prop own_def[of "[_]"] own_def[of "_ # _"]
      keys_of_object keys_set_prop keys_spread_object is_object_def
      own_def[of "spread_into [] (JObj kvs)"] map_of_spread_object own_def[of kvs])

lemma enriched_persona_shape:
  fixes kvs rt d
  defines "q \<equiv> JObj (set_prop ''enrichment''
                 (JObj [(''status'', JStr ''enriched''),
                        (''sources'', JArr [JStr ''ai_research'', JStr ''social_analysis'',
                                            JStr ''professional_lookup''] []),
                        (''confidence_score'', get_opt d ''confidence''),
                        (''enriched_fields'', get_opt d ''fieldsEnriched''),
                        (''enriched_at'', JStr (now_iso rt)),
                        (''research_insights'', get_opt d ''insights'')])
                 (spread_into (spread_into [] (JObj kvs)) (get_opt d ''enrichedFields'')))"
  shows "enrichment_status q = JStr ''enriched''"
    and "k \<noteq> ''enrichment'' \<Longrightarrow> k \<notin> set (keys_of (get_opt d ''enrichedFields''))
           \<Longrightarrow> get_opt q k = get_opt (JObj kvs) k"
    and "is_object q"
    and "''name'' \<in> set (keys_of (get_opt d ''enrichedFields''))
           \<Longrightarrow> get_opt q ''name'' = get_opt (get_opt d ''enrichedFields'') ''name''"
  unfolding q_def
  by (simp_all add: enrichment_status_def own_set_prop own_def[of "_ # _"] own_spread_other
      is_object_def own_def[of "spread_into [] (JObj kvs)"] map_of_spread_object own_def[of kvs]
      own_spread_name)

lemma enrichSinglePersona_succeeds_iff:
  "(\<exists>q. enrichSinglePersona rt reply (JObj kvs) ctx = Inr q)
     \<longleftrightarrow> ctx \<noteq> JUndef \<and> ctx \<noteq> JNull \<and> (\<exists>body. reply = Inr body)"
proof -
  have prompt: "(\<exists>u. buildEnrichmentPrompt (JObj kvs) ctx = Inr u) \<longleftrightarrow> ctx \<noteq> JUndef \<and> ctx \<noteq> JNull"
    by (cases ctx) (simp_all add: buildEnrichmentPrompt_def)
  show ?thesis
  proof (cases "buildEnrichmentPrompt (JObj kvs) ctx")
    case (Inl e)
    with prompt show ?thesis by (auto simp: enrichSinglePersona_def)
  next
    case built: (Inr u)
    show ?thesis
    proof (cases reply)
      case (Inl e)
      with built prompt show ?thesis by (simp add: enrichSinglePersona_def)
    next
      case (Inr body)
      from parseEnrichmentResponse_social_total[of rt body]
      obtain d where "parseEnrichmentResponse_social rt body = Inr d" by blast
      with built Inr prompt show ?thesis by (simp add: enrichSinglePersona_def)
    qed
  qed
qed


lemma try_catch_rethrow_eq_Inr:
  "try_catch m (\<lambda>e. Inl (h e)) = Inr y \<longleftrightarrow> m = Inr y"
  by (cases m) simp_all

lemma enrich_step_object:
  assumes "is_object p"
  shows "\<exists>q. enrich_step rt reply ctx p = Inr q \<and> step_post rt reply ctx p q"
proof -
  from assms obtain kvs where p: "p = JObj kvs" by (cases p) (simp_all add: is_object_def)
  show ?thesis
  proof (cases "enrichSinglePersona rt reply p ctx")
    case (Inl e)
    let ?q = "JObj (set_prop ''enrichment''
                 (JObj [(''status'', JStr ''failed''),
                        (''error'', JStr (error_message e)),
                        (''enriched_at'', JStr (now_iso rt))])
                 (spread_into [] (JObj kvs)))"
    from Inl enrichSinglePersona_succeeds_iff[of rt reply kvs ctx]
    have no: "\<not> (ctx \<noteq> JUndef \<and> ctx \<noteq> JNull \<and> (\<exists>body. reply = Inr body))"
      by (simp add: p)
    have "step_post rt reply ctx p ?q"
      unfolding step_post_def p
      using failed_persona_shape[where kvs=kvs and e=e and rt=rt] no by simp
    with Inl show ?thesis by (simp add: enrich_step_def p)
  next
    case (Inr q)
    then obtain body d where r: "reply = Inr body"
      and d: "parseEnrichmentResponse_social rt body = Inr d"
      and q: "q = JObj (set_prop ''enrichment''
                 (JObj [(''status'', JStr ''enriched''),
                        (''sources'', JArr [JStr ''ai_research'', JStr ''social_analysis'',
                                            JStr ''professional_lookup''] []),
                        (''confidence_score'', get_opt d ''confidence''),
                        (''enriched_fields'', get_opt d ''fieldsEnriched''),
                        (''enriched_at'', JStr (now_iso rt)),
                        (''research_insights'', get_opt d ''insights'')])
                 (spread_into (spread_into [] (JObj kvs)) (get_opt d ''enrichedFields'')))"
      by (cases reply; cases "buildEnrichmentPrompt p ctx")
         (auto simp: enrichSinglePersona_def try_catch_rethrow_eq_Inr bind_result_eq_Inr p)
    have ef: "enriched_fields_of rt reply = get_opt d ''enrichedFields''"
      by (simp add: enriched_fields_of_def r d)
    from Inr enrichSinglePersona_succeeds_iff[of rt reply kvs ctx]
    have yes: "ctx \<noteq> JUndef \<and> ctx \<noteq> JNull \<and> (\<exists>body. reply = Inr body)"
      unfolding p by blast
    have "step_post rt reply ctx p q"
      unfolding step_post_def p q ef
      using enriched_persona_shape[where kvs=kvs and d=d and rt=rt] yes by simp
    with Inr show ?thesis by (simp add: enrich_step_def p)
  qed
qed

lemma enrich_each_objects:
  assumes "\<forall>p \<in> set ps. is_object p"
  shows "\<exists>out. enrich_each rt replies ctx ps i = Inr out \<and> length out = length ps
     \<and> (\<forall>j < length ps. step_post rt (replies (i + j)) ctx (ps ! j) (out ! j))"
  using assms
proof (induction ps arbitrary: i)
  case Nil
  then show ?case by simp
next
  case (Cons p ps)
  from Cons.prems have "is_object p" by simp
  from enrich_step_object[OF this] obtain q where
    q: "enrich_step rt (replies i) ctx p = Inr q" and pq: "step_post rt (replies i) ctx p q" by blast
  from Cons.prems have "\<forall>p \<in> set ps. is_object p" by simp
  from Cons.IH[OF this, of "i + 1"] obtain rest where
    r: "enrich_each rt replies ctx ps (i + 1) = Inr rest" and l: "length rest = length ps"
    and a: "\<forall>j < length ps. step_post rt (replies (i + 1 + j)) ctx (ps ! j) (rest ! j)" by blast
  have "\<forall>j < length (p # ps). step_post rt (replies (i + j)) ctx ((p # ps) ! j) ((q # rest) ! j)"
  proof (intro allI impI)
    fix j assume "j < length (p # ps)"
    then show "step_post rt (replies (i + j)) ctx ((p # ps) ! j) ((q # rest) ! j)"
      using pq a by (cases j) simp_all
  qed
  with q r l show ?case by simp
qed

lemma step_postD:
  assumes "step_post rt reply ctx p q"
  shows "enrichment_status q = JStr ''enriched'' \<or> enrichment_status q = JStr ''failed''"
    and "enrichment_status q = JStr ''enriched''
          \<longleftrightarrow> ctx \<noteq> JUndef \<and> ctx \<noteq> JNull \<and> (\<exists>body. reply = Inr body)"
    and "''name'' \<notin> set (keys_of (enriched_fields_of rt reply))
          \<longrightarrow> get_opt q ''name'' = get_opt p ''name''"
    and "enrichment_status q = JStr ''enriched''
          \<longrightarrow> ''name'' \<in> set (keys_of (enriched_fields_of rt reply))
          \<longrightarrow> get_opt q ''name'' = get_opt (enriched_fields_of rt reply) ''name''"
    and "enrichment_status q = JStr ''failed'' \<longrightarrow>
           (\<forall>k. k \<noteq> ''enrichment'' \<longrightarrow> get_opt q k = get_opt p k)
           \<and> set (keys_of q) = insert ''enrichment'' (set (keys_of p))"
proof -
  note u = assms[unfolded step_post_def]
  note a = u[THEN conjunct2, THEN conjunct1]
  note b = u[THEN conjunct2, THEN conjunct2, THEN conjunct1]
  note c = u[THEN conjunct2, THEN conjunct2, THEN conjunct2, THEN conjunct1]
  note d = u[THEN conjunct2, THEN conjunct2, THEN conjunct2, THEN conjunct2, THEN conjunct1]
  note e = u[THEN conjunct2, THEN conjunct2, THEN conjunct2, THEN conjunct2, THEN conjunct2]
  show "enrichment_status q = JStr ''enriched'' \<or> enrichment_status q = JStr ''failed''"
    by (rule a)
  show "enrichment_status q = JStr ''enriched''
          \<longleftrightarrow> ctx \<noteq> JUndef \<and> ctx \<noteq> JNull \<and> (\<exists>body. reply = Inr body)"
    by (rule b)
  have "''name'' \<noteq> ''enrichment''" by simp
  with c[THEN spec, of "''name''"]
  show "''name'' \<notin> set (keys_of (enriched_fields_of rt reply))
          \<longrightarrow> get_opt q ''name'' = get_opt p ''name''"
    by (rule mp)
  show "enrichment_status q = JStr ''enriched''
          \<longrightarrow> ''name'' \<in> set (keys_of (enriched_fields_of rt reply))
          \<longrightarrow> get_opt q ''name'' = get_opt (enriched_fields_of rt reply) ''name''"
    by (rule d)
  show "enrichment_status q = JStr ''failed'' \<longrightarrow>
           (\<forall>k. k \<noteq> ''enrichment'' \<longrightarrow> get_opt q k = get_opt p k)
           \<and> set (keys_of q) = insert ''enrichment'' (set (keys_of p))"
    by (rule e)
qed

text \<open>
  C1, as amended. For every list of personas that are objects, every outcome of the model
  calls and every context, stage A returns one persona per input persona, in order. Each
  carries an \<open>enrichment\<close> block whose status is \<open>enriched\<close> or \<open>failed\<close>; it
  is \<open>enriched\<close> exactly when the model call for the persona returned a reply (and the
  context is not null). The name of an enriched persona is the \<open>name\<close> of the enriched
  fields returned for it when they carry one (the merge lets an enriched key replace the
  persona's), and otherwise every persona has the name it had on input. A persona whose
  enrichment failed keeps every property it had, with the same value, apart from
  \<open>enrichment\<close> itself, and has no other new property.
\<close>

theorem stage_a_status_and_retention:
  assumes "\<forall>p \<in> set personas. is_object p"
  shows "\<exists>out. enrichPersonas_social rt replies personas contextData = Inr out
     \<and> length out = length personas
     \<and> (\<forall>i < length personas.
          (enrichment_status (out ! i) = JStr ''enriched''
             \<or> enrichment_status (out ! i) = JStr ''failed'')
          \<and> (enrichment_status (out ! i) = JStr ''enriched''
                \<longleftrightarrow> contextData \<noteq> JNull \<and> (\<exists>body. replies i = Inr body))
          \<and> (''name'' \<notin> set (keys_of (enriched_fields_of rt (replies i)))
                \<longrightarrow> get_opt (out ! i) ''name'' = get_opt (personas ! i) ''name'')
          \<and> (enrichment_status (out ! i) = JStr ''enriched''
                \<longrightarrow> ''name'' \<in> set (keys_of (enriched_fields_of rt (replies i)))
                \<longrightarrow> get_opt (out ! i) ''name'' = get_opt (enriched_fields_of rt (replies i)) ''name'')
          \<and> (enrichment_status (out ! i) = JStr ''failed'' \<longrightarrow>
                (\<forall>k. k \<noteq> ''enrichment'' \<longrightarrow> get_opt (out ! i) k = get_opt (personas ! i) k)
                \<and> set (keys_of (out ! i)) = insert ''enrichment'' (set (keys_of (personas ! i)))))"
proof -
  define ctx where "ctx = (if contextData = JUndef then JObj [] else contextData)"
  have ctx: "(ctx \<noteq> JUndef \<and> ctx \<noteq> JNull \<and> R) \<longleftrightarrow> (contextData \<noteq> JNull \<and> R)" for R
    by (simp add: ctx_def)
  from enrich_each_objects[OF assms, of rt replies ctx 0]
  obtain out where o: "enrichPersonas_social rt replies personas contextData = Inr out"
    and l: "length out = length personas"
    and a: "\<forall>j < length personas. step_post rt (replies j) ctx (personas ! j) (out ! j)"
    by (auto simp: enrichPersonas_social_def ctx_def)
  have all: "\<forall>i < length personas.
          (enrichment_status (out ! i) = JStr ''enriched''
             \<or> enrichment_status (out ! i) = JStr ''failed'')
          \<and> (enrichment_status (out ! i) = JStr ''enriched''
                \<longleftrightarrow> contextData \<noteq> JNull \<and> (\<exists>body. replies i = Inr body))
          \<and> (''name'' \<notin> set (keys_of (enriched_fields_of rt (replies i)))
                \<longrightarrow> get_opt (out ! i) ''name'' = get_opt (personas ! i) ''name'')
          \<and> (enrichment_status (out ! i) = JStr ''enriched''
                \<longrightarrow> ''name'' \<in> set (keys_of (enriched_fields_of rt (replies i)))
                \<longrightarrow> get_opt (out ! i) ''name'' = get_opt (enriched_fields_of rt (replies i)) ''name'')
          \<and> (enrichment_status (out ! i) = JStr ''failed'' \<longrightarrow>
                (\<forall>k. k \<noteq> ''enrichment'' \<longrightarrow> get_opt (out ! i) k = get_opt (personas ! i) k)
                \<and> set (keys_of (out ! i)) = insert ''enrichment'' (set (keys_of (personas ! i))))"
  proof (intro allI impI)
    fix i assume "i < length personas"
    with a[THEN spec, of i] have sp: "step_post rt (replies i) ctx (personas ! i) (out ! i)"
      by (rule mp)
    note d = step_postD[OF sp]
    have st: "enrichment_status (out ! i) = JStr ''enriched''
                \<longleftrightarrow> contextData \<noteq> JNull \<and> (\<exists>body. replies i = Inr body)"
      unfolding d(2) by (rule ctx)
    show "(enrichment_status (out ! i) = JStr ''enriched''
             \<or> enrichment_status (out ! i) = JStr ''failed'')
          \<and> (enrichment_status (out ! i) = JStr ''enriched''
                \<longleftrightarrow> contextData \<noteq> JNull \<and> (\<exists>body. replies i = Inr body))
          \<and> (''name'' \<notin> set (keys_of (enriched_fields_of rt (replies i)))
                \<longrightarrow> get_opt (out ! i) ''name'' = get_opt (personas ! i) ''name'')
          \<and> (enrichment_status (out ! i) = JStr ''enriched''
                \<longrightarrow> ''name'' \<in> set (keys_of (enriched_fields_of rt (replies i)))
                \<longrightarrow> get_opt (out ! i) ''name'' = get_opt (enriched_fields_of rt (replies i)) ''name'')
          \<and> (enrichment_status (out ! i) = JStr ''failed'' \<longrightarrow>
                (\<forall>k. k \<noteq> ''enrichment'' \<longrightarrow> get_opt (out ! i) k = get_opt (personas ! i) k)
                \<and> set (keys_of (out ! i)) = insert ''enrichment'' (set (keys_of (personas ! i))))"
      by (rule conjI[OF d(1) conjI[OF st conjI[OF d(3) conjI[OF d(4) d(5)]]]])
  qed
  show ?thesis
    by (rule exI[of _ out]) (rule conjI[OF o conjI[OF l all]])
qed

text \<open>
  A run of C1 on three personas: the first is enriched with the fallback fields and keeps
  its name, the second is enriched with fields that carry a name and takes that name, the
  third fails and keeps its name and its properties.
\<close>

theorem stage_a_status_and_retention_witness:
  "is_object (three_personas ! 0) \<and> is_object (three_personas ! 1) \<and> is_object (three_personas ! 2)
   \<and> (\<exists>out. enrichPersonas_social (sample_runtime renaming_parse) mixed_replies three_personas JUndef
              = Inr out
     \<and> length out = 3
     \<and> enrichment_status (out ! 0) = JStr ''enriched''
     \<and> get_opt (out ! 0) ''name'' = JStr ''Ann''
     \<and> enrichment_status (out ! 1) = JStr ''enriched''
     \<and> get_opt (three_personas ! 1) ''name'' = JStr ''Cy''
     \<and> get_opt (out ! 1) ''name'' = JStr ''Bob''
     \<and> enrichment_status (out ! 2) = JStr ''failed''
     \<and> get_opt (out ! 2) ''name'' = JStr ''Dee''
     \<and> set (keys_of (out ! 2)) = {''enrichment'', ''name''})"
proof -
  let ?rt = "sample_runtime renaming_parse"
  have h: "\<forall>p \<in> set three_personas. is_object p"
    by (simp add: three_personas_def is_object_def)
  from stage_a_status_and_retention[OF h, of ?rt mixed_replies JUndef]
  obtain out where o: "enrichPersonas_social ?rt mixed_replies three_personas JUndef = Inr out"
    and l: "length out = length three_personas"
    by blast
  have e: "enrichPersonas_social ?rt mixed_replies three_personas JUndef
     = Inr [JObj [(''name'', JStr ''Ann''), (''age'', JNum 34),
                  (''social_media_profiles'',
                       JObj [(''facebook'', JObj [(''active'', JBool True), (''frequency'', JStr ''weekly'')])]),
                  (''communication_style'',
                       JObj [(''preferred_channels'', JArr [JStr ''email''] []),
                             (''formality_level'', JStr ''professional'')]),
                  (''enrichment'',
                     JObj [(''status'', JStr ''enriched''),
                        (''sources'', JArr [JStr ''ai_research'', JStr ''social_analysis'',
                                            JStr ''professional_lookup''] []),
                        (''confidence_score'', JNum 0.3),
                        (''enriched_fields'', JArr [JStr ''basic_fallback''] []),
                        (''enriched_at'', JStr ''2024-01-01T00:00:00.000Z''),
                        (''research_insights'', JArr [JStr ''Enrichment failed, using basic fallback data''] [])])],
            JObj [(''name'', JStr ''Bob''),
                  (''enrichment'',
                     JObj [(''status'', JStr ''enriched''),
                           (''sources'', JArr [JStr ''ai_research'', JStr ''social_analysis'',
                                               JStr ''professional_lookup''] []),
                           (''confidence_score'', JNum 0.9),
                           (''enriched_fields'', JArr [] []),
                           (''enriched_at'', JStr ''2024-01-01T00:00:00.000Z''),
                           (''research_insights'', JArr [] [])])],
            JObj [(''name'', JStr ''Dee''),
                  (''enrichment'',
                     JObj [(''status'', JStr ''failed''),
                           (''error'', JStr ''AI enrichment failed: Request timed out''),
                           (''enriched_at'', JStr ''2024-01-01T00:00:00.000Z'')])]]"
    by (simp add: enrichPersonas_social_def three_personas_def mixed_replies_def enrich_step_def
        enrichSinglePersona_def buildEnrichmentPrompt_def parseEnrichmentResponse_social_def
        parseEnrichmentResponse_social_body_def string_receiver_def regex_span_def
        renaming_reply_def sample_runtime_def renaming_parse_def enrichment_fallback_def
        spread_into_def entries_def own_def get_opt_def clamp01_def num_of_def js_or_def)
  from o e have out: "out = [JObj [(''name'', JStr ''Ann''), (''age'', JNum 34),
                  (''social_media_profiles'',
                       JObj [(''facebook'', JObj [(''active'', JBool True), (''frequency'', JStr ''weekly'')])]),
                  (''communication_style'',
                       JObj [(''preferred_channels'', JArr [JStr ''email''] []),
                             (''formality_level'', JStr ''professional'')]),
                  (''enrichment'',
                     JObj [(''status'', JStr ''enriched''),
                        (''sources'', JArr [JStr ''ai_research'', JStr ''social_analysis'',
                                            JStr ''professional_lookup''] []),
                        (''confidence_score'', JNum 0.3),
                        (''enriched_fields'', JArr [JStr ''basic_fallback''] []),
                        (''enriched_at'', JStr ''2024-01-01T00:00:00.000Z''),
                        (''research_insights'', JArr [JStr ''Enrichment failed, using basic fallback data''] [])])],
            JObj [(''name'', JStr ''Bob''),
                  (''enrichment'',
                     JObj [(''status'', JStr ''enriched''),
                           (''sources'', JArr [JStr ''ai_research'', JStr ''social_analysis'',
                                               JStr ''professional_lookup''] []),
                           (''confidence_score'', JNum 0.9),
                           (''enriched_fields'', JArr [] []),
                           (''enriched_at'', JStr ''2024-01-01T00:00:00.000Z''),
                           (''research_insights'', JArr [] [])])],
            JObj [(''name'', JStr ''Dee''),
                  (''enrichment'',
                     JObj [(''status'', JStr ''failed''),
                           (''error'', JStr ''AI enrichment failed: Request timed out''),
                           (''enriched_at'', JStr ''2024-01-01T00:00:00.000Z'')])]]" by simp
  have "enrichment_status (out ! 0) = JStr ''enriched''" "get_opt (out ! 0) ''name'' = JStr ''Ann''"
    "enrichment_status (out ! 1) = JStr ''enriched''" "get_opt (out ! 1) ''name'' = JStr ''Bob''"
    "enrichment_status (out ! 2) = JStr ''failed''" "get_opt (out ! 2) ''name'' = JStr ''Dee''"
    "set (keys_of (out ! 2)) = {''enrichment'', ''name''}"
    unfolding out by (auto simp: enrichment_status_def get_opt_def own_def keys_of_def entries_def)
  moreover have "is_object (three_personas ! 0)" "is_object (three_personas ! 1)"
    "is_object (three_personas ! 2)" "get_opt (three_personas ! 1) ''name'' = JStr ''Cy''"
    "length three_personas = 3"
    by (simp_all add: three_personas_def is_object_def get_opt_def own_def)
  ultimately show ?thesis using o l by auto
qed

text \<open>
  C1 as stated fails in the name: a reply whose enriched fields carry a \<open>name\<close>
  replaces the persona's.
\<close>

theorem stage_a_name_overwritten:
  "enrichPersonas_social (sample_runtime renaming_parse) renaming_replies
       [JObj [(''name'', JStr ''Ann'')]] JUndef
     = Inr [JObj [(''name'', JStr ''Bob''),
                  (''enrichment'',
                     JObj [(''status'', JStr ''enriched''),
                           (''sources'', JArr [JStr ''ai_research'', JStr ''social_analysis'',
                                               JStr ''professional_lookup''] []),
                           (''confidence_score'', JNum 0.9),
                           (''enriched_fields'', JArr [] []),
                           (''enriched_at'', JStr ''2024-01-01T00:00:00.000Z''),
                           (''research_insights'', JArr [] [])])]]"
  by (simp add: enrichPersonas_social_def renaming_replies_def enrich_step_def
      enrichSinglePersona_def buildEnrichmentPrompt_def parseEnrichmentResponse_social_def
      parseEnrichmentResponse_social_body_def string_receiver_def regex_span_def
      renaming_reply_def sample_runtime_def renaming_parse_def spread_into_def entries_def
      own_def get_opt_def clamp01_def num_of_def js_or_def)


subsection \<open>The batch validation of the Generator\<close>

lemma get_prop_defined:
  "p \<noteq> JUndef \<Longrightarrow> p \<noteq> JNull \<Longrightarrow> get_prop p k = Inr (get_opt p k)"
  by (cases p) (simp_all add: get_opt_def)

lemma truthy_defined: "truthy v \<Longrightarrow> v \<noteq> JUndef \<and> v \<noteq> JNull"
  by (cases v) simp_all

lemma get_opt_falsy: "\<not> truthy v \<Longrightarrow> k \<noteq> ''length'' \<Longrightarrow> get_opt v k = JUndef"
  by (cases v) (simp_all add: get_opt_def)

lemma js_or_defined: "js_or v (JArr [] []) \<noteq> JUndef \<and> js_or v (JArr [] []) \<noteq> JNull"
  by (cases v) (simp_all add: js_or_def)

lemma cite_cited:
  assumes "cite sc p = Inr p'"
  shows "cited_persona p'"
proof (cases p)
  case (JObj kvs)
  with assms show ?thesis
    using js_or_defined[of "own kvs ''data_sources''"]
    by (auto simp: cite_def cited_persona_def get_opt_def own_set_prop own_def[of "_ # _"])
next
  case (JArr xs ps)
  with assms show ?thesis
    using js_or_defined[of "own ps ''data_sources''"]
    by (auto simp: cite_def cited_persona_def get_opt_def own_set_prop own_def[of "_ # _"])
qed (use assms in \<open>auto simp: cite_def cited_persona_def get_opt_def\<close>)

lemma addSourceCitations_cited:
  assumes "addSourceCitations sc ps = Inr cited"
  shows "\<forall>p \<in> set cited. cited_persona p"
  using assms
proof (induction ps arbitrary: cited)
  case Nil
  then show ?case by simp
next
  case (Cons p ps)
  then show ?case by (auto simp: bind_result_eq_Inr cite_cited)
qed

lemma check_required_defined:
  assumes "p \<noteq> JUndef" "p \<noteq> JNull"
  shows "check_required p fs (c, m) =
     Inr (c \<and> list_all (\<lambda>f. \<not> field_missing (get_opt p f)) fs,
          m @ filter (\<lambda>f. field_missing (get_opt p f)) fs)"
  by (induction fs arbitrary: c m) (simp_all add: get_prop_defined[OF assms])


lemma present_value_iff: "present_value v \<longleftrightarrow> \<not> field_missing v"
  by (cases v) (simp_all add: present_value_def field_missing_def)

lemma has_required_fields_iff:
  "has_required_fields p = list_all (\<lambda>f. \<not> field_missing (get_opt p f)) requiredFields"
  by (simp add: has_required_fields_def requiredFields_def present_value_iff)

lemma citations_when_unset:
  assumes "\<not> truthy (get_opt p ''source_citations'')"
  shows "\<not> citations_present rt p"
proof -
  from assms have "get_opt (get_opt p ''source_citations'') ''primary_sources'' = JUndef"
    by (simp add: get_opt_falsy)
  then show ?thesis
    by (simp add: citations_present_def get_opt_def js_gt_def num_of_def)
qed

lemma validate_generated_cited:
  assumes "cited_persona p"
  shows "validate_generated rt p =
     Inr (JObj [(''complete'', JBool (has_required_fields p)),
                (''missing_fields'',
                   JArr (map JStr (filter (\<lambda>f. field_missing (get_opt p f)) requiredFields)) []),
                (''quality_score'', JNum (real (quality_score rt p)))],
          has_required_fields p \<and> quality_score rt p \<ge> 50)"
proof -
  from assms have d: "p \<noteq> JUndef" "p \<noteq> JNull" by (simp_all add: cited_persona_def)
  note gp = get_prop_defined[OF d]
  show ?thesis
  proof (cases "truthy (get_opt p ''source_citations'')")
    case False
    with citations_when_unset[OF False, of rt] show ?thesis
      by (simp add: validate_generated_def check_required_defined[OF d] gp
          has_required_fields_iff quality_score_def Let_def)
  next
    case True
    with assms have ps: "get_opt (get_opt p ''source_citations'') ''primary_sources'' \<noteq> JUndef"
      "get_opt (get_opt p ''source_citations'') ''primary_sources'' \<noteq> JNull"
      by (simp_all add: cited_persona_def)
    from truthy_defined[OF True] have sc: "get_opt p ''source_citations'' \<noteq> JUndef"
      "get_opt p ''source_citations'' \<noteq> JNull" by simp_all
    from True show ?thesis
      by (simp add: validate_generated_def check_required_defined[OF d] gp
          get_prop_defined[OF sc] get_prop_defined[OF ps]
          has_required_fields_iff quality_score_def citations_present_def Let_def)
  qed
qed

lemma required_assignable:
  assumes "has_required_fields p"
  shows "\<exists>p'. assign_prop p ''validation'' v = Inr p'"
proof -
  from assms have "\<not> field_missing (get_opt p ''name'')"
    by (simp add: has_required_fields_iff requiredFields_def)
  then have "truthy (get_opt p ''name'')" by (simp add: field_missing_def)
  then show ?thesis by (cases p) (simp_all add: get_opt_def)
qed

lemma all_present_none_missing:
  assumes "has_required_fields p"
  shows "filter (\<lambda>f. field_missing (get_opt p f)) requiredFields = []"
  using assms by (simp add: has_required_fields_iff list_all_iff filter_empty_conv)

lemma validatePersonas_generator_filter:
  assumes "\<forall>p \<in> set personas. cited_persona p"
  shows "validatePersonas_generator rt personas =
     Inr (map (with_validation rt)
            (filter (\<lambda>p. has_required_fields p \<and> 50 \<le> quality_score rt p) personas))"
  using assms
proof (induction personas)
  case Nil
  then show ?case by simp
next
  case (Cons p ps)
  then have c: "cited_persona p" and IH: "validatePersonas_generator rt ps =
     Inr (map (with_validation rt)
            (filter (\<lambda>p. has_required_fields p \<and> 50 \<le> quality_score rt p) ps))" by simp_all
  show ?case
  proof (cases "has_required_fields p \<and> 50 \<le> quality_score rt p")
    case False
    then show ?thesis by (auto simp: validate_generated_cited[OF c] IH)
  next
    case True
    then have h: "has_required_fields p" by simp
    from required_assignable[OF h] obtain p' where
      p': "assign_prop p ''validation''
             (JObj [(''complete'', JBool True), (''missing_fields'', JArr [] []),
                    (''quality_score'', JNum (real (quality_score rt p)))]) = Inr p'"
      by blast
    then have "with_validation rt p = p'" by (simp add: with_validation_def)
    with True p' show ?thesis
      by (simp add: validate_generated_cited[OF c] IH all_present_none_missing[OF h])
  qed
qed

lemma quality_score_le_100: "quality_score rt p \<le> 100"
  by (simp add: quality_score_def)


lemma cite_object: "is_object p \<Longrightarrow> \<exists>p'. cite sc p = Inr p'"
  by (cases p) (simp_all add: is_object_def cite_def)

lemma addSourceCitations_objects:
  assumes "\<forall>p \<in> set ps. is_object p"
  shows "\<exists>cited. addSourceCitations sc ps = Inr cited"
  using assms
proof (induction ps)
  case Nil
  then show ?case by simp
next
  case (Cons p ps)
  then obtain p' cited where "cite sc p = Inr p'" "addSourceCitations sc ps = Inr cited"
    using cite_object[of p sc] by auto
  then show ?case by simp
qed

lemma addSourceCitations_total:
  assumes "\<forall>p \<in> set ps. is_object p"
  shows "\<exists>cited. addSourceCitations sc ps = Inr cited \<and> (\<forall>p \<in> set cited. cited_persona p)"
proof -
  from addSourceCitations_objects[OF assms, of sc]
  obtain cited where c: "addSourceCitations sc ps = Inr cited" by blast
  from addSourceCitations_cited[OF c] c show ?thesis by blast
qed

text \<open>
  C5, as amended. For every list of personas as the citation step hands them over, the
  batch validation of the Generator returns, without an error, exactly the personas whose
  required fields (name, age, bio, motivations, barriers, communication_style) are all
  present, none of them being undefined, null, false, 0, NaN, the empty string or an array
  without elements, and whose quality score is at least 50, in their order, each with its
  validation record attached; every other persona is left out. The score is the sum of 30
  for citations present, 25 for a confidence score above 70, 25 for all required fields
  present and 20 for a bio longer than 100 characters, so it is at most 100. The citation
  step succeeds on every list of personas that are objects, and what it returns is such a
  list.
\<close>

theorem generator_validation_keeps_exactly:
  assumes "\<forall>p \<in> set personas. cited_persona p"
  shows "validatePersonas_generator rt personas =
           Inr (map (with_validation rt)
                  (filter (\<lambda>p. has_required_fields p \<and> 50 \<le> quality_score rt p) personas))
     \<and> quality_score rt q \<le> 100
     \<and> (\<forall>ps. (\<forall>p \<in> set ps. is_object p) \<longrightarrow>
           (\<exists>cited. addSourceCitations sc ps = Inr cited \<and> (\<forall>p \<in> set cited. cited_persona p)))"
  using validatePersonas_generator_filter[OF assms] quality_score_le_100 addSourceCitations_total
  by blast

text \<open>
  A run of C5: of three personas only the first is kept; the second has the higher score
  but lacks a required field, the third is complete but scores 25.
\<close>

theorem generator_validation_keeps_exactly_witness:
  "cited_persona persona_kept \<and> cited_persona persona_incomplete \<and> cited_persona persona_low_score
   \<and> validatePersonas_generator (sample_runtime failing_parse)
        [persona_kept, persona_incomplete, persona_low_score]
      = Inr [with_validation (sample_runtime failing_parse) persona_kept]
   \<and> quality_score (sample_runtime failing_parse) persona_kept = 50
   \<and> quality_score (sample_runtime failing_parse) persona_incomplete = 55
   \<and> \<not> has_required_fields persona_incomplete
   \<and> quality_score (sample_runtime failing_parse) persona_low_score = 25"
proof -
  have c: "cited_persona persona_kept" "cited_persona persona_incomplete"
    "cited_persona persona_low_score"
    by (simp_all add: cited_persona_def persona_kept_def persona_incomplete_def
        persona_low_score_def get_opt_def own_def)
  then have h: "\<forall>p \<in> set [persona_kept, persona_incomplete, persona_low_score]. cited_persona p"
    by simp
  have r: "has_required_fields persona_kept" "\<not> has_required_fields persona_incomplete"
    "has_required_fields persona_low_score"
    by (simp_all add: has_required_fields_def present_value_def
        persona_kept_def persona_incomplete_def persona_low_score_def get_opt_def own_def)
  have q: "quality_score (sample_runtime failing_parse) persona_kept = 50"
    "quality_score (sample_runtime failing_parse) persona_incomplete = 55"
    "quality_score (sample_runtime failing_parse) persona_low_score = 25"
    unfolding quality_score_def using r
    by (simp_all add: citations_present_def js_gt_def num_of_def
        persona_kept_def persona_incomplete_def persona_low_score_def get_opt_def own_def)
  from generator_validation_keeps_exactly[OF h, of "sample_runtime failing_parse"] c r q
  show ?thesis by simp
qed

text \<open>
  C5 as stated fails for a persona whose required fields are all set, with age 0: it has
  citations and a confidence of 90, which alone score 55, and it is left out, since 0
  counts as a missing age. A list that holds \<^verbatim>\<open>null\<close> makes the validation
  throw.
\<close>

theorem generator_drops_age_zero:
  "get_opt persona_age_zero ''age'' = JNum 0
   \<and> quality_score (sample_runtime failing_parse) persona_age_zero = 55
   \<and> validatePersonas_generator (sample_runtime failing_parse) [persona_age_zero] = Inr []
   \<and> validatePersonas_generator (sample_runtime failing_parse) [JNull]
       = Inl (TypeError ''Cannot read properties of null (reading name)'')"
  by (simp add: persona_age_zero_def get_opt_def own_def validate_generated_def requiredFields_def
      field_missing_def js_gt_def num_of_def Let_def quality_score_def citations_present_def
      has_required_fields_def present_value_def)


subsection \<open>The Generator on an empty array\<close>

text \<open>
  C9, as amended. When the API key is set, the campaign data is an object, at least one
  of the three data categories is populated, and the text between the first \<open>[\<close> and
  the last \<open>]\<close> of the model's reply decodes to the empty array, the Generator returns
  (it does not throw) a result with zero personas, the summary of the sources, the
  data-sufficiency record under \<open>validation\<close> and a timestamp. That record has no
  \<open>valid_personas\<close> property. (The persona count requested only enters the prompt.)
\<close>

theorem generator_empty_array:
  assumes "has_key"
    and "campaignData \<noteq> JUndef" and "campaignData \<noteq> JNull"
    and "sufficient (validateDataSufficiency (buildSourceContext rt uploadedData researchData))"
    and "regex_span CHR ''['' CHR '']'' (js_trim body) = Some m"
    and "json_parse rt (JStr m) = Inr (JArr [] ps)"
  shows "generatePersonas rt has_key (Inr (JStr body)) campaignData uploadedData researchData =
     Inr (JObj [(''personas'', JArr [] []),
                (''sources_used'',
                   extractSourceSummary (buildSourceContext rt uploadedData researchData)),
                (''validation'',
                   sufficiency_obj (validateDataSufficiency
                     (buildSourceContext rt uploadedData researchData))),
                (''generation_timestamp'', JStr (now_iso rt))])
     \<and> get_opt (sufficiency_obj (validateDataSufficiency
            (buildSourceContext rt uploadedData researchData))) ''valid_personas'' = JUndef"
proof -
  from assms(2,3) obtain matter where "get_prop campaignData ''matter'' = Inr matter"
    by (cases campaignData) simp_all
  with assms show ?thesis
    by (simp add: generatePersonas_def Let_def parsePersonaResponse_def
        parsePersonaResponse_body_def string_receiver_def is_array_def
        sufficiency_obj_def get_opt_def own_def)
qed

text \<open>A run of C9: the reply is exactly \<^verbatim>\<open>[]\<close>.\<close>

theorem generator_empty_array_witness:
  "sample_campaign \<noteq> JUndef \<and> sample_campaign \<noteq> JNull
   \<and> sufficient (validateDataSufficiency
         (buildSourceContext (sample_runtime empty_array_parse) (JArr [] []) sample_research))
   \<and> regex_span CHR ''['' CHR '']'' (js_trim ''[]'') = Some ''[]''
   \<and> json_parse (sample_runtime empty_array_parse) (JStr ''[]'') = Inr (JArr [] [])
   \<and> generatePersonas (sample_runtime empty_array_parse) True (Inr (JStr ''[]''))
         sample_campaign (JArr [] []) sample_research =
       Inr (JObj [(''personas'', JArr [] []),
                  (''sources_used'',
                     extractSourceSummary
                       (buildSourceContext (sample_runtime empty_array_parse) (JArr [] []) sample_research)),
                  (''validation'',
                     sufficiency_obj (validateDataSufficiency
                       (buildSourceContext (sample_runtime empty_array_parse) (JArr [] []) sample_research))),
                  (''generation_timestamp'', JStr (now_iso (sample_runtime empty_array_parse)))])"
proof -
  have c: "sample_campaign \<noteq> JUndef" "sample_campaign \<noteq> JNull"
    by (simp_all add: sample_campaign_def)
  have s: "sufficient (validateDataSufficiency
         (buildSourceContext (sample_runtime empty_array_parse) (JArr [] []) sample_research))"
    by (simp add: validateDataSufficiency_def buildSourceContext_def items_from_def
        category_def sample_research_def get_opt_def own_def)
  have m: "regex_span CHR ''['' CHR '']'' (js_trim ''[]'') = Some ''[]''"
    by (simp add: regex_span_def js_trim_def is_space_def)
  have d: "json_parse (sample_runtime empty_array_parse) (JStr ''[]'') = Inr (JArr [] [])"
    by (simp add: sample_runtime_def empty_array_parse_def)
  from generator_empty_array[OF TrueI c s m d] c s m d show ?thesis by simp
qed

text \<open>
  C9 as stated fails in the validation summary: the \<open>validation\<close> of the result is the
  data-sufficiency record, and it reports no \<open>valid_personas\<close>.
\<close>

theorem generator_result_without_valid_personas: "generatePersonas (sample_runtime empty_array_parse) True (Inr (JStr ''[]''))
       sample_campaign (JArr [] []) sample_research = Inr generated_nothing
   \<and> get_opt (get_opt generated_nothing ''validation'') ''valid_personas'' = JUndef"
  by (simp add: generatePersonas_def Let_def parsePersonaResponse_def
        parsePersonaResponse_body_def string_receiver_def is_array_def
        sufficiency_obj_def get_opt_def own_def sample_campaign_def sample_research_def
        generated_nothing_def buildSourceContext_def items_from_def context_item_def
        validateDataSufficiency_def category_def extractSourceSummary_def unique_def
        js_trim_def is_space_def regex_span_def sample_runtime_def empty_array_parse_def js_or_def)


subsection \<open>The import validator\<close>

lemma js_trim_empty_iff: "js_trim s = [] \<longleftrightarrow> (\<forall>c \<in> set s. is_space c)"
proof
  assume e: "js_trim s = []"
  show "\<forall>c \<in> set s. is_space c"
  proof (rule ccontr)
    assume "\<not> (\<forall>c \<in> set s. is_space c)"
    then have ne: "dropWhile is_space s \<noteq> []" by (simp add: dropWhile_eq_Nil_conv)
    then have "\<not> is_space (hd (dropWhile is_space s))" by (rule hd_dropWhile)
    moreover from ne have "hd (dropWhile is_space s) \<in> set (rev (dropWhile is_space s))" by simp
    moreover from e have "\<forall>c \<in> set (rev (dropWhile is_space s)). is_space c"
      by (simp add: js_trim_def dropWhile_eq_Nil_conv)
    ultimately show False by blast
  qed
next
  assume "\<forall>c \<in> set s. is_space c"
  then have "dropWhile is_space s = []" by (simp add: dropWhile_eq_Nil_conv)
  then show "js_trim s = []" by (metis js_trim_def dropWhile.simps(1) rev.simps(1))
qed

lemma is_space_code: "is_space c \<longleftrightarrow> (of_char c :: nat) \<in> {9, 10, 11, 12, 13, 32, 160}"
proof
  assume "is_space c"
  then show "(of_char c :: nat) \<in> {9, 10, 11, 12, 13, 32, 160}"
    by (auto simp: is_space_def)
next
  assume h: "(of_char c :: nat) \<in> {9, 10, 11, 12, 13, 32, 160}"
  have "c = d \<longleftrightarrow> (of_char c :: nat) = of_char d" for d by simp
  with h show "is_space c" by (simp add: is_space_def del: of_char_eq_iff)
qed

lemma blank_iff: "blank s \<longleftrightarrow> js_trim s = []"
  by (simp add: blank_def js_trim_empty_iff list_all_iff is_space_code)

lemma name_missing_or_empty_iff:
  "name_missing_or_empty p =
     (case get_opt p ''name'' of JStr s \<Rightarrow> js_trim s = [] | v \<Rightarrow> \<not> truthy v)"
  by (cases "get_opt p ''name''") (simp_all add: name_missing_or_empty_def blank_iff)

lemma import_check_imported:
  assumes "imported_persona p"
  shows "\<exists>c. validateSinglePersona_import rt p n = Inr c
     \<and> isValid c = (\<not> name_missing_or_empty p)
     \<and> (age_out_of_range p \<longrightarrow>
           (''Age '' @ str_of rt (get_opt p ''age'') @ '' seems unusual'') \<in> set (check_warnings c))"
proof -
  from assms have d: "p \<noteq> JUndef" "p \<noteq> JNull" by (simp_all add: imported_persona_def)
  have a: "age_out_of_range p \<Longrightarrow> get_opt p ''age'' \<noteq> JUndef
      \<and> (js_lt rt (get_opt p ''age'') 0 \<or> js_gt rt (get_opt p ''age'') 120)"
    by (cases "get_opt p ''age''") (auto simp: age_out_of_range_def js_lt_def js_gt_def num_of_def)
  show ?thesis
  proof (cases "get_opt p ''name''")
    case (JStr s)
    then show ?thesis using a
      by (cases "s = []")
         (auto simp: validateSinglePersona_import_def get_prop_defined[OF d] string_receiver_def
          name_missing_or_empty_iff Let_def js_trim_def)
  qed (use assms a in \<open>auto simp: validateSinglePersona_import_def get_prop_defined[OF d]
          name_missing_or_empty_iff imported_persona_def Let_def\<close>)
qed


lemma import_step_imported:
  assumes "imported_persona p"
  shows "\<exists>v'. import_step rt p i v = Inr v' \<and> step_effect rt [p] i v v'"
proof -
  from import_check_imported[OF assms, of rt "i + 1"] obtain c where
    c: "validateSinglePersona_import rt p (i + 1) = Inr c"
    and iv: "isValid c = (\<not> name_missing_or_empty p)"
    and aw: "age_out_of_range p \<longrightarrow>
           (''Age '' @ str_of rt (get_opt p ''age'') @ '' seems unusual'') \<in> set (check_warnings c)"
    by blast
  show ?thesis
  proof (cases "name_missing_or_empty p")
    case True
    with c iv show ?thesis
      by (simp add: import_step_def step_effect_def)
  next
    case False
    show ?thesis
    proof (cases "check_warnings c = []")
      case True
      with aw have "\<not> age_out_of_range p" by auto
      with c iv False True show ?thesis
        by (simp add: import_step_def step_effect_def)
    next
      case nonempty: False
      have "age_out_of_range p \<longrightarrow> age_warning_for rt p (i + 1)
         (report_entry (get_opt p ''name'') (i + 1) ''warnings'' (check_warnings c))"
        using aw by (auto simp: age_warning_for_def report_entry_def entry_messages_def get_opt_def own_def)
      with c iv False nonempty show ?thesis
        by (simp add: import_step_def step_effect_def)
    qed
  qed
qed

lemma step_effect_compose:
  assumes "step_effect rt [p] i v v1" and "step_effect rt ps (i + 1) v1 v'"
  shows "step_effect rt (p # ps) i v v'"
proof -
  from assms(1) obtain ws1 es1 where
    a1: "valid v1 = valid v @ filter (\<lambda>p. \<not> name_missing_or_empty p) [p]"
    "valid_personas v1 = valid_personas v + length (filter (\<lambda>p. \<not> name_missing_or_empty p) [p])"
    "invalid_personas v1 = invalid_personas v + length (filter name_missing_or_empty [p])"
    "total_imported v1 = total_imported v"
    and w1: "warnings v1 = warnings v @ ws1"
    "personas_with_warnings v1 = personas_with_warnings v + length ws1"
    "\<not> name_missing_or_empty p \<and> age_out_of_range p \<longrightarrow> (\<exists>w \<in> set ws1. age_warning_for rt p (i + 1) w)"
    and e1: "import_errors v1 = import_errors v @ es1" "length es1 = length (filter name_missing_or_empty [p])"
    unfolding step_effect_def by auto
  from assms(2) obtain ws2 es2 where
    a2: "valid v' = valid v1 @ filter (\<lambda>p. \<not> name_missing_or_empty p) ps"
    "valid_personas v' = valid_personas v1 + length (filter (\<lambda>p. \<not> name_missing_or_empty p) ps)"
    "invalid_personas v' = invalid_personas v1 + length (filter name_missing_or_empty ps)"
    "total_imported v' = total_imported v1"
    and w2: "warnings v' = warnings v1 @ ws2"
    "personas_with_warnings v' = personas_with_warnings v1 + length ws2"
    "\<forall>j < length ps. \<not> name_missing_or_empty (ps ! j) \<and> age_out_of_range (ps ! j) \<longrightarrow>
        (\<exists>w \<in> set ws2. age_warning_for rt (ps ! j) (i + 1 + j + 1) w)"
    and e2: "import_errors v' = import_errors v1 @ es2" "length es2 = length (filter name_missing_or_empty ps)"
    unfolding step_effect_def by auto
  have ww: "\<forall>j < length (p # ps). \<not> name_missing_or_empty ((p # ps) ! j) \<and> age_out_of_range ((p # ps) ! j) \<longrightarrow>
        (\<exists>w \<in> set (ws1 @ ws2). age_warning_for rt ((p # ps) ! j) (i + j + 1) w)"
  proof (intro allI impI)
    fix j assume j: "j < length (p # ps)"
      and h: "\<not> name_missing_or_empty ((p # ps) ! j) \<and> age_out_of_range ((p # ps) ! j)"
    show "\<exists>w \<in> set (ws1 @ ws2). age_warning_for rt ((p # ps) ! j) (i + j + 1) w"
    proof (cases j)
      case 0
      with h w1(3) show ?thesis by auto
    next
      case (Suc k)
      with j h w2(3) have "\<exists>w \<in> set ws2. age_warning_for rt (ps ! k) (i + 1 + k + 1) w" by simp
      with Suc show ?thesis by auto
    qed
  qed
  have "warnings v' = warnings v @ (ws1 @ ws2)"
    "personas_with_warnings v' = personas_with_warnings v + length (ws1 @ ws2)"
    "import_errors v' = import_errors v @ (es1 @ es2)"
    "length (es1 @ es2) = length (filter name_missing_or_empty (p # ps))"
    using w1 w2 e1 e2 by simp_all
  with a1 a2 ww show ?thesis
    unfolding step_effect_def by (intro conjI exI[of _ "ws1 @ ws2"] exI[of _ "es1 @ es2"]) simp_all
qed

lemma import_loop_imported:
  assumes "\<forall>p \<in> set ps. imported_persona p"
  shows "\<exists>v'. import_loop rt ps i v = Inr v' \<and> step_effect rt ps i v v'"
  using assms
proof (induction ps arbitrary: i v)
  case Nil
  then show ?case by (simp add: step_effect_def)
next
  case (Cons p ps)
  from Cons.prems have "imported_persona p" by simp
  from import_step_imported[OF this, of rt i v] obtain v1 where
    s: "import_step rt p i v = Inr v1" and e1: "step_effect rt [p] i v v1" by blast
  from Cons.prems have "\<forall>p \<in> set ps. imported_persona p" by simp
  from Cons.IH[OF this, of "i + 1" v1] obtain v' where
    l: "import_loop rt ps (i + 1) v1 = Inr v'" and e2: "step_effect rt ps (i + 1) v1 v'" by blast
  from s l step_effect_compose[OF e1 e2] show ?case by simp
qed

text \<open>
  C6. For every list of imported personas, the import validator returns (it does not
  throw) a record whose valid list holds exactly the personas whose name is not missing or
  empty, in their order, and counts the others as invalid, one error entry each. A persona
  with a name and an age outside [0, 120] is in the valid list, and the warnings hold an
  entry for its row with the message that its age seems unusual; the summary counts one
  persona with warnings for every entry of the warnings list.
\<close>

theorem import_validator_excludes_nameless:
  assumes "\<forall>p \<in> set personas. imported_persona p"
  shows "\<exists>v. validatePersonas_import rt personas = Inr v
     \<and> valid v = filter (\<lambda>p. \<not> name_missing_or_empty p) personas
     \<and> valid_personas v = length (valid v)
     \<and> invalid_personas v = length (filter name_missing_or_empty personas)
     \<and> length (import_errors v) = invalid_personas v
     \<and> total_imported v = length personas
     \<and> personas_with_warnings v = length (warnings v)
     \<and> (\<forall>j < length personas.
           \<not> name_missing_or_empty (personas ! j) \<and> age_out_of_range (personas ! j) \<longrightarrow>
             personas ! j \<in> set (valid v)
             \<and> (\<exists>w \<in> set (warnings v). age_warning_for rt (personas ! j) (j + 1) w))"
proof -
  from import_loop_imported[OF assms, of rt 0
      "\<lparr>valid = [], warnings = [], import_errors = [], total_imported = length personas,
        valid_personas = 0, personas_with_warnings = 0, invalid_personas = 0\<rparr>"]
  obtain v where v: "validatePersonas_import rt personas = Inr v"
    and e: "step_effect rt personas 0
      \<lparr>valid = [], warnings = [], import_errors = [], total_imported = length personas,
        valid_personas = 0, personas_with_warnings = 0, invalid_personas = 0\<rparr> v"
    by (auto simp: validatePersonas_import_def)
  from e have "valid v = filter (\<lambda>p. \<not> name_missing_or_empty p) personas
     \<and> valid_personas v = length (valid v)
     \<and> invalid_personas v = length (filter name_missing_or_empty personas)
     \<and> length (import_errors v) = invalid_personas v
     \<and> total_imported v = length personas
     \<and> personas_with_warnings v = length (warnings v)
     \<and> (\<forall>j < length personas.
           \<not> name_missing_or_empty (personas ! j) \<and> age_out_of_range (personas ! j) \<longrightarrow>
             personas ! j \<in> set (valid v)
             \<and> (\<exists>w \<in> set (warnings v). age_warning_for rt (personas ! j) (j + 1) w))"
    by (auto simp: step_effect_def)
  with v show ?thesis by blast
qed

text \<open>
  A run of C6: the row aged 150 is valid and warned about; the row with an empty name, the
  row without a name and the row named by a no-break space are invalid.
\<close>

theorem import_validator_excludes_nameless_witness:
  "imported_persona import_a \<and> imported_persona import_b \<and> imported_persona import_c
   \<and> imported_persona import_d
   \<and> age_out_of_range import_a
   \<and> (\<exists>v. validatePersonas_import (sample_runtime failing_parse)
             [import_a, import_b, import_c, import_d] = Inr v
        \<and> valid v = [import_a]
        \<and> valid_personas v = 1
        \<and> invalid_personas v = 3
        \<and> total_imported v = 4
        \<and> personas_with_warnings v = length (warnings v)
        \<and> (\<exists>w \<in> set (warnings v). age_warning_for (sample_runtime failing_parse) import_a 1 w))"
proof -
  let ?ps = "[import_a, import_b, import_c, import_d]"
  have i: "imported_persona import_a" "imported_persona import_b" "imported_persona import_c"
    "imported_persona import_d"
    by (simp_all add: imported_persona_def import_a_def import_b_def import_c_def import_d_def
        get_opt_def own_def)
  then have h: "\<forall>p \<in> set ?ps. imported_persona p" by simp
  have n: "\<not> name_missing_or_empty import_a" "name_missing_or_empty import_b"
    "name_missing_or_empty import_c" "name_missing_or_empty import_d"
    by (simp_all add: name_missing_or_empty_def blank_def import_a_def import_b_def import_c_def
        import_d_def get_opt_def own_def)
  have a: "age_out_of_range import_a"
    by (simp add: age_out_of_range_def import_a_def get_opt_def own_def)
  from import_validator_excludes_nameless[OF h, of "sample_runtime failing_parse"]
  obtain v where v: "validatePersonas_import (sample_runtime failing_parse) ?ps = Inr v"
    and f: "valid v = filter (\<lambda>p. \<not> name_missing_or_empty p) ?ps"
      "valid_personas v = length (valid v)"
      "invalid_personas v = length (filter name_missing_or_empty ?ps)"
      "total_imported v = length ?ps"
      "personas_with_warnings v = length (warnings v)"
    and w: "\<forall>j < length ?ps.
           \<not> name_missing_or_empty (?ps ! j) \<and> age_out_of_range (?ps ! j) \<longrightarrow>
             ?ps ! j \<in> set (valid v)
             \<and> (\<exists>w \<in> set (warnings v).
                   age_warning_for (sample_runtime failing_parse) (?ps ! j) (j + 1) w)"
    by blast
  from w have "\<not> name_missing_or_empty (?ps ! 0) \<and> age_out_of_range (?ps ! 0) \<longrightarrow>
             (\<exists>w \<in> set (warnings v).
                   age_warning_for (sample_runtime failing_parse) (?ps ! 0) (0 + 1) w)"
    by (elim allE[of _ 0]) simp
  with n a have "\<exists>w \<in> set (warnings v). age_warning_for (sample_runtime failing_parse) import_a 1 w"
    by simp
  with v f n i a show ?thesis by auto
qed


subsection \<open>The Research Collector\<close>

lemma upt_4: "[0 ..< 4] = [0, 1, 2, 3]"
  by (simp add: upt_rec)

lemma unparsable_tagged:
  assumes "unparsable rt outcome"
  shows "\<exists>v. makePerplexityRequest rt outcome topic = Inr v \<and> tagged_error v topic"
proof -
  from assms obtain data content where o: "outcome = Responded data"
    and c: "reply_content data = Inr content" and t: "truthy content"
    and i: "isl (json_parse rt content)"
    by (cases outcome) (auto simp: unparsable_def split: sum.splits)
  from i obtain e where p: "json_parse rt content = Inl e"
    by (cases "json_parse rt content") simp_all
  from o c t p show ?thesis
    by (simp add: makePerplexityRequest_def makePerplexityRequest_body_def plain_def
        tag_reply_def tagged_error_def is_object_def get_opt_def own_def)
qed

lemma request_failed_throws:
  assumes "request_failed outcome"
  shows "\<exists>e. makePerplexityRequest rt outcome topic = Inl e"
  using assms
  by (cases outcome)
     (auto simp: request_failed_def makePerplexityRequest_def makePerplexityRequest_body_def
        plain_def split: sum.splits)

lemma promise_all_fulfilled:
  assumes "\<forall>x \<in> set xs. \<exists>v. x = Inr v"
  shows "promise_all xs = Inr (map projr xs)"
  using assms by (induction xs) auto

lemma promise_all_rejected:
  assumes "Inl e \<in> set xs"
  shows "\<exists>e'. promise_all xs = Inl e'"
  using assms
proof (induction xs)
  case Nil
  then show ?case by simp
next
  case (Cons x xs)
  show ?case
  proof (cases x)
    case (Inl a)
    then show ?thesis by simp
  next
    case (Inr v)
    with Cons obtain e' where "promise_all xs = Inl e'" by auto
    with Inr show ?thesis by simp
  qed
qed

lemma conductResearch_bundle:
  assumes "\<forall>j < 4. makePerplexityRequest rt (outcomes j) (research_topics ! j) = Inr (r j)"
  shows "conductResearch rt True outcomes caseType keywords targetDescription =
     JObj [(''demographics'', r 0), (''social_insights'', r 1), (''legal_trends'', r 2),
           (''consumer_behavior'', r 3), (''research_timestamp'', JStr (now_iso rt)),
           (''case_type'', caseType), (''keywords'', keywords)]"
proof -
  from assms have "makePerplexityRequest rt (outcomes 0) (research_topics ! 0) = Inr (r 0)"
    "makePerplexityRequest rt (outcomes 1) (research_topics ! 1) = Inr (r 1)"
    "makePerplexityRequest rt (outcomes 2) (research_topics ! 2) = Inr (r 2)"
    "makePerplexityRequest rt (outcomes 3) (research_topics ! 3) = Inr (r 3)"
    by simp_all
  then show ?thesis by (simp add: conductResearch_def upt_4)
qed

lemma conductResearch_aborts:
  assumes "k < 4" and "makePerplexityRequest rt (outcomes k) (research_topics ! k) = Inl e"
  shows "\<exists>m. conductResearch rt True outcomes caseType keywords targetDescription =
     JObj [(''error'', JStr m), (''partial_data'', JNull)]"
proof -
  from assms have "Inl e \<in> set (map (\<lambda>i. makePerplexityRequest rt (outcomes i) (research_topics ! i)) [0 ..< 4])"
    by (auto simp: image_iff intro!: bexI[of _ k])
  from promise_all_rejected[OF this] show ?thesis
    by (auto simp: conductResearch_def)
qed

text \<open>
  C4, as amended. When the reply of exactly one of the four topic queries has content that
  does not decode, and the other three queries return, that query yields the tagged error
  object (with \<open>error\<close> and \<open>_request_type\<close> naming its topic) and the collector
  returns the bundle of the four topics, the other three holding what their queries
  returned. When a query fails (the request ends with an error or a timeout, or the
  response has no content), the collector returns no bundle: its result is the object
  \<open>{error, partial_data: null}\<close>.
\<close>

theorem research_degrades_per_topic:
  assumes "i < 4" and "unparsable rt (outcomes i)"
    and "\<forall>j < 4. j \<noteq> i \<longrightarrow> makePerplexityRequest rt (outcomes j) (research_topics ! j) = Inr (r j)"
  shows "(\<exists>v. tagged_error v (research_topics ! i)
          \<and> conductResearch rt True outcomes caseType keywords targetDescription =
              JObj [(''demographics'', (r(i := v)) 0),
                    (''social_insights'', (r(i := v)) 1),
                    (''legal_trends'', (r(i := v)) 2),
                    (''consumer_behavior'', (r(i := v)) 3),
                    (''research_timestamp'', JStr (now_iso rt)),
                    (''case_type'', caseType),
                    (''keywords'', keywords)])
     \<and> (\<forall>k < 4. request_failed (failing k) \<longrightarrow>
           (\<exists>m. conductResearch rt True failing caseType keywords targetDescription =
                  JObj [(''error'', JStr m), (''partial_data'', JNull)]))"
proof -
  from unparsable_tagged[OF assms(2)] obtain v where
    v: "makePerplexityRequest rt (outcomes i) (research_topics ! i) = Inr v"
    and t: "tagged_error v (research_topics ! i)" by blast
  from v assms(3) have
    "\<forall>j < 4. makePerplexityRequest rt (outcomes j) (research_topics ! j) = Inr ((r(i := v)) j)"
    by simp
  from conductResearch_bundle[OF this] t have first: "\<exists>v. tagged_error v (research_topics ! i)
          \<and> conductResearch rt True outcomes caseType keywords targetDescription =
              JObj [(''demographics'', (r(i := v)) 0),
                    (''social_insights'', (r(i := v)) 1),
                    (''legal_trends'', (r(i := v)) 2),
                    (''consumer_behavior'', (r(i := v)) 3),
                    (''research_timestamp'', JStr (now_iso rt)),
                    (''case_type'', caseType),
                    (''keywords'', keywords)]" by blast
  have "\<forall>k < 4. request_failed (failing k) \<longrightarrow>
           (\<exists>m. conductResearch rt True failing caseType keywords targetDescription =
                  JObj [(''error'', JStr m), (''partial_data'', JNull)])"
  proof (intro allI impI)
    fix k :: nat assume k: "k < 4" and f: "request_failed (failing k)"
    from request_failed_throws[OF f] obtain e where
      "makePerplexityRequest rt (failing k) (research_topics ! k) = Inl e" by blast
    from conductResearch_aborts[where outcomes = failing, OF k this]
    show "\<exists>m. conductResearch rt True failing caseType keywords targetDescription =
                  JObj [(''error'', JStr m), (''partial_data'', JNull)]" .
  qed
  with first show ?thesis by blast
qed

text \<open>
  A run of C4: the second reply is prose, and the bundle holds its tagged error object
  beside the other three results; with a timeout of the third request there is no bundle.
\<close>

lemma sample_request_ok:
  "makePerplexityRequest (sample_runtime empty_object_parse) (reply_with ''{}'') topic =
     Inr (JObj [(''_raw_response'', JStr ''{}''), (''_request_type'', JStr topic)])"
  by (simp add: makePerplexityRequest_def makePerplexityRequest_body_def plain_def reply_with_def
      reply_content_def tag_reply_def get_opt_def own_def sample_runtime_def empty_object_parse_def)

theorem research_degrades_per_topic_witness:
  "unparsable (sample_runtime empty_object_parse) (one_unparsable 1)
   \<and> request_failed (one_timeout 2)
   \<and> (\<exists>v. tagged_error v ''social_insights''
        \<and> conductResearch (sample_runtime empty_object_parse) True one_unparsable
             (JStr ''X'') (JStr ''y'') (JStr ''z'') =
           JObj [(''demographics'',
                    JObj [(''_raw_response'', JStr ''{}''), (''_request_type'', JStr ''demographics'')]),
                 (''social_insights'', v),
                 (''legal_trends'',
                    JObj [(''_raw_response'', JStr ''{}''), (''_request_type'', JStr ''legal_trends'')]),
                 (''consumer_behavior'',
                    JObj [(''_raw_response'', JStr ''{}''), (''_request_type'', JStr ''consumer_behavior'')]),
                 (''research_timestamp'', JStr ''2024-01-01T00:00:00.000Z''),
                 (''case_type'', JStr ''X''),
                 (''keywords'', JStr ''y'')])
   \<and> (\<exists>m. conductResearch (sample_runtime empty_object_parse) True one_timeout
             (JStr ''X'') (JStr ''y'') (JStr ''z'') =
           JObj [(''error'', JStr m), (''partial_data'', JNull)])"
proof -
  have u: "unparsable (sample_runtime empty_object_parse) (one_unparsable 1)"
    by (simp add: unparsable_def one_unparsable_def reply_with_def reply_content_def get_opt_def
        own_def sample_runtime_def empty_object_parse_def)
  have f: "request_failed (one_timeout 2)"
    by (simp add: request_failed_def one_timeout_def)
  have o: "\<forall>j < 4. j \<noteq> 1 \<longrightarrow>
      makePerplexityRequest (sample_runtime empty_object_parse) (one_unparsable j) (research_topics ! j)
      = Inr (JObj [(''_raw_response'', JStr ''{}''), (''_request_type'', JStr (research_topics ! j))])"
    by (simp add: one_unparsable_def sample_request_ok)
  have i: "(1::nat) < 4" by simp
  from research_degrades_per_topic[OF i u o, of "JStr ''X''" "JStr ''y''" "JStr ''z''" one_timeout]
  obtain v where t: "tagged_error v (research_topics ! 1)"
    and c: "conductResearch (sample_runtime empty_object_parse) True one_unparsable
             (JStr ''X'') (JStr ''y'') (JStr ''z'') =
           JObj [(''demographics'',
                    ((\<lambda>j. JObj [(''_raw_response'', JStr ''{}''),
                                 (''_request_type'', JStr (research_topics ! j))])(1 := v)) 0),
                 (''social_insights'',
                    ((\<lambda>j. JObj [(''_raw_response'', JStr ''{}''),
                                 (''_request_type'', JStr (research_topics ! j))])(1 := v)) 1),
                 (''legal_trends'',
                    ((\<lambda>j. JObj [(''_raw_response'', JStr ''{}''),
                                 (''_request_type'', JStr (research_topics ! j))])(1 := v)) 2),
                 (''consumer_behavior'',
                    ((\<lambda>j. JObj [(''_raw_response'', JStr ''{}''),
                                 (''_request_type'', JStr (research_topics ! j))])(1 := v)) 3),
                 (''research_timestamp'', JStr (now_iso (sample_runtime empty_object_parse))),
                 (''case_type'', JStr ''X''),
                 (''keywords'', JStr ''y'')]"
    and ab: "\<forall>k < 4. request_failed (one_timeout k) \<longrightarrow>
           (\<exists>m. conductResearch (sample_runtime empty_object_parse) True one_timeout
                   (JStr ''X'') (JStr ''y'') (JStr ''z'') =
                  JObj [(''error'', JStr m), (''partial_data'', JNull)])"
    by blast
  have n: "now_iso (sample_runtime empty_object_parse) = ''2024-01-01T00:00:00.000Z''"
    by (simp add: sample_runtime_def)
  from ab have "request_failed (one_timeout 2) \<longrightarrow>
           (\<exists>m. conductResearch (sample_runtime empty_object_parse) True one_timeout
                   (JStr ''X'') (JStr ''y'') (JStr ''z'') =
                  JObj [(''error'', JStr m), (''partial_data'', JNull)])"
    by (elim allE[of _ 2]) simp
  with f have a2: "\<exists>m. conductResearch (sample_runtime empty_object_parse) True one_timeout
                   (JStr ''X'') (JStr ''y'') (JStr ''z'') =
                  JObj [(''error'', JStr m), (''partial_data'', JNull)]" by simp
  from t have t': "tagged_error v ''social_insights''" by (simp add: research_topics_def)
  from c have c': "conductResearch (sample_runtime empty_object_parse) True one_unparsable
             (JStr ''X'') (JStr ''y'') (JStr ''z'') =
           JObj [(''demographics'',
                    JObj [(''_raw_response'', JStr ''{}''), (''_request_type'', JStr ''demographics'')]),
                 (''social_insights'', v),
                 (''legal_trends'',
                    JObj [(''_raw_response'', JStr ''{}''), (''_request_type'', JStr ''legal_trends'')]),
                 (''consumer_behavior'',
                    JObj [(''_raw_response'', JStr ''{}''), (''_request_type'', JStr ''consumer_behavior'')]),
                 (''research_timestamp'', JStr ''2024-01-01T00:00:00.000Z''),
                 (''case_type'', JStr ''X''),
                 (''keywords'', JStr ''y'')]"
    by (simp add: n research_topics_def)
  from u f t' c' a2 show ?thesis by blast
qed

text \<open>
  C4 as stated fails for a query that fails: one timeout among the four requests aborts
  the batch.
\<close>

theorem research_aborts_on_timeout:
  "conductResearch (sample_runtime empty_object_parse) True one_timeout
       (JStr ''X'') (JStr ''y'') (JStr ''z'') =
     JObj [(''error'', JStr ''Perplexity API request timeout or network error''),
           (''partial_data'', JNull)]"
proof -
  have "makePerplexityRequest (sample_runtime empty_object_parse) (one_timeout 2) topic =
      Inl (Error ''Perplexity API request timeout or network error'')" for topic
    by (simp add: one_timeout_def makePerplexityRequest_def makePerplexityRequest_body_def)
  moreover have "makePerplexityRequest (sample_runtime empty_object_parse) (one_timeout 0) topic =
      Inr (JObj [(''_raw_response'', JStr ''{}''), (''_request_type'', JStr topic)])"
    "makePerplexityRequest (sample_runtime empty_object_parse) (one_timeout 1) topic =
      Inr (JObj [(''_raw_response'', JStr ''{}''), (''_request_type'', JStr topic)])" for topic
    by (simp_all add: one_timeout_def sample_request_ok)
  ultimately show ?thesis
    by (simp add: conductResearch_def upt_4)
qed


subsection \<open>Export and import of a row\<close>

text \<open>
  C8. The round trip of a persona starts with \<^verbatim>\<open>exportEnrichedPersonas\<close>, and
  there it ends: for the persona named Ann, aged 34, with the communication style
  \<open>direct\<close>, and a spreadsheet service that would carry out every request, the export
  throws before a row is built or the service is called, so no sheet exists for the
  import to read. The cause is the unbound \<^verbatim>\<open>initializeSheets\<close> of C3.
\<close>

theorem round_trip_stops_at_export:
  "exportEnrichedPersonas (sample_runtime failing_parse) working_sheets
      (JArr [round_trip_persona] []) sample_campaign (JObj [])
   = Inl (Error ''Export failed: initializeSheets is not defined'')"
  by (simp add: exportEnrichedPersonas_def exportEnrichedPersonas_body_def Let_def
      lookup_identifier_def sheetsService_module_def)

subsection \<open>The request dispatcher\<close>

lemma enrichment_failed_is_failed: "failed_enrichment (enrichment_failed e)"
  by (simp add: failed_enrichment_def enrichment_failed_def get_opt_def own_def)

lemma enrichment_export_fails:
  "\<exists>r. enrichment_export rt env flds t5 final = (t5 @ [''exportEnrichedPersonas''], r)
     \<and> failed_enrichment r"
proof -
  from exportEnrichedPersonas_throws[of rt "sheets_call env" final "campaign_of flds" "JObj []"]
  obtain m where "exportEnrichedPersonas rt (sheets_call env) final (campaign_of flds) (JObj [])
      = Inl (Error (''Export failed: '' @ m))" by blast
  then show ?thesis
    by (simp add: enrichment_export_def Let_def enrichment_failed_is_failed)
qed

lemma enrichment_stages_fail:
  assumes "t2 = take 3 enrichment_calls"
  shows "\<exists>n r. enrichment_stages rt env flds t2 validation uploadedData = (take n enrichment_calls, r)
     \<and> 2 \<le> n \<and> failed_enrichment r"
proof (cases "enrichPersonas_social rt (social_replies env) (valid validation)
     (JObj [(''matter'', get_opt flds ''matter''),
            (''keywords'', get_opt flds ''keywords''),
            (''target_description'', get_opt flds ''target_description''),
            (''documents'', uploadedData),
            (''research'', conductResearch rt (perplexity_key env) (research_outcomes env)
                           (get_opt flds ''matter'') (get_opt flds ''keywords'')
                           (get_opt flds ''target_description''))])")
  case (Inl e)
  then show ?thesis
    using assms
    by (intro exI[of _ 5] exI[of _ "enrichment_failed e"])
       (simp add: enrichment_stages_def Let_def enrichment_failed_is_failed enrichment_calls_def)
next
  case social: (Inr socialEnrichedPersonas)
  show ?thesis
  proof (cases "bind_result (legal_enrichment env socialEnrichedPersonas)
                  (\<lambda>legalEnrichmentResult. get_prop legalEnrichmentResult ''personas'')")
    case (Inl e)
    with social assms show ?thesis
      by (intro exI[of _ 6] exI[of _ "enrichment_failed e"])
         (simp add: enrichment_stages_def Let_def enrichment_failed_is_failed enrichment_calls_def)
  next
    case (Inr final)
    from enrichment_export_fails[of rt env flds
        "take 3 enrichment_calls @ [''conductResearch''] @ [''PersonaEnrichmentAgent.enrichPersonas'']
           @ [''enrichPersonas'']" final]
    obtain r where "enrichment_export rt env flds
        (take 3 enrichment_calls @ [''conductResearch''] @ [''PersonaEnrichmentAgent.enrichPersonas'']
           @ [''enrichPersonas'']) final
        = ((take 3 enrichment_calls @ [''conductResearch''] @ [''PersonaEnrichmentAgent.enrichPersonas'']
           @ [''enrichPersonas'']) @ [''exportEnrichedPersonas''], r)" and "failed_enrichment r"
      by blast
    with social Inr assms show ?thesis
      by (intro exI[of _ 7] exI[of _ r])
         (simp add: enrichment_stages_def Let_def enrichment_calls_def)
  qed
qed

lemma handlePersonaEnrichment_trace:
  "\<exists>n r. handlePersonaEnrichment rt env flds = (take n enrichment_calls, r) \<and> 2 \<le> n
     \<and> (status r = 400 \<and> n \<le> 3 \<or> failed_enrichment r)"
proof (cases "fetchPersonasFromExternalSheet rt (sheet_rows env (get_opt flds ''julius_personas_sheet_url''))")
  case (Inl e)
  then show ?thesis
    by (intro exI[of _ 2]) (simp add: handlePersonaEnrichment_def Let_def enrichment_calls_def)
next
  case imported: (Inr importedPersonas)
  show ?thesis
  proof (cases "length importedPersonas = 0")
    case True
    with imported show ?thesis
      by (intro exI[of _ 2]) (simp add: handlePersonaEnrichment_def Let_def enrichment_calls_def)
  next
    case nonempty: False
    show ?thesis
    proof (cases "validatePersonas_import rt importedPersonas")
      case (Inl e)
      with imported nonempty show ?thesis
        by (intro exI[of _ 3] exI[of _ "enrichment_failed e"])
           (simp add: handlePersonaEnrichment_def Let_def enrichment_calls_def
            enrichment_failed_is_failed)
    next
      case validated: (Inr validation)
      show ?thesis
      proof (cases "valid_personas validation = 0")
        case True
        with imported nonempty validated show ?thesis
          by (intro exI[of _ 3]) (simp add: handlePersonaEnrichment_def Let_def enrichment_calls_def)
      next
        case some_valid: False
        show ?thesis
        proof (cases "if length (file_urls flds) > 0 then analyze_files env (file_urls flds)
                            else Inr (JArr [] [])")
          case (Inl e)
          with imported nonempty validated some_valid show ?thesis
            by (intro exI[of _ 3] exI[of _ "enrichment_failed e"])
               (simp add: handlePersonaEnrichment_def Let_def enrichment_calls_def
                enrichment_failed_is_failed)
        next
          case (Inr uploadedData)
          have t2: "[''handlePersonaEnrichment'', ''fetchPersonasFromExternalSheet''] @ [''validatePersonas'']
              = take 3 enrichment_calls" by (simp add: enrichment_calls_def)
          from enrichment_stages_fail[OF refl, of rt env flds validation uploadedData]
          obtain n r where "enrichment_stages rt env flds (take 3 enrichment_calls) validation uploadedData
              = (take n enrichment_calls, r)" "2 \<le> n" "failed_enrichment r" by blast
          with imported nonempty validated some_valid Inr show ?thesis
            by (intro exI[of _ n] exI[of _ r])
               (simp add: handlePersonaEnrichment_def Let_def t2 del: append.simps)
        qed
      qed
    qed
  qed
qed

lemma generation_workflow_trace:
  "fst (generation_workflow rt env flds) = [''conductResearch'', ''generatePersonas'']"
  by (simp add: generation_workflow_def research_step_def generation_step_def Let_def)

lemma generation_workflow_response:
  "snd (generation_workflow rt env flds) =
     generation_response
       (generatePersonas rt (anthropic_key env) (generator_reply env) (campaign_of flds)
          (uploaded_for_generation env flds)
          (conductResearch rt (perplexity_key env) (research_outcomes env)
             (get_opt flds ''matter'') (get_opt flds ''keywords'')
             (get_opt flds ''target_description'')))"
  by (simp add: generation_workflow_def research_step_def generation_step_def Let_def)




lemma handlePersonaEnrichment_not_ok:
  "status (snd (handlePersonaEnrichment rt env flds)) \<noteq> 200"
  using handlePersonaEnrichment_trace[of rt env flds]
  by (auto simp: failed_enrichment_def)

lemma handlePersonaEnrichment_first_call:
  "hd (fst (handlePersonaEnrichment rt env flds)) = ''handlePersonaEnrichment''
   \<and> ''handlePersonaEnrichment'' \<in> set (fst (handlePersonaEnrichment rt env flds))
   \<and> ''generatePersonas'' \<notin> set (fst (handlePersonaEnrichment rt env flds))"
proof -
  from handlePersonaEnrichment_trace[of rt env flds]
  obtain n r where run: "handlePersonaEnrichment rt env flds = (take n enrichment_calls, r)"
    and n: "2 \<le> n" by blast
  from n obtain k where k: "n = Suc (Suc k)" by (metis Suc_le_D numeral_2_eq_2 Suc_le_mono)
  have "''generatePersonas'' \<notin> set enrichment_calls" by (simp add: enrichment_calls_def)
  then have "''generatePersonas'' \<notin> set (take n enrichment_calls)"
    using set_take_subset[of n enrichment_calls] by blast
  moreover have "hd (take n enrichment_calls) = ''handlePersonaEnrichment''"
    by (simp add: k enrichment_calls_def)
  moreover have "''handlePersonaEnrichment'' \<in> set (take n enrichment_calls)"
    by (simp add: k enrichment_calls_def)
  ultimately show ?thesis by (simp add: run)
qed

lemma handler_dispatches:
  assumes "well_formed req flds"
  shows "handler rt env req = dispatch rt env flds"
  using assms by (simp add: well_formed_def handler_def object_keys_def is_object_def split: jsval.splits)

text \<open>
  C3. \<^verbatim>\<open>exportEnrichedPersonas\<close> never returns its success value, whatever the
  personas, the campaign data and the options: for every list of personas it throws
  \<^verbatim>\<open>Export failed: initializeSheets is not defined\<close>, since the module binds
  \<^verbatim>\<open>initializeGoogleSheetsService\<close> and no \<^verbatim>\<open>initializeSheets\<close>. Hence the
  export step of the enrichment workflow always ends in the failure response, and the
  workflow never answers with status 200.
\<close>

theorem export_never_succeeds:
  "(\<forall>r. exportEnrichedPersonas rt call enrichedPersonas campaignData options \<noteq> Inr r)
   \<and> exportEnrichedPersonas rt call (JArr personas ps) campaignData options
       = Inl (Error ''Export failed: initializeSheets is not defined'')
   \<and> lookup_identifier sheetsService_module ''initializeSheets''
       = Inl (ReferenceError ''initializeSheets is not defined'')
   \<and> lookup_identifier sheetsService_module ''initializeGoogleSheetsService''
       = Inr (JFun ''initializeGoogleSheetsService'')
   \<and> (\<exists>m. enrichment_export rt env flds t5 finalEnrichedPersonas
            = (t5 @ [''exportEnrichedPersonas''],
               enrichment_failed (Error (''Export failed: '' @ m))))
   \<and> status (snd (handlePersonaEnrichment rt env flds)) \<noteq> 200"
proof -
  have a: "\<forall>r. exportEnrichedPersonas rt call enrichedPersonas campaignData options \<noteq> Inr r"
    using exportEnrichedPersonas_throws[of rt call enrichedPersonas campaignData options] by auto
  have b: "exportEnrichedPersonas rt call (JArr personas ps) campaignData options
       = Inl (Error ''Export failed: initializeSheets is not defined'')"
    using exportEnrichedPersonas_throws[of rt call "JArr personas ps" campaignData options] by auto
  have c: "lookup_identifier sheetsService_module ''initializeSheets''
       = Inl (ReferenceError ''initializeSheets is not defined'')"
    by (simp add: lookup_identifier_def sheetsService_module_def)
  have d: "lookup_identifier sheetsService_module ''initializeGoogleSheetsService''
       = Inr (JFun ''initializeGoogleSheetsService'')"
    by (simp add: lookup_identifier_def sheetsService_module_def)
  have e: "\<exists>m. enrichment_export rt env flds t5 finalEnrichedPersonas
            = (t5 @ [''exportEnrichedPersonas''],
               enrichment_failed (Error (''Export failed: '' @ m)))"
  proof -
    from exportEnrichedPersonas_throws[of rt "sheets_call env" finalEnrichedPersonas
           "campaign_of flds" "JObj []"]
    obtain m where "exportEnrichedPersonas rt (sheets_call env) finalEnrichedPersonas
        (campaign_of flds) (JObj []) = Inl (Error (''Export failed: '' @ m))" by blast
    then have "enrichment_export rt env flds t5 finalEnrichedPersonas
            = (t5 @ [''exportEnrichedPersonas''],
               enrichment_failed (Error (''Export failed: '' @ m)))"
      by (simp add: enrichment_export_def Let_def)
    then show ?thesis by (rule exI)
  qed
  from a b c d e handlePersonaEnrichment_not_ok[of rt env flds] show ?thesis by blast
qed

theorem export_never_succeeds_witness:
  "exportEnrichedPersonas (sample_runtime failing_parse) (sheets_call sample_services)
      (JArr [round_trip_persona] []) sample_campaign (JObj [])
     = Inl (Error ''Export failed: initializeSheets is not defined'')
   \<and> handlePersonaEnrichment (sample_runtime failing_parse) sample_services
        (sheet_form ''https://docs.google.com/spreadsheets/d/abc123'')
     = (enrichment_calls,
        enrichment_failed (Error ''Export failed: initializeSheets is not defined''))
   \<and> status (snd (handlePersonaEnrichment (sample_runtime failing_parse) sample_services
        (sheet_form ''https://docs.google.com/spreadsheets/d/abc123''))) = 500"
proof -
  have run: "handlePersonaEnrichment (sample_runtime failing_parse) sample_services
        (sheet_form ''https://docs.google.com/spreadsheets/d/abc123'')
     = (enrichment_calls,
        enrichment_failed (Error ''Export failed: initializeSheets is not defined''))"
    by code_simp
  from export_never_succeeds[of "sample_runtime failing_parse" "sheets_call sample_services"
         "JArr [round_trip_persona] []" sample_campaign "JObj []" "[round_trip_persona]" "[]"
         sample_services "sheet_form ''https://docs.google.com/spreadsheets/d/abc123''"]
  show ?thesis by (simp add: run enrichment_failed_def)
qed

text \<open>
  C10, as amended. For a POST request whose form parses and carries the three required
  fields: the enrichment workflow is called exactly when the sheet URL is set (truthy) and
  passes the validation of the URL, and the Generator is not called then; a sheet URL that
  fails the validation is answered with status 400 and no workflow is called; without a
  sheet URL the generation workflow runs: \<^verbatim>\<open>conductResearch\<close> is called, then
  \<^verbatim>\<open>generatePersonas\<close> with what the research returned, and the response is the one
  built from the outcome of that call.
\<close>

theorem mode_dispatch:
  assumes "well_formed req flds"
  shows "(''handlePersonaEnrichment'' \<in> set (fst (handler rt env req))
            \<longleftrightarrow> truthy (get_opt flds ''julius_personas_sheet_url'')
                \<and> validate_sheet_url rt env (get_opt flds ''julius_personas_sheet_url'') = None)
       \<and> (truthy (get_opt flds ''julius_personas_sheet_url'')
            \<and> validate_sheet_url rt env (get_opt flds ''julius_personas_sheet_url'') = None
          \<longrightarrow> handler rt env req = handlePersonaEnrichment rt env flds
              \<and> ''generatePersonas'' \<notin> set (fst (handler rt env req)))
       \<and> (\<forall>rejected. truthy (get_opt flds ''julius_personas_sheet_url'')
            \<and> validate_sheet_url rt env (get_opt flds ''julius_personas_sheet_url'') = Some rejected
          \<longrightarrow> handler rt env req = ([], rejected) \<and> status rejected = 400)
       \<and> (\<not> truthy (get_opt flds ''julius_personas_sheet_url'')
          \<longrightarrow> handler rt env req = generation_workflow rt env flds
              \<and> fst (handler rt env req) = [''conductResearch'', ''generatePersonas'']
              \<and> snd (handler rt env req) =
                  generation_response
                    (generatePersonas rt (anthropic_key env) (generator_reply env) (campaign_of flds)
                       (uploaded_for_generation env flds)
                       (conductResearch rt (perplexity_key env) (research_outcomes env)
                          (get_opt flds ''matter'') (get_opt flds ''keywords'')
                          (get_opt flds ''target_description''))))"
proof -
  let ?url = "get_opt flds ''julius_personas_sheet_url''"
  from assms have h: "handler rt env req = dispatch rt env flds" by (rule handler_dispatches)
  from assms have req: "truthy (get_opt flds ''matter'')" "truthy (get_opt flds ''keywords'')"
    "truthy (get_opt flds ''target_description'')" by (simp_all add: well_formed_def)
  have rejected_400: "status rejected = 400"
    if "validate_sheet_url rt env ?url = Some rejected" for rejected
    using that by (auto simp: validate_sheet_url_def split: if_splits option.splits prod.splits)
  have enrich: "handler rt env req = handlePersonaEnrichment rt env flds"
    if "truthy ?url" "validate_sheet_url rt env ?url = None"
    using that req by (simp add: h dispatch_def Let_def)
  have reject: "handler rt env req = ([], rejected)"
    if "truthy ?url" "validate_sheet_url rt env ?url = Some rejected" for rejected
    using that req by (simp add: h dispatch_def Let_def)
  have generate: "handler rt env req = generation_workflow rt env flds" if "\<not> truthy ?url"
    using that req by (simp add: h dispatch_def Let_def)
  have 1: "''handlePersonaEnrichment'' \<in> set (fst (handler rt env req))
            \<longleftrightarrow> truthy ?url \<and> validate_sheet_url rt env ?url = None"
  proof (cases "truthy ?url")
    case False
    then show ?thesis by (simp add: generate generation_workflow_trace)
  next
    case True
    show ?thesis
    proof (cases "validate_sheet_url rt env ?url")
      case None
      with True show ?thesis
        by (simp add: enrich handlePersonaEnrichment_first_call)
    next
      case (Some rejected)
      with True show ?thesis by (simp add: reject)
    qed
  qed
  have 2: "truthy ?url \<and> validate_sheet_url rt env ?url = None
          \<longrightarrow> handler rt env req = handlePersonaEnrichment rt env flds
              \<and> ''generatePersonas'' \<notin> set (fst (handler rt env req))"
    by (simp add: enrich handlePersonaEnrichment_first_call)
  have 3: "\<forall>rejected. truthy ?url \<and> validate_sheet_url rt env ?url = Some rejected
          \<longrightarrow> handler rt env req = ([], rejected) \<and> status rejected = 400"
    using reject rejected_400 by blast
  have 4: "\<not> truthy ?url
          \<longrightarrow> handler rt env req = generation_workflow rt env flds
              \<and> fst (handler rt env req) = [''conductResearch'', ''generatePersonas'']
              \<and> snd (handler rt env req) =
                  generation_response
                    (generatePersonas rt (anthropic_key env) (generator_reply env) (campaign_of flds)
                       (uploaded_for_generation env flds)
                       (conductResearch rt (perplexity_key env) (research_outcomes env)
                          (get_opt flds ''matter'') (get_opt flds ''keywords'')
                          (get_opt flds ''target_description'')))"
    by (simp add: generate generation_workflow_trace generation_workflow_response)
  show ?thesis by (rule conjI[OF 1 conjI[OF 2 conjI[OF 3 4]]])
qed

text \<open>
  Runs of C10: the request of the generation scenario, with a research service that
  answers and a model that replies with an empty array, is answered with status 422 after
  the research and the Generator were called, in this order; a request with a sheet URL is
  handed to the enrichment workflow; a request with an unusable sheet URL is rejected.
\<close>

theorem mode_dispatch_witness:
  "well_formed generation_request
     (JObj [(''matter'', JStr ''X''), (''keywords'', JStr ''y''),
            (''target_description'', JStr ''z''), (''persona_count'', JNum 3)])
   \<and> fst (handler (sample_runtime empty_array_parse) researching_services generation_request)
       = [''conductResearch'', ''generatePersonas'']
   \<and> status (snd (handler (sample_runtime empty_array_parse) researching_services
                    generation_request)) = 422
   \<and> well_formed (enrichment_request ''https://docs.google.com/spreadsheets/d/abc123'')
       (sheet_form ''https://docs.google.com/spreadsheets/d/abc123'')
   \<and> handler (sample_runtime failing_parse) sample_services
         (enrichment_request ''https://docs.google.com/spreadsheets/d/abc123'')
       = handlePersonaEnrichment (sample_runtime failing_parse) sample_services
           (sheet_form ''https://docs.google.com/spreadsheets/d/abc123'')
   \<and> well_formed (enrichment_request ''my sheet'') (sheet_form ''my sheet'')
   \<and> status (snd (handler (sample_runtime failing_parse) sample_services
                    (enrichment_request ''my sheet''))) = 400"
proof -
  let ?rt = "sample_runtime failing_parse"
  let ?rt' = "sample_runtime empty_array_parse"
  let ?f = "JObj [(''matter'', JStr ''X''), (''keywords'', JStr ''y''),
            (''target_description'', JStr ''z''), (''persona_count'', JNum 3)]"
  let ?good = "''https://docs.google.com/spreadsheets/d/abc123''"
  have w1: "well_formed generation_request ?f" by code_simp
  have u1: "\<not> truthy (get_opt ?f ''julius_personas_sheet_url'')" by code_simp
  have g: "status (generation_response
             (generatePersonas ?rt' (anthropic_key researching_services)
                (generator_reply researching_services) (campaign_of ?f)
                (uploaded_for_generation researching_services ?f)
                (conductResearch ?rt' (perplexity_key researching_services)
                   (research_outcomes researching_services)
                   (get_opt ?f ''matter'') (get_opt ?f ''keywords'')
                   (get_opt ?f ''target_description'')))) = 422"
    by code_simp
  have w2: "well_formed (enrichment_request ?good) (sheet_form ?good)" by code_simp
  have u2: "truthy (get_opt (sheet_form ?good) ''julius_personas_sheet_url'')" by code_simp
  have v2: "validate_sheet_url ?rt sample_services
              (get_opt (sheet_form ?good) ''julius_personas_sheet_url'') = None" by code_simp
  have w3: "well_formed (enrichment_request ''my sheet'') (sheet_form ''my sheet'')" by code_simp
  have u3: "truthy (get_opt (sheet_form ''my sheet'') ''julius_personas_sheet_url'')" by code_simp
  have v3: "validate_sheet_url ?rt sample_services
              (get_opt (sheet_form ''my sheet'') ''julius_personas_sheet_url'')
            = Some \<lparr>status = 400, payload = JObj [(''error'', JStr ''Invalid Google Sheets URL'')]\<rparr>"
    by code_simp
  from mode_dispatch[OF w1, of ?rt' researching_services] u1
  have a: "fst (handler ?rt' researching_services generation_request)
       = [''conductResearch'', ''generatePersonas'']"
    and a': "snd (handler ?rt' researching_services generation_request) =
                  generation_response
                    (generatePersonas ?rt' (anthropic_key researching_services)
                       (generator_reply researching_services) (campaign_of ?f)
                       (uploaded_for_generation researching_services ?f)
                       (conductResearch ?rt' (perplexity_key researching_services)
                          (research_outcomes researching_services)
                          (get_opt ?f ''matter'') (get_opt ?f ''keywords'')
                          (get_opt ?f ''target_description'')))"
    by blast+
  from a' g have a'': "status (snd (handler ?rt' researching_services generation_request)) = 422"
    by simp
  from mode_dispatch[OF w2, of ?rt sample_services] u2 v2
  have b: "handler ?rt sample_services (enrichment_request ?good)
       = handlePersonaEnrichment ?rt sample_services (sheet_form ?good)" by blast
  from mode_dispatch[OF w3, of ?rt sample_services] u3 v3
  have c: "status (snd (handler ?rt sample_services (enrichment_request ''my sheet''))) = 400"
    by (metis snd_conv)
  from w1 a a'' w2 b w3 c show ?thesis by blast
qed

text \<open>
  A request with the required fields and the sheet URL \<^verbatim>\<open>my sheet\<close>: the URL is
  present, and the answer is status 400 with no workflow called.
\<close>

theorem invalid_sheet_url_selects_no_workflow:
  "truthy (get_opt (sheet_form ''my sheet'') ''julius_personas_sheet_url'')
   \<and> handler (sample_runtime failing_parse) sample_services (enrichment_request ''my sheet'')
     = ([], \<lparr>status = 400, payload = JObj [(''error'', JStr ''Invalid Google Sheets URL'')]\<rparr>)"
  by code_simp

end
